theory Spec2Isabelle
  imports Complex_Main
begin

section \<open>Data model\<close>

text \<open>
  The swap lifecycle engine of \<^verbatim>\<open>lib/swap/LiquidNursery.ts\<close> (class \<^verbatim>\<open>RskNursery\<close>) and the
  repository of \<^verbatim>\<open>lib/db/ReverseSwapRepository.ts\<close>.

  Numbers. A \<^verbatim>\<open>BigNumber\<close> is an \<^typ>\<open>int\<close>: its arithmetic is exact. A JavaScript
  \<^verbatim>\<open>number\<close> that the sources only compare or pass on, and that holds an integer (a block
  height, a fee, the result of \<^verbatim>\<open>toNumber\<close>), is an \<^typ>\<open>int\<close> as well. The
  \<^verbatim>\<open>expectedAmount\<close> of a swap is a \<^verbatim>\<open>number\<close> that the handler converts with
  \<^verbatim>\<open>BigNumber.from\<close>, which refuses fractions: it is the \<^typ>\<open>rat\<close> it denotes (\<^verbatim>\<open>NaN\<close> and
  the infinities are left out). The conversions between the two throw outside their range;
  what is thrown is a \<open>Fault\<close>.
\<close>

datatype Fault = Overflow | Underflow | DivisionByZero | Thrown string

text \<open>
  \<^verbatim>\<open>BigNumber.div\<close> truncates and throws on a zero divisor. \<^verbatim>\<open>BigNumber.toNumber\<close> throws
  when the value does not fit 53 bits. \<^verbatim>\<open>BigNumber.from\<close> of a \<^verbatim>\<open>number\<close> throws an
  underflow when the number has a fraction (\<^verbatim>\<open>value % 1\<close>) and an overflow when it is not
  strictly between \<open>- (2 ^ 53 - 1)\<close> and \<open>2 ^ 53 - 1\<close>.
\<close>

definition bigNumberDiv :: "int \<Rightarrow> int \<Rightarrow> Fault + int" where
  "bigNumberDiv a b =
     (if b = 0 then Inl DivisionByZero else Inr (sgn a * sgn b * (\<bar>a\<bar> div \<bar>b\<bar>)))"

definition toNumber :: "int \<Rightarrow> Fault + int" where
  "toNumber x = (if \<bar>x\<bar> < 2 ^ 53 then Inr x else Inl Overflow)"

definition bigNumberFrom :: "rat \<Rightarrow> Fault + int" where
  "bigNumberFrom x =
     (if of_int \<lfloor>x\<rfloor> \<noteq> x then Inl Underflow
      else if x \<ge> 2 ^ 53 - 1 \<or> x \<le> - (2 ^ 53 - 1) then Inl Overflow
      else Inr \<lfloor>x\<rfloor>)"

text \<open>
  \<^verbatim>\<open>SwapUpdateEvent\<close>, \<^verbatim>\<open>CurrencyType\<close> and \<^verbatim>\<open>OrderSide\<close> are declared in
  \<^verbatim>\<open>consts/Enums\<close>; the members are those the sources and the lifecycle document name.
\<close>

datatype SwapUpdateEvent =
    SwapCreated
  | SwapExpired
  | InvoiceSet
  | InvoicePaid
  | InvoiceSettled
  | InvoiceFailedToPay
  | InvoiceExpired
  | ChannelCreated
  | MinerFeePaid
  | TransactionFailed
  | TransactionMempool
  | TransactionClaimed
  | TransactionRefunded
  | TransactionConfirmed

datatype CurrencyType = BitcoinLike | Ether | ERC20 | Rbtc

datatype OrderSide = BUY | SELL

type_synonym Buffer = "nat list"

text \<open>
  The values of a lockup event (\<^verbatim>\<open>consts/Types\<close>): \<^verbatim>\<open>ERC20SwapValues\<close> is
  \<^verbatim>\<open>EtherSwapValues\<close> with the address of the token.
\<close>

record EtherSwapValues =
  preimageHash :: Buffer
  amount :: int
  claimAddress :: string
  refundAddress :: string
  timelock :: int

record ERC20SwapValues = EtherSwapValues +
  tokenAddress :: string

text \<open>
  The two database models. Both carry the columns of \<open>SwapCommon\<close>; a \<^verbatim>\<open>Swap\<close> adds what
  the lockup handlers read and write, a \<^verbatim>\<open>ReverseSwap\<close> what
  \<^verbatim>\<open>ReverseSwapRepository\<close> writes. An optional column is an \<open>option\<close>.
\<close>

record SwapCommon =
  swapId :: string
  pair :: string
  orderSide :: OrderSide
  preimageHash :: string
  status :: SwapUpdateEvent
  timeoutBlockHeight :: int
  minerFee :: "int option"

record Swap = SwapCommon +
  expectedAmount :: "rat option"
  lockupTransactionId :: "string option"
  lockupTransactionVout :: "int option"

record ReverseSwap = SwapCommon +
  transactionId :: "string option"
  transactionVout :: "int option"
  preimage :: "string option"
  failureReason :: "string option"
  rawTx :: "string option"

text \<open>
  A wallet of \<^verbatim>\<open>WalletManager.wallets\<close>. Of its provider the handlers use the three
  members of \<^verbatim>\<open>ERC20WalletProvider\<close>, whose bodies are not part of the sources here: the
  two unit conversions are parameters, from a \<^verbatim>\<open>BigNumber\<close> to a \<^verbatim>\<open>number\<close> and from a
  \<^verbatim>\<open>number\<close> to a \<^verbatim>\<open>BigNumber\<close>, and either may throw.
\<close>

record ERC20WalletProvider =
  getTokenAddress :: string
  normalizeTokenAmount :: "int \<Rightarrow> Fault + int"
  formatTokenAmount :: "rat \<Rightarrow> Fault + int"

record Wallet =
  symbol :: string
  currencyType :: CurrencyType
  walletProvider :: ERC20WalletProvider

record ContractTransaction =
  hash :: string

text \<open>
  What the nursery is constructed with: the address of the manager, the wallets, the
  constant \<^verbatim>\<open>etherDecimals\<close> of \<^verbatim>\<open>consts/Consts\<close>, the helpers of \<^verbatim>\<open>Utils\<close> and the
  transaction lookup of the provider, which throws (\<open>Inl\<close>), answers \<^verbatim>\<open>null\<close>
  (\<open>Inr None\<close>) or answers the transaction.
\<close>

record Nursery =
  address :: string
  etherDecimals :: int
  wallets :: "string \<Rightarrow> Wallet option"
  getHexString :: "Buffer \<Rightarrow> string"
  splitPairId :: "string \<Rightarrow> string \<times> string"
  getChainCurrency :: "string \<Rightarrow> string \<Rightarrow> OrderSide \<Rightarrow> bool \<Rightarrow> string"
  getTransaction :: "string option \<Rightarrow> string + ContractTransaction option"

text \<open>
  The errors of \<^verbatim>\<open>swap/Errors\<close> whose \<^verbatim>\<open>message\<close> a \<^verbatim>\<open>lockup.failed\<close> event carries: the
  message is the constructor with the arguments of the call.
\<close>

datatype Reason =
    INVALID_CLAIM_ADDRESS string string
  | INVALID_TIMELOCK int int
  | INVALID_TOKEN_LOCKED string string
  | INSUFFICIENT_AMOUNT int rat

text \<open>The events the nursery emits, each with its payload.\<close>

datatype Event =
    EthLockup Swap string EtherSwapValues
  | Erc20Lockup Swap string ERC20SwapValues
  | LockupFailed Swap Reason
  | ReverseSwapExpired ReverseSwap bool
  | LockupFailedToSend ReverseSwap Fault
  | LockupConfirmed ReverseSwap string
  | Claim ReverseSwap Buffer

text \<open>
  The state the handlers act on: the two tables, the events emitted so far (oldest
  first), the confirmation watchers whose wait is pending, and what the handlers have
  thrown with nothing to catch it (a handler is an \<^verbatim>\<open>async\<close> function: a throw ends it and
  rejects its promise).
\<close>

record NurseryState =
  swaps :: "Swap list"
  reverseSwaps :: "ReverseSwap list"
  emitted :: "Event list"
  watching :: "(ReverseSwap \<times> ContractTransaction) list"
  unhandled :: "Fault list"

definition emit :: "Event \<Rightarrow> NurseryState \<Rightarrow> NurseryState" where
  "emit e st = st\<lparr>emitted := emitted st @ [e]\<rparr>"

definition unhandledRejection :: "Fault \<Rightarrow> NurseryState \<Rightarrow> NurseryState" where
  "unhandledRejection fault st = st\<lparr>unhandled := unhandled st @ [fault]\<rparr>"

section \<open>Repositories\<close>

text \<open>
  Modelled from the spec: \<^verbatim>\<open>SwapRepository\<close> (\<^verbatim>\<open>lib/db/SwapRepository.ts\<close>) is missing.
  \<open>update_Swap\<close> is the \<^verbatim>\<open>updateSwap(swap, fields)\<close> of the repository contract: it writes
  the fields to the record with the identity of the swap and returns the post-update
  record.
\<close>

definition update_Swap ::
  "(Swap \<Rightarrow> Swap) \<Rightarrow> Swap \<Rightarrow> NurseryState \<Rightarrow> Swap \<times> NurseryState" where
  "update_Swap f swap st =
     (f swap,
      st\<lparr>swaps := map (\<lambda>row. if swapId row = swapId swap then f row else row) (swaps st)\<rparr>)"

text \<open>
  Modelled from the spec: \<^verbatim>\<open>SwapRepository.getSwap\<close> is missing. It is the
  \<^verbatim>\<open>findOneSwap(predicate)\<close> of the repository contract, as \<^verbatim>\<open>getReverseSwap\<close> below is
  \<^verbatim>\<open>findOne\<close>.
\<close>

definition getSwap :: "(Swap \<Rightarrow> bool) \<Rightarrow> NurseryState \<Rightarrow> Swap option" where
  "getSwap options st = find options (swaps st)"

text \<open>
  Modelled from the spec: \<^verbatim>\<open>SwapRepository.setLockupTransaction\<close> is missing. Recording a
  lockup sets \<^verbatim>\<open>lockupTransactionId\<close> to the transaction hash, updates \<^verbatim>\<open>minerFee\<close> (to the
  number passed, as \<^verbatim>\<open>ReverseSwapRepository.setLockupTransaction\<close> does) and sets the
  status to \<^verbatim>\<open>transaction.mempool\<close>, whatever the flag the caller passes last.
\<close>

definition swapRepository_setLockupTransaction ::
  "Swap \<Rightarrow> string \<Rightarrow> int \<Rightarrow> bool \<Rightarrow> NurseryState \<Rightarrow> Swap \<times> NurseryState" where
  "swapRepository_setLockupTransaction swap transactionHash fee confirmed =
     update_Swap
       (\<lambda>s. s\<lparr>lockupTransactionId := Some transactionHash, minerFee := Some fee,
               status := TransactionMempool\<rparr>)
       swap"

text \<open>
  \<^verbatim>\<open>findAll\<close> answers the rows that satisfy the \<^verbatim>\<open>where\<close> clause, \<^verbatim>\<open>findOne\<close> the first of
  them. In a clause \<^verbatim>\<open>[Op.not]\<close> of a list is \<^verbatim>\<open>NOT IN\<close>, \<^verbatim>\<open>[Op.not]\<close> of a value is \<open>\<noteq>\<close>,
  \<^verbatim>\<open>[Op.or]\<close> of values is equality with one of them, and \<^verbatim>\<open>[Op.lte]\<close> is \<open>\<le>\<close>.
\<close>

definition getReverseSwaps :: "(ReverseSwap \<Rightarrow> bool) \<Rightarrow> NurseryState \<Rightarrow> ReverseSwap list" where
  "getReverseSwaps options st = filter options (reverseSwaps st)"

definition getReverseSwap :: "(ReverseSwap \<Rightarrow> bool) \<Rightarrow> NurseryState \<Rightarrow> ReverseSwap option" where
  "getReverseSwap options st = find options (reverseSwaps st)"

definition getReverseSwapsExpirable :: "int \<Rightarrow> NurseryState \<Rightarrow> ReverseSwap list" where
  "getReverseSwapsExpirable height st =
     filter
       (\<lambda>r. status r \<notin> set [SwapExpired, TransactionFailed, TransactionRefunded, InvoiceSettled,
                              TransactionMempool]
            \<and> timeoutBlockHeight r \<le> height)
       (reverseSwaps st)"

text \<open>
  \<^verbatim>\<open>Model.update\<close> of the ORM (Sequelize) on an instance of \<^verbatim>\<open>ReverseSwap\<close>. It sets the
  given columns on the instance, which is the object the caller holds. When that changes
  no column of the instance, \<^verbatim>\<open>save\<close> returns at once and no \<^verbatim>\<open>UPDATE\<close> is issued: the row
  stays as it is, whatever it holds. Otherwise the \<^verbatim>\<open>UPDATE\<close> sets the given columns of the
  row with the primary key of the instance, unless the database rejects it: \<open>answer\<close> is
  what the database answers, \<open>None\<close> when it accepts. The result is the rejection, if any,
  the instance after the call and the state. The instance is taken to come in with no
  change of an earlier call still unsaved, other than the value a rejected write left on
  it, which the next call of the nursery overwrites with another.
\<close>

definition update_ReverseSwap ::
  "(ReverseSwap \<Rightarrow> ReverseSwap) \<Rightarrow> ReverseSwap \<Rightarrow> Fault option \<Rightarrow> NurseryState
     \<Rightarrow> Fault option \<times> ReverseSwap \<times> NurseryState" where
  "update_ReverseSwap f reverseSwap answer st =
     (if f reverseSwap = reverseSwap then (None, reverseSwap, st)
      else
        (case answer of
           Some fault \<Rightarrow> (Some fault, f reverseSwap, st)
         | None \<Rightarrow>
             (None, f reverseSwap,
              st\<lparr>reverseSwaps :=
                   map (\<lambda>row. if swapId row = swapId reverseSwap then f row else row)
                     (reverseSwaps st)\<rparr>)))"

text \<open>
  \<^verbatim>\<open>setReverseSwapStatus\<close> passes \<^verbatim>\<open>{ status, failureReason }\<close> to \<^verbatim>\<open>update\<close>, which first
  discards the entries of its argument whose value is \<^verbatim>\<open>undefined\<close>
  (\<^verbatim>\<open>values = _.omitBy(values, value => value === undefined)\<close>): a \<^verbatim>\<open>failureReason\<close> that
  the caller omits is not among the given columns.
\<close>

definition setReverseSwapStatus ::
  "ReverseSwap \<Rightarrow> SwapUpdateEvent \<Rightarrow> string option \<Rightarrow> Fault option \<Rightarrow> NurseryState
     \<Rightarrow> Fault option \<times> ReverseSwap \<times> NurseryState" where
  "setReverseSwapStatus reverseSwap newStatus reason =
     update_ReverseSwap
       (\<lambda>r. (case reason of None \<Rightarrow> r | Some given \<Rightarrow> r\<lparr>failureReason := Some given\<rparr>)
              \<lparr>status := newStatus\<rparr>)
       reverseSwap"

section \<open>The nursery\<close>

definition getEthereumWallet :: "Nursery \<Rightarrow> string \<Rightarrow> Wallet option" where
  "getEthereumWallet n currency =
     (case wallets n currency of
        None \<Rightarrow> None
      | Some wallet \<Rightarrow>
          if currencyType wallet = Rbtc \<or> currencyType wallet = ERC20 then Some wallet else None)"

text \<open>The chain a record settles on: \<^verbatim>\<open>splitPairId\<close>, then \<^verbatim>\<open>getChainCurrency\<close>.\<close>

definition chainCurrencyOf :: "Nursery \<Rightarrow> string \<Rightarrow> OrderSide \<Rightarrow> bool \<Rightarrow> string" where
  "chainCurrencyOf n pairId side isReverse =
     (case splitPairId n pairId of (base, quote) \<Rightarrow> getChainCurrency n base quote side isReverse)"

subsection \<open>Lockup events\<close>

definition lockupQuery :: "Nursery \<Rightarrow> Buffer \<Rightarrow> Swap \<Rightarrow> bool" where
  "lockupQuery n hashBuffer s \<longleftrightarrow>
     SwapCommon.preimageHash s = getHexString n hashBuffer
     \<and> (status s = SwapCreated \<or> status s = InvoiceSet)"

text \<open>\<^verbatim>\<open>etherSwapValues.amount.div(etherDecimals).toNumber()\<close>.\<close>

definition etherAmountToNumber :: "Nursery \<Rightarrow> int \<Rightarrow> Fault + int" where
  "etherAmountToNumber n wei =
     (case bigNumberDiv wei (etherDecimals n) of
        Inl fault \<Rightarrow> Inl fault
      | Inr divided \<Rightarrow> toNumber divided)"

text \<open>
  The handler of \<^verbatim>\<open>eth.lockup\<close>. The arguments of \<^verbatim>\<open>setLockupTransaction\<close> are evaluated
  before the call, so a conversion of the amount that throws ends the handler before
  anything is written; \<^verbatim>\<open>BigNumber.from(swap.expectedAmount)\<close> is evaluated after the write
  and the two tests before it.
\<close>

definition listenEtherSwap_lockup ::
  "Nursery \<Rightarrow> string \<Rightarrow> EtherSwapValues \<Rightarrow> NurseryState \<Rightarrow> NurseryState" where
  "listenEtherSwap_lockup n transactionHash etherSwapValues st =
     (case getSwap (lockupQuery n (EtherSwapValues.preimageHash etherSwapValues)) st of
        None \<Rightarrow> st
      | Some found \<Rightarrow>
          if chainCurrencyOf n (pair found) (orderSide found) False \<noteq> ''RBTC'' then st
          else
            (case etherAmountToNumber n (amount etherSwapValues) of
               Inl fault \<Rightarrow> unhandledRejection fault st
             | Inr onchainAmount \<Rightarrow>
                 (case swapRepository_setLockupTransaction found transactionHash onchainAmount
                         True st of
                    (swap, st1) \<Rightarrow>
                      if claimAddress etherSwapValues \<noteq> address n then
                        emit (LockupFailed swap
                               (INVALID_CLAIM_ADDRESS (claimAddress etherSwapValues) (address n)))
                          st1
                      else if timelock etherSwapValues \<noteq> timeoutBlockHeight swap then
                        emit (LockupFailed swap
                               (INVALID_TIMELOCK (timelock etherSwapValues)
                                  (timeoutBlockHeight swap))) st1
                      else
                        (case expectedAmount swap of
                           None \<Rightarrow> emit (EthLockup swap transactionHash etherSwapValues) st1
                         | Some expected \<Rightarrow>
                             if expected = 0 then
                               emit (EthLockup swap transactionHash etherSwapValues) st1
                             else
                               (case bigNumberFrom expected of
                                  Inl fault \<Rightarrow> unhandledRejection fault st1
                                | Inr whole \<Rightarrow>
                                    if whole * etherDecimals n > amount etherSwapValues then
                                      (case etherAmountToNumber n (amount etherSwapValues) of
                                         Inl fault \<Rightarrow> unhandledRejection fault st1
                                       | Inr shown \<Rightarrow>
                                           emit (LockupFailed swap
                                                  (INSUFFICIENT_AMOUNT shown expected)) st1)
                                    else
                                      emit (EthLockup swap transactionHash etherSwapValues)
                                        st1)))))"

definition listenERC20Swap_lockup ::
  "Nursery \<Rightarrow> string \<Rightarrow> ERC20SwapValues \<Rightarrow> NurseryState \<Rightarrow> NurseryState" where
  "listenERC20Swap_lockup n transactionHash erc20SwapValues st =
     (case getSwap (lockupQuery n (EtherSwapValues.preimageHash erc20SwapValues)) st of
        None \<Rightarrow> st
      | Some found \<Rightarrow>
          (case wallets n (chainCurrencyOf n (pair found) (orderSide found) False) of
             None \<Rightarrow> st
           | Some wallet \<Rightarrow>
               if currencyType wallet \<noteq> ERC20 then st
               else
                 (case normalizeTokenAmount (walletProvider wallet) (amount erc20SwapValues) of
                    Inl fault \<Rightarrow> unhandledRejection fault st
                  | Inr onchainAmount \<Rightarrow>
                      (case swapRepository_setLockupTransaction found transactionHash
                              onchainAmount True st of
                         (swap, st1) \<Rightarrow>
                           if claimAddress erc20SwapValues \<noteq> address n then
                             emit (LockupFailed swap
                                    (INVALID_CLAIM_ADDRESS (claimAddress erc20SwapValues)
                                       (address n))) st1
                           else if tokenAddress erc20SwapValues
                                     \<noteq> getTokenAddress (walletProvider wallet) then
                             emit (LockupFailed swap
                                    (INVALID_TOKEN_LOCKED (tokenAddress erc20SwapValues)
                                       (address n))) st1
                           else if timelock erc20SwapValues \<noteq> timeoutBlockHeight swap then
                             emit (LockupFailed swap
                                    (INVALID_TIMELOCK (timelock erc20SwapValues)
                                       (timeoutBlockHeight swap))) st1
                           else
                             (case expectedAmount swap of
                                None \<Rightarrow>
                                  emit (Erc20Lockup swap transactionHash erc20SwapValues) st1
                              | Some expected \<Rightarrow>
                                  if expected = 0 then
                                    emit (Erc20Lockup swap transactionHash erc20SwapValues) st1
                                  else
                                    (case formatTokenAmount (walletProvider wallet) expected of
                                       Inl fault \<Rightarrow> unhandledRejection fault st1
                                     | Inr required \<Rightarrow>
                                         if required > amount erc20SwapValues then
                                           (case normalizeTokenAmount (walletProvider wallet)
                                                   (amount erc20SwapValues) of
                                              Inl fault \<Rightarrow> unhandledRejection fault st1
                                            | Inr shown \<Rightarrow>
                                                emit (LockupFailed swap
                                                       (INSUFFICIENT_AMOUNT shown expected))
                                                  st1)
                                         else
                                           emit
                                             (Erc20Lockup swap transactionHash erc20SwapValues)
                                             st1))))))"

subsection \<open>Claim events\<close>

definition claimQuery :: "Nursery \<Rightarrow> Buffer \<Rightarrow> ReverseSwap \<Rightarrow> bool" where
  "claimQuery n hashBuffer r \<longleftrightarrow>
     SwapCommon.preimageHash r = getHexString n hashBuffer \<and> status r \<noteq> InvoiceSettled"

definition listenEtherSwap_claim ::
  "Nursery \<Rightarrow> string \<Rightarrow> Buffer \<Rightarrow> Buffer \<Rightarrow> NurseryState \<Rightarrow> NurseryState" where
  "listenEtherSwap_claim n transactionHash hashBuffer revealed st =
     (case getReverseSwap (claimQuery n hashBuffer) st of
        None \<Rightarrow> st
      | Some reverseSwap \<Rightarrow> emit (Claim reverseSwap revealed) st)"

definition listenERC20Swap_claim ::
  "Nursery \<Rightarrow> string \<Rightarrow> Buffer \<Rightarrow> Buffer \<Rightarrow> NurseryState \<Rightarrow> NurseryState" where
  "listenERC20Swap_claim n transactionHash hashBuffer revealed st =
     (case getReverseSwap (claimQuery n hashBuffer) st of
        None \<Rightarrow> st
      | Some reverseSwap \<Rightarrow> emit (Claim reverseSwap revealed) st)"

subsection \<open>Confirmation watcher and startup recovery\<close>

text \<open>
  \<^verbatim>\<open>listenContractTransaction\<close> builds \<^verbatim>\<open>transaction.wait(1).then(A).catch(B)\<close>. Attaching is
  \<open>listenContractTransaction\<close>: the wait is pending. A pending wait settles once, resolved
  or rejected with a reason; \<open>transactionWaitSettled\<close> is the settling of the wait at
  position \<open>i\<close> of the pending ones, which leaves them.

  In the callbacks the write may be rejected by the database and a listener of the event
  may throw; what they do in one settling is the \<open>CallbackRun\<close>. The success callback \<^verbatim>\<open>A\<close>
  awaits the write and then emits: a rejected write throws before the event is emitted, a
  throwing listener after. \<^verbatim>\<open>catch(B)\<close> follows \<^verbatim>\<open>then(A)\<close>, so the failure callback \<^verbatim>\<open>B\<close>
  runs when the wait is rejected and also when \<^verbatim>\<open>A\<close> throws, with what was thrown as the
  reason and on the instance as \<^verbatim>\<open>A\<close> left it. What \<^verbatim>\<open>B\<close> throws nothing catches.
\<close>

datatype WaitOutcome = WaitResolved | WaitRejected Fault

record CallbackRun =
  confirmedSave :: "Fault option"
  confirmedListener :: "Fault option"
  failedSave :: "Fault option"
  failedListener :: "Fault option"

definition listenContractTransaction ::
  "ReverseSwap \<Rightarrow> ContractTransaction \<Rightarrow> NurseryState \<Rightarrow> NurseryState" where
  "listenContractTransaction reverseSwap transaction st =
     st\<lparr>watching := watching st @ [(reverseSwap, transaction)]\<rparr>"

definition successCallback ::
  "ReverseSwap \<Rightarrow> ContractTransaction \<Rightarrow> CallbackRun \<Rightarrow> NurseryState
     \<Rightarrow> Fault option \<times> ReverseSwap \<times> NurseryState" where
  "successCallback reverseSwap transaction run st =
     (case setReverseSwapStatus reverseSwap TransactionConfirmed None (confirmedSave run) st of
        (rejection, held, st1) \<Rightarrow>
          (case rejection of
             Some fault \<Rightarrow> (Some fault, held, st1)
           | None \<Rightarrow>
               (confirmedListener run, held,
                emit (LockupConfirmed held (hash transaction)) st1)))"

definition failureCallback ::
  "ReverseSwap \<Rightarrow> Fault \<Rightarrow> CallbackRun \<Rightarrow> NurseryState \<Rightarrow> NurseryState" where
  "failureCallback reverseSwap reason run st =
     (case setReverseSwapStatus reverseSwap TransactionFailed None (failedSave run) st of
        (rejection, held, st1) \<Rightarrow>
          (case rejection of
             Some fault \<Rightarrow> unhandledRejection fault st1
           | None \<Rightarrow>
               (case failedListener run of
                  None \<Rightarrow> emit (LockupFailedToSend held reason) st1
                | Some fault \<Rightarrow>
                    unhandledRejection fault (emit (LockupFailedToSend held reason) st1))))"

definition transactionWaitSettled ::
  "nat \<Rightarrow> WaitOutcome \<Rightarrow> CallbackRun \<Rightarrow> NurseryState \<Rightarrow> NurseryState" where
  "transactionWaitSettled i outcome run st =
     (if length (watching st) \<le> i then st
      else
        (case watching st ! i of
           (reverseSwap, transaction) \<Rightarrow>
             (case outcome of
                WaitRejected reason \<Rightarrow>
                  failureCallback reverseSwap reason run
                    (st\<lparr>watching := take i (watching st) @ drop (Suc i) (watching st)\<rparr>)
              | WaitResolved \<Rightarrow>
                  (case successCallback reverseSwap transaction run
                          (st\<lparr>watching := take i (watching st) @ drop (Suc i) (watching st)\<rparr>) of
                     (thrown, held, st1) \<Rightarrow>
                       (case thrown of
                          None \<Rightarrow> st1
                        | Some fault \<Rightarrow> failureCallback held fault run st1)))))"

text \<open>
  The loop of \<^verbatim>\<open>init\<close>. A lookup that throws is caught; a lookup that answers \<^verbatim>\<open>null\<close>
  makes \<^verbatim>\<open>transaction.wait\<close> throw inside the same \<^verbatim>\<open>try\<close>, which is caught as well.
\<close>

fun initLoop :: "Nursery \<Rightarrow> ReverseSwap list \<Rightarrow> NurseryState \<Rightarrow> NurseryState" where
  "initLoop n [] st = st"
| "initLoop n (mempoolReverseSwap # rest) st =
     (if getEthereumWallet n
           (chainCurrencyOf n (pair mempoolReverseSwap) (orderSide mempoolReverseSwap) True) = None
      then initLoop n rest st
      else
        (case getTransaction n (transactionId mempoolReverseSwap) of
           Inl thrown \<Rightarrow> initLoop n rest st
         | Inr None \<Rightarrow> initLoop n rest st
         | Inr (Some transaction) \<Rightarrow>
             initLoop n rest (listenContractTransaction mempoolReverseSwap transaction st)))"

definition init :: "Nursery \<Rightarrow> NurseryState \<Rightarrow> NurseryState" where
  "init n st = initLoop n (getReverseSwaps (\<lambda>r. status r = TransactionMempool) st) st"

subsection \<open>Expiry of reverse swaps\<close>

fun expireLoop :: "Nursery \<Rightarrow> ReverseSwap list \<Rightarrow> NurseryState \<Rightarrow> NurseryState" where
  "expireLoop n [] st = st"
| "expireLoop n (expirableReverseSwap # rest) st =
     (case getEthereumWallet n
             (chainCurrencyOf n (pair expirableReverseSwap) (orderSide expirableReverseSwap) True) of
        None \<Rightarrow> expireLoop n rest st
      | Some wallet \<Rightarrow>
          expireLoop n rest
            (emit (ReverseSwapExpired expirableReverseSwap (symbol wallet = ''RBTC'')) st))"

definition checkExpiredReverseSwaps :: "Nursery \<Rightarrow> int \<Rightarrow> NurseryState \<Rightarrow> NurseryState" where
  "checkExpiredReverseSwaps n height st = expireLoop n (getReverseSwapsExpirable height st) st"

section \<open>The validator as the specification words it\<close>

text \<open>
  The specification describes the checks of the handlers as a validator: each check
  passes or answers its rejection reason, and the verdict is that of the first check that
  does not pass, in a given order. The four checks below are those of the handlers, with
  the arguments the handlers give the errors; the amount check converts numbers and so
  may throw instead. \<open>firstFailing\<close> runs a list of checks in the order of the list.
\<close>

datatype Verdict = Pass | Reject Reason | Throws Fault

definition claimAddressCheck :: "Nursery \<Rightarrow> 'a EtherSwapValues_scheme \<Rightarrow> Verdict" where
  "claimAddressCheck n observed =
     (if claimAddress observed \<noteq> address n
      then Reject (INVALID_CLAIM_ADDRESS (claimAddress observed) (address n)) else Pass)"

definition timelockCheck :: "Swap \<Rightarrow> 'a EtherSwapValues_scheme \<Rightarrow> Verdict" where
  "timelockCheck swap observed =
     (if timelock observed \<noteq> timeoutBlockHeight swap
      then Reject (INVALID_TIMELOCK (timelock observed) (timeoutBlockHeight swap)) else Pass)"

definition tokenAddressCheck :: "Nursery \<Rightarrow> Wallet \<Rightarrow> ERC20SwapValues \<Rightarrow> Verdict" where
  "tokenAddressCheck n wallet observed =
     (if tokenAddress observed \<noteq> getTokenAddress (walletProvider wallet)
      then Reject (INVALID_TOKEN_LOCKED (tokenAddress observed) (address n)) else Pass)"

definition amountCheck ::
  "(rat \<Rightarrow> Fault + int) \<Rightarrow> (int \<Rightarrow> Fault + int) \<Rightarrow> Swap \<Rightarrow> 'a EtherSwapValues_scheme
     \<Rightarrow> Verdict" where
  "amountCheck toChainUnits toDisplayUnits swap observed =
     (case expectedAmount swap of
        None \<Rightarrow> Pass
      | Some expected \<Rightarrow>
          if expected = 0 then Pass
          else
            (case toChainUnits expected of
               Inl fault \<Rightarrow> Throws fault
             | Inr required \<Rightarrow>
                 if required > amount observed then
                   (case toDisplayUnits (amount observed) of
                      Inl fault \<Rightarrow> Throws fault
                    | Inr shown \<Rightarrow> Reject (INSUFFICIENT_AMOUNT shown expected))
                 else Pass))"

text \<open>\<^verbatim>\<open>BigNumber.from(swap.expectedAmount).mul(etherDecimals)\<close>.\<close>

definition etherExpectedAmount :: "Nursery \<Rightarrow> rat \<Rightarrow> Fault + int" where
  "etherExpectedAmount n expected =
     (case bigNumberFrom expected of
        Inl fault \<Rightarrow> Inl fault
      | Inr whole \<Rightarrow> Inr (whole * etherDecimals n))"

fun firstFailing :: "Verdict list \<Rightarrow> Verdict" where
  "firstFailing [] = Pass"
| "firstFailing (Pass # checks) = firstFailing checks"
| "firstFailing (Reject reason # checks) = Reject reason"
| "firstFailing (Throws fault # checks) = Throws fault"

text \<open>
  What a handler does with a verdict: it emits the lockup event of its contract, or
  \<^verbatim>\<open>lockup.failed\<close> with the reason, or ends on the throw with no event.
\<close>

definition concluded :: "Verdict \<Rightarrow> Event \<Rightarrow> Swap \<Rightarrow> NurseryState \<Rightarrow> NurseryState" where
  "concluded verdict accepted swap st =
     (case verdict of
        Pass \<Rightarrow> emit accepted st
      | Reject reason \<Rightarrow> emit (LockupFailed swap reason) st
      | Throws fault \<Rightarrow> unhandledRejection fault st)"

definition announced :: "Verdict \<Rightarrow> Event \<Rightarrow> Swap \<Rightarrow> Event list" where
  "announced verdict accepted swap =
     (case verdict of
        Pass \<Rightarrow> [accepted]
      | Reject reason \<Rightarrow> [LockupFailed swap reason]
      | Throws fault \<Rightarrow> [])"

text \<open>
  A lockup event matches a swap on this chain: the lookup answers the swap and the
  handler passes its test of the chain.
\<close>

definition etherLockupMatch ::
  "Nursery \<Rightarrow> EtherSwapValues \<Rightarrow> NurseryState \<Rightarrow> Swap \<Rightarrow> bool" where
  "etherLockupMatch n observed st found \<longleftrightarrow>
     getSwap (lockupQuery n (EtherSwapValues.preimageHash observed)) st = Some found
     \<and> chainCurrencyOf n (pair found) (orderSide found) False = ''RBTC''"

definition erc20LockupMatch ::
  "Nursery \<Rightarrow> ERC20SwapValues \<Rightarrow> NurseryState \<Rightarrow> Swap \<Rightarrow> Wallet \<Rightarrow> bool" where
  "erc20LockupMatch n observed st found wallet \<longleftrightarrow>
     getSwap (lockupQuery n (EtherSwapValues.preimageHash observed)) st = Some found
     \<and> wallets n (chainCurrencyOf n (pair found) (orderSide found) False) = Some wallet
     \<and> currencyType wallet = ERC20"

text \<open>
  The swap the handler goes on with, and the state, once the lockup is recorded with
  the amount as converted.
\<close>

definition lockupRecorded ::
  "Swap \<Rightarrow> string \<Rightarrow> int \<Rightarrow> NurseryState \<Rightarrow> Swap \<times> NurseryState" where
  "lockupRecorded found transactionHash onchainAmount st =
     swapRepository_setLockupTransaction found transactionHash onchainAmount True st"

text \<open>The event the expiry scan emits for one expirable reverse swap, if any.\<close>

definition expiredEvent :: "Nursery \<Rightarrow> ReverseSwap \<Rightarrow> Event option" where
  "expiredEvent n r =
     (case getEthereumWallet n (chainCurrencyOf n (pair r) (orderSide r) True) of
        None \<Rightarrow> None
      | Some wallet \<Rightarrow> Some (ReverseSwapExpired r (symbol wallet = ''RBTC'')))"

text \<open>The watcher startup recovery attaches for one pending reverse swap, if any.\<close>

definition recoveredWatcher ::
  "Nursery \<Rightarrow> ReverseSwap \<Rightarrow> (ReverseSwap \<times> ContractTransaction) option" where
  "recoveredWatcher n r =
     (if getEthereumWallet n (chainCurrencyOf n (pair r) (orderSide r) True) = None then None
      else (case getTransaction n (transactionId r) of
              Inl thrown \<Rightarrow> None
            | Inr None \<Rightarrow> None
            | Inr (Some transaction) \<Rightarrow> Some (r, transaction)))"

section \<open>Example inputs\<close>

text \<open>
  A nursery at address \<^verbatim>\<open>0xme\<close> with a native wallet, a token wallet and a Bitcoin wallet,
  \<^verbatim>\<open>etherDecimals\<close> of \<open>10 ^ 18\<close>, pairs written \<^verbatim>\<open>BASE/QUOTE\<close> and hashes in hexadecimal.
  The token wallet converts as the native asset does, with \<open>10 ^ 10\<close> units a token.
\<close>

definition hexDigit :: "nat \<Rightarrow> char" where
  "hexDigit d = ''0123456789abcdef'' ! d"

definition exampleNormalize :: "int \<Rightarrow> int \<Rightarrow> Fault + int" where
  "exampleNormalize unit a =
     (case bigNumberDiv a unit of Inl fault \<Rightarrow> Inl fault | Inr divided \<Rightarrow> toNumber divided)"

definition exampleFormat :: "int \<Rightarrow> rat \<Rightarrow> Fault + int" where
  "exampleFormat unit x =
     (case bigNumberFrom x of Inl fault \<Rightarrow> Inl fault | Inr whole \<Rightarrow> Inr (whole * unit))"

definition exampleNativeWallet :: Wallet where
  "exampleNativeWallet =
     \<lparr>symbol = ''RBTC'', currencyType = Rbtc,
      walletProvider = \<lparr>getTokenAddress = '''', normalizeTokenAmount = exampleNormalize 1,
                         formatTokenAmount = exampleFormat 1\<rparr>\<rparr>"

definition exampleTokenWallet :: Wallet where
  "exampleTokenWallet =
     \<lparr>symbol = ''SOV'', currencyType = ERC20,
      walletProvider = \<lparr>getTokenAddress = ''0xsov'',
                         normalizeTokenAmount = exampleNormalize (10 ^ 10),
                         formatTokenAmount = exampleFormat (10 ^ 10)\<rparr>\<rparr>"

definition exampleBitcoinWallet :: Wallet where
  "exampleBitcoinWallet =
     \<lparr>symbol = ''BTC'', currencyType = BitcoinLike,
      walletProvider = \<lparr>getTokenAddress = '''', normalizeTokenAmount = exampleNormalize 1,
                         formatTokenAmount = exampleFormat 1\<rparr>\<rparr>"

definition exampleNursery :: Nursery where
  "exampleNursery =
     \<lparr>address = ''0xme'',
      etherDecimals = 10 ^ 18,
      wallets = (\<lambda>currency.
         if currency = ''RBTC'' then Some exampleNativeWallet
         else if currency = ''SOV'' then Some exampleTokenWallet
         else if currency = ''BTC'' then Some exampleBitcoinWallet
         else None),
      getHexString = concat \<circ> map (\<lambda>b. [hexDigit (b div 16), hexDigit (b mod 16)]),
      splitPairId = (\<lambda>pairId. (takeWhile (\<lambda>c. c \<noteq> CHR ''/'') pairId,
                                 drop 1 (dropWhile (\<lambda>c. c \<noteq> CHR ''/'') pairId))),
      getChainCurrency = (\<lambda>base quote side isReverse.
         if isReverse then (if side = BUY then base else quote)
         else (if side = BUY then quote else base)),
      getTransaction = (\<lambda>txId.
         case txId of
           None \<Rightarrow> Inl ''invalid hash''
         | Some i \<Rightarrow>
             if i = ''0xt1'' then Inr (Some \<lparr>hash = ''0xt1''\<rparr>)
             else if i = ''0xt2'' then Inr None
             else Inl ''timeout'')\<rparr>"

definition exampleSwap :: "string \<Rightarrow> string \<Rightarrow> SwapUpdateEvent \<Rightarrow> rat option \<Rightarrow> Swap" where
  "exampleSwap ident pairId current expected =
     \<lparr>swapId = ident, pair = pairId, orderSide = BUY, preimageHash = ''ab'', status = current,
      timeoutBlockHeight = 1000, minerFee = None, expectedAmount = expected,
      lockupTransactionId = None, lockupTransactionVout = None\<rparr>"

definition exampleReverseSwap ::
  "string \<Rightarrow> string \<Rightarrow> SwapUpdateEvent \<Rightarrow> string option \<Rightarrow> string option \<Rightarrow> ReverseSwap" where
  "exampleReverseSwap ident pairId current lockup failure =
     \<lparr>swapId = ident, pair = pairId, orderSide = BUY, preimageHash = ''ab'', status = current,
      timeoutBlockHeight = 1000, minerFee = Some 7, transactionId = lockup,
      transactionVout = None, preimage = None, failureReason = failure, rawTx = None\<rparr>"

definition exampleState :: "Swap list \<Rightarrow> ReverseSwap list \<Rightarrow> NurseryState" where
  "exampleState ss rs =
     \<lparr>swaps = ss, reverseSwaps = rs, emitted = [], watching = [], unhandled = []\<rparr>"

definition exampleEtherValues :: "int \<Rightarrow> string \<Rightarrow> int \<Rightarrow> EtherSwapValues" where
  "exampleEtherValues a claimant t =
     \<lparr>EtherSwapValues.preimageHash = [171], amount = a, claimAddress = claimant,
      refundAddress = ''0xuser'', timelock = t\<rparr>"

definition exampleERC20Values :: "int \<Rightarrow> string \<Rightarrow> int \<Rightarrow> string \<Rightarrow> ERC20SwapValues" where
  "exampleERC20Values a claimant t token =
     \<lparr>EtherSwapValues.preimageHash = [171], amount = a, claimAddress = claimant,
      refundAddress = ''0xuser'', timelock = t, tokenAddress = token\<rparr>"


text \<open>A settling in which no write is rejected and no listener throws.\<close>

definition exampleRun :: CallbackRun where
  "exampleRun =
     \<lparr>confirmedSave = None, confirmedListener = None, failedSave = None,
      failedListener = None\<rparr>"

section \<open>Lemmas\<close>

lemma emit_fields [simp]:
  "emitted (emit e st) = emitted st @ [e]"
  "swaps (emit e st) = swaps st"
  "reverseSwaps (emit e st) = reverseSwaps st"
  "watching (emit e st) = watching st"
  "unhandled (emit e st) = unhandled st"
  by (simp_all add: emit_def)

lemma unhandledRejection_fields [simp]:
  "emitted (unhandledRejection fault st) = emitted st"
  "swaps (unhandledRejection fault st) = swaps st"
  "reverseSwaps (unhandledRejection fault st) = reverseSwaps st"
  "watching (unhandledRejection fault st) = watching st"
  "unhandled (unhandledRejection fault st) = unhandled st @ [fault]"
  by (simp_all add: unhandledRejection_def)

lemma update_Swap_fields [simp]:
  "fst (update_Swap f s st) = f s"
  "emitted (snd (update_Swap f s st)) = emitted st"
  "reverseSwaps (snd (update_Swap f s st)) = reverseSwaps st"
  "watching (snd (update_Swap f s st)) = watching st"
  "unhandled (snd (update_Swap f s st)) = unhandled st"
  "swaps (snd (update_Swap f s st)) =
     map (\<lambda>row. if swapId row = swapId s then f row else row) (swaps st)"
  by (simp_all add: update_Swap_def)

lemma recorded_swap:
  "fst (lockupRecorded found h fee st) =
     found\<lparr>lockupTransactionId := Some h, minerFee := Some fee, status := TransactionMempool\<rparr>"
  by (simp add: lockupRecorded_def swapRepository_setLockupTransaction_def)

lemma recorded_kept [simp]:
  "timeoutBlockHeight (fst (lockupRecorded found h fee st)) = timeoutBlockHeight found"
  "expectedAmount (fst (lockupRecorded found h fee st)) = expectedAmount found"
  by (simp_all add: recorded_swap)

lemma recorded_state [simp]:
  "emitted (snd (lockupRecorded found h fee st)) = emitted st"
  "reverseSwaps (snd (lockupRecorded found h fee st)) = reverseSwaps st"
  "watching (snd (lockupRecorded found h fee st)) = watching st"
  "unhandled (snd (lockupRecorded found h fee st)) = unhandled st"
  by (simp_all add: lockupRecorded_def swapRepository_setLockupTransaction_def)

lemma recorded_table:
  "swaps (snd (lockupRecorded found h fee st)) =
     map (\<lambda>row. if swapId row = swapId found
                 then row\<lparr>lockupTransactionId := Some h, minerFee := Some fee,
                          status := TransactionMempool\<rparr>
                 else row) (swaps st)"
  by (simp add: lockupRecorded_def swapRepository_setLockupTransaction_def)

lemma concluded_fields [simp]:
  "emitted (concluded verdict accepted swap st) = emitted st @ announced verdict accepted swap"
  "swaps (concluded verdict accepted swap st) = swaps st"
  "reverseSwaps (concluded verdict accepted swap st) = reverseSwaps st"
  "watching (concluded verdict accepted swap st) = watching st"
  by (cases verdict; simp add: concluded_def announced_def)+

lemma ether_lockup_thrown:
  assumes "etherLockupMatch n observed st found"
    and "etherAmountToNumber n (amount observed) = Inl fault"
  shows "listenEtherSwap_lockup n transactionHash observed st = unhandledRejection fault st"
  using assms by (simp add: etherLockupMatch_def listenEtherSwap_lockup_def)

lemma ether_lockup_matched:
  assumes "etherLockupMatch n observed st found"
    and "etherAmountToNumber n (amount observed) = Inr onchainAmount"
  shows "listenEtherSwap_lockup n transactionHash observed st =
     concluded
       (firstFailing
          [claimAddressCheck n observed,
           timelockCheck (fst (lockupRecorded found transactionHash onchainAmount st)) observed,
           amountCheck (etherExpectedAmount n) (etherAmountToNumber n)
             (fst (lockupRecorded found transactionHash onchainAmount st)) observed])
       (EthLockup (fst (lockupRecorded found transactionHash onchainAmount st))
          transactionHash observed)
       (fst (lockupRecorded found transactionHash onchainAmount st))
       (snd (lockupRecorded found transactionHash onchainAmount st))"
  using assms
  by (simp add: etherLockupMatch_def listenEtherSwap_lockup_def lockupRecorded_def
      claimAddressCheck_def timelockCheck_def amountCheck_def etherExpectedAmount_def
      concluded_def case_prod_beta
      split: option.splits sum.splits)

lemma erc20_lockup_thrown:
  assumes "erc20LockupMatch n observed st found wallet"
    and "normalizeTokenAmount (walletProvider wallet) (amount observed) = Inl fault"
  shows "listenERC20Swap_lockup n transactionHash observed st = unhandledRejection fault st"
  using assms by (simp add: erc20LockupMatch_def listenERC20Swap_lockup_def)

lemma erc20_lockup_matched:
  assumes "erc20LockupMatch n observed st found wallet"
    and "normalizeTokenAmount (walletProvider wallet) (amount observed) = Inr onchainAmount"
  shows "listenERC20Swap_lockup n transactionHash observed st =
     concluded
       (firstFailing
          [claimAddressCheck n observed,
           tokenAddressCheck n wallet observed,
           timelockCheck (fst (lockupRecorded found transactionHash onchainAmount st)) observed,
           amountCheck (formatTokenAmount (walletProvider wallet))
             (normalizeTokenAmount (walletProvider wallet))
             (fst (lockupRecorded found transactionHash onchainAmount st)) observed])
       (Erc20Lockup (fst (lockupRecorded found transactionHash onchainAmount st))
          transactionHash observed)
       (fst (lockupRecorded found transactionHash onchainAmount st))
       (snd (lockupRecorded found transactionHash onchainAmount st))"
  using assms
  by (simp add: erc20LockupMatch_def listenERC20Swap_lockup_def lockupRecorded_def
      claimAddressCheck_def timelockCheck_def amountCheck_def tokenAddressCheck_def
      concluded_def case_prod_beta
      split: option.splits sum.splits)

lemma safe_integer_bounds:
  "(2 ^ 53 - 1 \<le> (of_int z :: rat)) \<longleftrightarrow> 2 ^ 53 - 1 \<le> z"
  "((of_int z :: rat) \<le> - (2 ^ 53 - 1)) \<longleftrightarrow> z \<le> - (2 ^ 53 - 1)"
proof -
  have bound: "(2 ^ 53 - 1 :: rat) = of_int (2 ^ 53 - 1)" by simp
  show "(2 ^ 53 - 1 \<le> (of_int z :: rat)) \<longleftrightarrow> 2 ^ 53 - 1 \<le> z"
    unfolding bound by (rule of_int_le_iff)
  have "((of_int z :: rat) \<le> - (2 ^ 53 - 1)) \<longleftrightarrow> (of_int z :: rat) \<le> of_int (- (2 ^ 53 - 1))"
    by simp
  also have "\<dots> \<longleftrightarrow> z \<le> - (2 ^ 53 - 1)"
    by (rule of_int_le_iff)
  finally show "((of_int z :: rat) \<le> - (2 ^ 53 - 1)) \<longleftrightarrow> z \<le> - (2 ^ 53 - 1)" .
qed

lemma bigNumberFrom_of_int:
  "bigNumberFrom (of_int z) = (if \<bar>z\<bar> < 2 ^ 53 - 1 then Inr z else Inl Overflow)"
proof -
  have "bigNumberFrom (of_int z)
          = (if 2 ^ 53 - 1 \<le> (of_int z :: rat) \<or> (of_int z :: rat) \<le> - (2 ^ 53 - 1)
             then Inl Overflow else Inr z)"
    by (simp add: bigNumberFrom_def)
  also have "\<dots> = (if \<bar>z\<bar> < 2 ^ 53 - 1 then Inr z else Inl Overflow)"
    unfolding safe_integer_bounds by auto
  finally show ?thesis .
qed

lemma bigNumberFrom_Inr:
  "bigNumberFrom x = Inr whole \<longleftrightarrow> x = of_int whole \<and> \<bar>whole\<bar> < 2 ^ 53 - 1"
proof (cases "of_int \<lfloor>x\<rfloor> = x")
  case True
  then obtain z where x: "x = of_int z" by metis
  show ?thesis unfolding x bigNumberFrom_of_int by auto
next
  case False
  then have "x \<noteq> of_int whole" by auto
  with False show ?thesis by (simp add: bigNumberFrom_def)
qed

lemma example_hex: "getHexString exampleNursery [171] = ''ab''"
  by (simp add: exampleNursery_def hexDigit_def)

lemma example_chain:
  "chainCurrencyOf exampleNursery ''BTC/RBTC'' BUY False = ''RBTC''"
  "chainCurrencyOf exampleNursery ''BTC/SOV'' BUY False = ''SOV''"
  "chainCurrencyOf exampleNursery ''RBTC/BTC'' BUY True = ''RBTC''"
  "chainCurrencyOf exampleNursery ''BTC/RBTC'' BUY True = ''BTC''"
  "chainCurrencyOf exampleNursery ''LTC/BTC'' BUY True = ''LTC''"
  by (simp_all add: exampleNursery_def chainCurrencyOf_def)

lemma example_constants:
  "address exampleNursery = ''0xme''"
  "etherDecimals exampleNursery = 10 ^ 18"
  "wallets exampleNursery ''RBTC'' = Some exampleNativeWallet"
  "wallets exampleNursery ''SOV'' = Some exampleTokenWallet"
  "wallets exampleNursery ''BTC'' = Some exampleBitcoinWallet"
  "wallets exampleNursery ''LTC'' = None"
  by (simp_all add: exampleNursery_def)

lemma example_wallets:
  "getEthereumWallet exampleNursery ''RBTC'' = Some exampleNativeWallet"
  "getEthereumWallet exampleNursery ''SOV'' = Some exampleTokenWallet"
  "getEthereumWallet exampleNursery ''BTC'' = None"
  "getEthereumWallet exampleNursery ''LTC'' = None"
  by (simp_all add: getEthereumWallet_def example_constants exampleNativeWallet_def
      exampleTokenWallet_def exampleBitcoinWallet_def)

lemma example_token:
  "currencyType exampleTokenWallet = ERC20"
  "getTokenAddress (walletProvider exampleTokenWallet) = ''0xsov''"
  "normalizeTokenAmount (walletProvider exampleTokenWallet) = exampleNormalize (10 ^ 10)"
  "formatTokenAmount (walletProvider exampleTokenWallet) = exampleFormat (10 ^ 10)"
  by (simp_all add: exampleTokenWallet_def)

text \<open>The conversions at the amounts of the examples.\<close>

lemma example_amounts:
  "etherAmountToNumber exampleNursery 0 = Inr 0"
  "etherAmountToNumber exampleNursery (5 * 10 ^ 15) = Inr 0"
  "etherAmountToNumber exampleNursery (5 * 10 ^ 17) = Inr 0"
  "etherAmountToNumber exampleNursery (2 * 10 ^ 18) = Inr 2"
  "etherAmountToNumber exampleNursery (2 ^ 53 * 10 ^ 18) = Inl Overflow"
  "exampleNormalize (10 ^ 10) 5 = Inr 0"
  "exampleNormalize (10 ^ 10) (10 ^ 12) = Inr 100"
  by (simp_all add: etherAmountToNumber_def exampleNormalize_def example_constants
      bigNumberDiv_def toNumber_def)

lemma example_expected:
  "bigNumberFrom 1 = Inr 1"
  "bigNumberFrom (1 / 100) = Inl Underflow"
  "exampleFormat (10 ^ 10) 100 = Inr (10 ^ 12)"
proof -
  have whole: "bigNumberFrom (of_int z) = Inr z" if "\<bar>z\<bar> < 2 ^ 53 - 1" for z
    using that by (simp add: bigNumberFrom_of_int)
  from whole [of 1] show "bigNumberFrom 1 = Inr 1" by simp
  from whole [of 100] show "exampleFormat (10 ^ 10) 100 = Inr (10 ^ 12)"
    by (simp add: exampleFormat_def)
  have "\<lfloor>1 / 100 :: rat\<rfloor> = 0" by (simp add: floor_eq_iff)
  then show "bigNumberFrom (1 / 100) = Inl Underflow"
    by (simp add: bigNumberFrom_def)
qed

lemma find_Some_set: "find P xs = Some x \<Longrightarrow> x \<in> set xs \<and> P x"
  by (induction xs) (auto split: if_splits)

lemma find_None_iff_set: "find P xs = None \<longleftrightarrow> (\<forall>x\<in>set xs. \<not> P x)"
  by (induction xs) auto

lemma in_set_map_filter:
  "y \<in> set (List.map_filter f xs) \<longleftrightarrow> (\<exists>x\<in>set xs. f x = Some y)"
  by (induction xs) (auto simp: List.map_filter_simps split: option.splits)

lemma getSwap_in_table: "getSwap options st = Some found \<Longrightarrow> found \<in> set (swaps st)"
  unfolding getSwap_def by (drule find_Some_set) simp

lemma recorded_in_table:
  assumes "found \<in> set (swaps st)"
  shows "fst (lockupRecorded found h fee st) \<in> set (swaps (snd (lockupRecorded found h fee st)))"
proof -
  let ?f = "\<lambda>row. if swapId row = swapId found
                 then row\<lparr>lockupTransactionId := Some h, minerFee := Some fee,
                          status := TransactionMempool\<rparr>
                 else row"
  have "?f found \<in> ?f ` set (swaps st)"
    using assms by (rule imageI)
  then show ?thesis
    by (simp add: recorded_table recorded_swap)
qed

lemma expireLoop_frame:
  "swaps (expireLoop n rs st) = swaps st
   \<and> reverseSwaps (expireLoop n rs st) = reverseSwaps st
   \<and> watching (expireLoop n rs st) = watching st"
  by (induction rs arbitrary: st) (simp_all split: option.splits)

lemma expireLoop_emitted:
  "emitted (expireLoop n rs st) =
     emitted st @ List.map_filter (expiredEvent n) rs"
  by (induction rs arbitrary: st)
     (simp_all add: List.map_filter_simps expiredEvent_def split: option.splits)

lemma expiredEvent_Some:
  "expiredEvent n r = Some e \<Longrightarrow> \<exists>b. e = ReverseSwapExpired r b"
  by (auto simp: expiredEvent_def split: option.splits)

lemma getReverseSwapsExpirable_set:
  "r \<in> set (getReverseSwapsExpirable h st) \<longleftrightarrow>
     r \<in> set (reverseSwaps st)
     \<and> status r \<noteq> SwapExpired \<and> status r \<noteq> TransactionFailed
     \<and> status r \<noteq> TransactionRefunded \<and> status r \<noteq> InvoiceSettled
     \<and> status r \<noteq> TransactionMempool \<and> timeoutBlockHeight r \<le> h"
  by (simp add: getReverseSwapsExpirable_def conj_ac)

lemma listenContractTransaction_fields [simp]:
  "swaps (listenContractTransaction r t st) = swaps st"
  "reverseSwaps (listenContractTransaction r t st) = reverseSwaps st"
  "emitted (listenContractTransaction r t st) = emitted st"
  "watching (listenContractTransaction r t st) = watching st @ [(r, t)]"
  "unhandled (listenContractTransaction r t st) = unhandled st"
  by (simp_all add: listenContractTransaction_def)

lemma initLoop_frame:
  "swaps (initLoop n rs st) = swaps st
   \<and> reverseSwaps (initLoop n rs st) = reverseSwaps st
   \<and> emitted (initLoop n rs st) = emitted st"
  by (induction rs arbitrary: st) (simp_all split: option.splits sum.splits)

lemma initLoop_watching:
  "watching (initLoop n rs st) = watching st @ List.map_filter (recoveredWatcher n) rs"
  by (induction rs arbitrary: st)
     (simp_all add: List.map_filter_simps recoveredWatcher_def split: option.splits sum.splits)

lemma initLoop_unhandled:
  "unhandled (initLoop n rs st) = unhandled st"
  by (induction rs arbitrary: st)
     (simp_all add: listenContractTransaction_def split: option.splits sum.splits)

lemma recoveredWatcher_Some:
  "recoveredWatcher n r = Some (r', t) \<longleftrightarrow>
     r' = r
     \<and> getEthereumWallet n (chainCurrencyOf n (pair r) (orderSide r) True) \<noteq> None
     \<and> getTransaction n (transactionId r) = Inr (Some t)"
  by (auto simp: recoveredWatcher_def split: option.splits sum.splits)

lemma getEthereumWallet_Some:
  "getEthereumWallet n currency \<noteq> None \<longleftrightarrow>
     (\<exists>wallet. wallets n currency = Some wallet
        \<and> (currencyType wallet = Rbtc \<or> currencyType wallet = ERC20))"
  by (simp add: getEthereumWallet_def split: option.splits)

text \<open>Setting a column changes an instance exactly when the instance holds another value.\<close>

lemma status_update_same: "r\<lparr>status := s\<rparr> = r \<longleftrightarrow> status r = s" for r :: ReverseSwap
proof
  assume "r\<lparr>status := s\<rparr> = r"
  then have "status (r\<lparr>status := s\<rparr>) = status r" by simp
  then show "status r = s" by simp
next
  assume "status r = s"
  then show "r\<lparr>status := s\<rparr> = r" by (cases r) simp
qed

lemma reason_update_same:
  "r\<lparr>failureReason := Some given, status := s\<rparr> = r
     \<longleftrightarrow> status r = s \<and> failureReason r = Some given" for r :: ReverseSwap
proof
  assume same: "r\<lparr>failureReason := Some given, status := s\<rparr> = r"
  then have "status (r\<lparr>failureReason := Some given, status := s\<rparr>) = status r"
    and "failureReason (r\<lparr>failureReason := Some given, status := s\<rparr>) = failureReason r"
    by simp_all
  then show "status r = s \<and> failureReason r = Some given" by simp
next
  assume "status r = s \<and> failureReason r = Some given"
  then show "r\<lparr>failureReason := Some given, status := s\<rparr> = r" by (cases r) simp
qed

lemma setReverseSwapStatus_omitted:
  "setReverseSwapStatus r s None answer st =
     (if status r = s then (None, r, st)
      else
        (case answer of
           Some fault \<Rightarrow> (Some fault, r\<lparr>status := s\<rparr>, st)
         | None \<Rightarrow>
             (None, r\<lparr>status := s\<rparr>,
              st\<lparr>reverseSwaps :=
                   map (\<lambda>row. if swapId row = swapId r then row\<lparr>status := s\<rparr> else row)
                     (reverseSwaps st)\<rparr>)))"
  by (simp add: setReverseSwapStatus_def update_ReverseSwap_def status_update_same)

lemma setReverseSwapStatus_given:
  "setReverseSwapStatus r s (Some given) answer st =
     (if status r = s \<and> failureReason r = Some given then (None, r, st)
      else
        (case answer of
           Some fault \<Rightarrow> (Some fault, r\<lparr>failureReason := Some given, status := s\<rparr>, st)
         | None \<Rightarrow>
             (None, r\<lparr>failureReason := Some given, status := s\<rparr>,
              st\<lparr>reverseSwaps :=
                   map (\<lambda>row. if swapId row = swapId r
                               then row\<lparr>failureReason := Some given, status := s\<rparr> else row)
                     (reverseSwaps st)\<rparr>)))"
  by (simp add: setReverseSwapStatus_def update_ReverseSwap_def reason_update_same)

lemma example_token_amounts:
  "normalizeTokenAmount (walletProvider exampleTokenWallet) 5 = Inr 0"
  "normalizeTokenAmount (walletProvider exampleTokenWallet) (10 ^ 12) = Inr 100"
  "normalizeTokenAmount (walletProvider exampleTokenWallet) (2 ^ 53 * 10 ^ 10) = Inl Overflow"
  by (simp_all add: example_token exampleNormalize_def bigNumberDiv_def toNumber_def)

lemma example_token_format:
  "formatTokenAmount (walletProvider exampleTokenWallet) 100 = Inr (10 ^ 12)"
  unfolding example_token by (rule example_expected)

lemma example_token_fraction:
  "formatTokenAmount (walletProvider exampleTokenWallet) (1 / 100) = Inl Underflow"
  by (simp add: example_token exampleFormat_def example_expected)

lemma example_native_match:
  "etherLockupMatch exampleNursery (exampleEtherValues a claimant t)
     (exampleState [exampleSwap ident ''BTC/RBTC'' SwapCreated expected] [])
     (exampleSwap ident ''BTC/RBTC'' SwapCreated expected)"
  by (simp add: etherLockupMatch_def getSwap_def lockupQuery_def exampleEtherValues_def
      example_hex exampleState_def exampleSwap_def example_chain)

lemma example_token_match:
  "erc20LockupMatch exampleNursery (exampleERC20Values a claimant t token)
     (exampleState [exampleSwap ident ''BTC/SOV'' InvoiceSet expected] [])
     (exampleSwap ident ''BTC/SOV'' InvoiceSet expected) exampleTokenWallet"
  by (simp add: erc20LockupMatch_def getSwap_def lockupQuery_def exampleERC20Values_def
      example_hex exampleState_def exampleSwap_def example_chain example_constants
      example_token)

text \<open>The values of the example events and the recorded example swap.\<close>

lemma example_values [simp]:
  "amount (exampleEtherValues a claimant t) = a"
  "claimAddress (exampleEtherValues a claimant t) = claimant"
  "timelock (exampleEtherValues a claimant t) = t"
  "amount (exampleERC20Values a claimant t token) = a"
  "claimAddress (exampleERC20Values a claimant t token) = claimant"
  "timelock (exampleERC20Values a claimant t token) = t"
  "tokenAddress (exampleERC20Values a claimant t token) = token"
  by (simp_all add: exampleEtherValues_def exampleERC20Values_def)

lemma example_recorded:
  "fst (lockupRecorded (exampleSwap ident pairId current expected) h fee st) =
     (exampleSwap ident pairId TransactionMempool expected)
       \<lparr>lockupTransactionId := Some h, minerFee := Some fee\<rparr>"
  by (simp add: recorded_swap exampleSwap_def)

lemma example_recorded_table:
  "swaps (snd (lockupRecorded (exampleSwap ident pairId current expected) h fee
                 (exampleState [exampleSwap ident pairId current expected] []))) =
     [(exampleSwap ident pairId TransactionMempool expected)
        \<lparr>lockupTransactionId := Some h, minerFee := Some fee\<rparr>]"
  by (simp add: recorded_table exampleSwap_def exampleState_def)

lemma example_swap_fields [simp]:
  "timeoutBlockHeight (exampleSwap ident pairId current expected) = 1000"
  "expectedAmount (exampleSwap ident pairId current expected) = expected"
  "status (exampleSwap ident pairId current expected) = current"
  by (simp_all add: exampleSwap_def)

lemma example_state_fields [simp]:
  "swaps (exampleState ss rs) = ss"
  "reverseSwaps (exampleState ss rs) = rs"
  "emitted (exampleState ss rs) = []"
  "watching (exampleState ss rs) = []"
  "unhandled (exampleState ss rs) = []"
  by (simp_all add: exampleState_def)

text \<open>The two callbacks of the watcher.\<close>

lemma successCallback_saved:
  assumes "confirmedSave run = None"
  shows "successCallback r t run st =
     (confirmedListener run, r\<lparr>status := TransactionConfirmed\<rparr>,
      emit (LockupConfirmed (r\<lparr>status := TransactionConfirmed\<rparr>) (hash t))
        (if status r = TransactionConfirmed then st
         else st\<lparr>reverseSwaps :=
                   map (\<lambda>row. if swapId row = swapId r
                               then row\<lparr>status := TransactionConfirmed\<rparr> else row)
                     (reverseSwaps st)\<rparr>))"
  using assms
  by (simp add: successCallback_def setReverseSwapStatus_omitted status_update_same)

lemma successCallback_rejected:
  assumes "confirmedSave run = Some fault" and "status r \<noteq> TransactionConfirmed"
  shows "successCallback r t run st = (Some fault, r\<lparr>status := TransactionConfirmed\<rparr>, st)"
  using assms by (simp add: successCallback_def setReverseSwapStatus_omitted)

lemma failureCallback_saved:
  assumes "failedSave run = None" and "failedListener run = None"
  shows "failureCallback r reason run st =
     emit (LockupFailedToSend (r\<lparr>status := TransactionFailed\<rparr>) reason)
       (if status r = TransactionFailed then st
        else st\<lparr>reverseSwaps :=
                  map (\<lambda>row. if swapId row = swapId r
                              then row\<lparr>status := TransactionFailed\<rparr> else row)
                    (reverseSwaps st)\<rparr>)"
  using assms
  by (simp add: failureCallback_def setReverseSwapStatus_omitted status_update_same)

lemma transactionWaitSettled_resolved:
  assumes "i < length (watching st)" and "watching st ! i = (r, t)"
  shows "transactionWaitSettled i WaitResolved run st =
     (case successCallback r t run
             (st\<lparr>watching := take i (watching st) @ drop (Suc i) (watching st)\<rparr>) of
        (thrown, held, st1) \<Rightarrow>
          (case thrown of None \<Rightarrow> st1 | Some fault \<Rightarrow> failureCallback held fault run st1))"
  using assms by (simp add: transactionWaitSettled_def)

lemma transactionWaitSettled_rejected:
  assumes "i < length (watching st)" and "watching st ! i = (r, t)"
  shows "transactionWaitSettled i (WaitRejected reason) run st =
     failureCallback r reason run
       (st\<lparr>watching := take i (watching st) @ drop (Suc i) (watching st)\<rparr>)"
  using assms by (simp add: transactionWaitSettled_def)

lemma setReverseSwapStatus_frame:
  "swaps (snd (snd (setReverseSwapStatus r s reason answer st))) = swaps st"
  "emitted (snd (snd (setReverseSwapStatus r s reason answer st))) = emitted st"
  "watching (snd (snd (setReverseSwapStatus r s reason answer st))) = watching st"
  "unhandled (snd (snd (setReverseSwapStatus r s reason answer st))) = unhandled st"
  by (simp_all add: setReverseSwapStatus_def update_ReverseSwap_def split: option.splits)

lemma failureCallback_watching:
  "watching (failureCallback r reason run st) = watching st"
  by (simp add: failureCallback_def case_prod_beta setReverseSwapStatus_frame
      split: option.splits)

lemma successCallback_watching:
  "watching (snd (snd (successCallback r t run st))) = watching st"
  by (simp add: successCallback_def case_prod_beta setReverseSwapStatus_frame
      split: option.splits)

lemma transactionWaitSettled_watching:
  assumes "i < length (watching st)"
  shows "watching (transactionWaitSettled i outcome run st)
           = take i (watching st) @ drop (Suc i) (watching st)"
  using assms
  by (cases outcome)
     (simp_all add: transactionWaitSettled_def case_prod_beta failureCallback_watching
        successCallback_watching split: option.splits)

lemma status_overwritten:
  "map (\<lambda>row. if swapId row = swapId (r\<lparr>status := a\<rparr>) then row\<lparr>status := b\<rparr> else row)
     (map (\<lambda>row. if swapId row = swapId r then row\<lparr>status := a\<rparr> else row) rows)
   = map (\<lambda>row. if swapId row = swapId r then row\<lparr>status := b\<rparr> else row) rows"
  for r :: ReverseSwap
  by (induction rows) simp_all

section \<open>Claims\<close>

text \<open>
  C1 (as amended). For every lockup event that matches a swap, the handler first converts
  the amount. When the conversion throws, the handler ends there: it writes nothing and
  emits nothing. Otherwise the checks run in a fixed order and stop at the first that does
  not pass: claim address, timelock, amount for the native asset; claim address, token
  address, timelock, amount for a token. The handler does what the first such check
  says: it emits \<^verbatim>\<open>lockup.failed\<close> with the reason of the first failing check, or ends with
  no event when the amount check throws, or emits the lockup event of the contract when
  every check passes. (An event for a token with both a wrong token address and a wrong
  timelock is rejected for the token.)
\<close>

theorem lockup_checks_run_in_contract_order:
  "(etherLockupMatch n etherSwapValues st found
      \<and> etherAmountToNumber n (amount etherSwapValues) = Inr onchainAmount \<longrightarrow>
      listenEtherSwap_lockup n transactionHash etherSwapValues st =
        concluded
          (firstFailing
             [claimAddressCheck n etherSwapValues,
              timelockCheck (fst (lockupRecorded found transactionHash onchainAmount st))
                etherSwapValues,
              amountCheck (etherExpectedAmount n) (etherAmountToNumber n)
                (fst (lockupRecorded found transactionHash onchainAmount st))
                etherSwapValues])
          (EthLockup (fst (lockupRecorded found transactionHash onchainAmount st))
             transactionHash etherSwapValues)
          (fst (lockupRecorded found transactionHash onchainAmount st))
          (snd (lockupRecorded found transactionHash onchainAmount st)))
   \<and> (etherLockupMatch n etherSwapValues st found
      \<and> etherAmountToNumber n (amount etherSwapValues) = Inl fault \<longrightarrow>
      listenEtherSwap_lockup n transactionHash etherSwapValues st =
        unhandledRejection fault st)
   \<and> (erc20LockupMatch n erc20SwapValues st tokenSwap wallet
      \<and> normalizeTokenAmount (walletProvider wallet) (amount erc20SwapValues)
          = Inr tokenAmount \<longrightarrow>
      listenERC20Swap_lockup n transactionHash erc20SwapValues st =
        concluded
          (firstFailing
             [claimAddressCheck n erc20SwapValues,
              tokenAddressCheck n wallet erc20SwapValues,
              timelockCheck (fst (lockupRecorded tokenSwap transactionHash tokenAmount st))
                erc20SwapValues,
              amountCheck (formatTokenAmount (walletProvider wallet))
                (normalizeTokenAmount (walletProvider wallet))
                (fst (lockupRecorded tokenSwap transactionHash tokenAmount st))
                erc20SwapValues])
          (Erc20Lockup (fst (lockupRecorded tokenSwap transactionHash tokenAmount st))
             transactionHash erc20SwapValues)
          (fst (lockupRecorded tokenSwap transactionHash tokenAmount st))
          (snd (lockupRecorded tokenSwap transactionHash tokenAmount st)))
   \<and> (erc20LockupMatch n erc20SwapValues st tokenSwap wallet
      \<and> normalizeTokenAmount (walletProvider wallet) (amount erc20SwapValues)
          = Inl tokenFault \<longrightarrow>
      listenERC20Swap_lockup n transactionHash erc20SwapValues st =
        unhandledRejection tokenFault st)"
proof (intro conjI impI; elim conjE)
  assume "etherLockupMatch n etherSwapValues st found"
    and "etherAmountToNumber n (amount etherSwapValues) = Inr onchainAmount"
  then show "listenEtherSwap_lockup n transactionHash etherSwapValues st =
        concluded
          (firstFailing
             [claimAddressCheck n etherSwapValues,
              timelockCheck (fst (lockupRecorded found transactionHash onchainAmount st))
                etherSwapValues,
              amountCheck (etherExpectedAmount n) (etherAmountToNumber n)
                (fst (lockupRecorded found transactionHash onchainAmount st))
                etherSwapValues])
          (EthLockup (fst (lockupRecorded found transactionHash onchainAmount st))
             transactionHash etherSwapValues)
          (fst (lockupRecorded found transactionHash onchainAmount st))
          (snd (lockupRecorded found transactionHash onchainAmount st))"
    by (rule ether_lockup_matched)
next
  assume "etherLockupMatch n etherSwapValues st found"
    and "etherAmountToNumber n (amount etherSwapValues) = Inl fault"
  then show "listenEtherSwap_lockup n transactionHash etherSwapValues st =
        unhandledRejection fault st"
    by (rule ether_lockup_thrown)
next
  assume "erc20LockupMatch n erc20SwapValues st tokenSwap wallet"
    and "normalizeTokenAmount (walletProvider wallet) (amount erc20SwapValues)
          = Inr tokenAmount"
  then show "listenERC20Swap_lockup n transactionHash erc20SwapValues st =
        concluded
          (firstFailing
             [claimAddressCheck n erc20SwapValues,
              tokenAddressCheck n wallet erc20SwapValues,
              timelockCheck (fst (lockupRecorded tokenSwap transactionHash tokenAmount st))
                erc20SwapValues,
              amountCheck (formatTokenAmount (walletProvider wallet))
                (normalizeTokenAmount (walletProvider wallet))
                (fst (lockupRecorded tokenSwap transactionHash tokenAmount st))
                erc20SwapValues])
          (Erc20Lockup (fst (lockupRecorded tokenSwap transactionHash tokenAmount st))
             transactionHash erc20SwapValues)
          (fst (lockupRecorded tokenSwap transactionHash tokenAmount st))
          (snd (lockupRecorded tokenSwap transactionHash tokenAmount st))"
    by (rule erc20_lockup_matched)
next
  assume "erc20LockupMatch n erc20SwapValues st tokenSwap wallet"
    and "normalizeTokenAmount (walletProvider wallet) (amount erc20SwapValues)
          = Inl tokenFault"
  then show "listenERC20Swap_lockup n transactionHash erc20SwapValues st =
        unhandledRejection tokenFault st"
    by (rule erc20_lockup_thrown)
qed

theorem lockup_checks_run_in_contract_order_witness:
  "etherLockupMatch exampleNursery (exampleEtherValues (5 * 10 ^ 17) ''0xme'' 999)
     (exampleState [exampleSwap ''s1'' ''BTC/RBTC'' SwapCreated (Some 1)] [])
     (exampleSwap ''s1'' ''BTC/RBTC'' SwapCreated (Some 1))
   \<and> etherAmountToNumber exampleNursery (5 * 10 ^ 17) = Inr 0
   \<and> emitted (listenEtherSwap_lockup exampleNursery ''0xtx''
                (exampleEtherValues (5 * 10 ^ 17) ''0xme'' 999)
                (exampleState [exampleSwap ''s1'' ''BTC/RBTC'' SwapCreated (Some 1)] []))
     = [LockupFailed
          ((exampleSwap ''s1'' ''BTC/RBTC'' TransactionMempool (Some 1))
             \<lparr>lockupTransactionId := Some ''0xtx'', minerFee := Some 0\<rparr>)
          (INVALID_TIMELOCK 999 1000)]
   \<and> etherLockupMatch exampleNursery (exampleEtherValues (2 ^ 53 * 10 ^ 18) ''0xme'' 999)
       (exampleState [exampleSwap ''s1'' ''BTC/RBTC'' SwapCreated (Some 1)] [])
       (exampleSwap ''s1'' ''BTC/RBTC'' SwapCreated (Some 1))
   \<and> etherAmountToNumber exampleNursery (2 ^ 53 * 10 ^ 18) = Inl Overflow
   \<and> listenEtherSwap_lockup exampleNursery ''0xtx''
       (exampleEtherValues (2 ^ 53 * 10 ^ 18) ''0xme'' 999)
       (exampleState [exampleSwap ''s1'' ''BTC/RBTC'' SwapCreated (Some 1)] [])
     = (exampleState [exampleSwap ''s1'' ''BTC/RBTC'' SwapCreated (Some 1)] [])
         \<lparr>unhandled := [Overflow]\<rparr>
   \<and> erc20LockupMatch exampleNursery (exampleERC20Values (10 ^ 12) ''0xthem'' 1000 ''0xother'')
       (exampleState [exampleSwap ''s2'' ''BTC/SOV'' InvoiceSet (Some 100)] [])
       (exampleSwap ''s2'' ''BTC/SOV'' InvoiceSet (Some 100))
       exampleTokenWallet
   \<and> normalizeTokenAmount (walletProvider exampleTokenWallet) (10 ^ 12) = Inr 100
   \<and> emitted (listenERC20Swap_lockup exampleNursery ''0xtx''
                (exampleERC20Values (10 ^ 12) ''0xthem'' 1000 ''0xother'')
                (exampleState [exampleSwap ''s2'' ''BTC/SOV'' InvoiceSet (Some 100)] []))
     = [LockupFailed
          ((exampleSwap ''s2'' ''BTC/SOV'' TransactionMempool (Some 100))
             \<lparr>lockupTransactionId := Some ''0xtx'', minerFee := Some 100\<rparr>)
          (INVALID_CLAIM_ADDRESS ''0xthem'' ''0xme'')]
   \<and> erc20LockupMatch exampleNursery
       (exampleERC20Values (2 ^ 53 * 10 ^ 10) ''0xme'' 1000 ''0xsov'')
       (exampleState [exampleSwap ''s2'' ''BTC/SOV'' InvoiceSet (Some 100)] [])
       (exampleSwap ''s2'' ''BTC/SOV'' InvoiceSet (Some 100))
       exampleTokenWallet
   \<and> normalizeTokenAmount (walletProvider exampleTokenWallet) (2 ^ 53 * 10 ^ 10)
       = Inl Overflow
   \<and> listenERC20Swap_lockup exampleNursery ''0xtx''
       (exampleERC20Values (2 ^ 53 * 10 ^ 10) ''0xme'' 1000 ''0xsov'')
       (exampleState [exampleSwap ''s2'' ''BTC/SOV'' InvoiceSet (Some 100)] [])
     = (exampleState [exampleSwap ''s2'' ''BTC/SOV'' InvoiceSet (Some 100)] [])
         \<lparr>unhandled := [Overflow]\<rparr>"
proof -
  note native = example_native_match
      [where a = "5 * 10 ^ 17" and claimant = "''0xme''" and t = 999 and ident = "''s1''"
         and expected = "Some 1"]
  note nativeAmount = example_amounts(3)
  note order = lockup_checks_run_in_contract_order
      [where n = exampleNursery and transactionHash = "''0xtx''"
         and etherSwapValues = "exampleEtherValues (5 * 10 ^ 17) ''0xme'' 999"
         and st = "exampleState [exampleSwap ''s1'' ''BTC/RBTC'' SwapCreated (Some 1)] []"
         and found = "exampleSwap ''s1'' ''BTC/RBTC'' SwapCreated (Some 1)"
         and onchainAmount = 0]
  from order native nativeAmount
  have 1: "emitted (listenEtherSwap_lockup exampleNursery ''0xtx''
                (exampleEtherValues (5 * 10 ^ 17) ''0xme'' 999)
                (exampleState [exampleSwap ''s1'' ''BTC/RBTC'' SwapCreated (Some 1)] []))
     = [LockupFailed
          ((exampleSwap ''s1'' ''BTC/RBTC'' TransactionMempool (Some 1))
             \<lparr>lockupTransactionId := Some ''0xtx'', minerFee := Some 0\<rparr>)
          (INVALID_TIMELOCK 999 1000)]"
    by (simp add: example_recorded claimAddressCheck_def timelockCheck_def announced_def
        example_constants)
  note nativeBig = example_native_match
      [where a = "2 ^ 53 * 10 ^ 18" and claimant = "''0xme''" and t = 999 and ident = "''s1''"
         and expected = "Some 1"]
  note nativeBigAmount = example_amounts(5)
  note thrown = lockup_checks_run_in_contract_order
      [where n = exampleNursery and transactionHash = "''0xtx''"
         and etherSwapValues = "exampleEtherValues (2 ^ 53 * 10 ^ 18) ''0xme'' 999"
         and st = "exampleState [exampleSwap ''s1'' ''BTC/RBTC'' SwapCreated (Some 1)] []"
         and found = "exampleSwap ''s1'' ''BTC/RBTC'' SwapCreated (Some 1)"
         and fault = Overflow]
  from thrown nativeBig nativeBigAmount
  have 2: "listenEtherSwap_lockup exampleNursery ''0xtx''
       (exampleEtherValues (2 ^ 53 * 10 ^ 18) ''0xme'' 999)
       (exampleState [exampleSwap ''s1'' ''BTC/RBTC'' SwapCreated (Some 1)] [])
     = (exampleState [exampleSwap ''s1'' ''BTC/RBTC'' SwapCreated (Some 1)] [])
         \<lparr>unhandled := [Overflow]\<rparr>"
    by (simp add: unhandledRejection_def)
  note token = example_token_match
      [where a = "10 ^ 12" and claimant = "''0xthem''" and t = 1000 and token = "''0xother''"
         and ident = "''s2''" and expected = "Some 100"]
  note tokenAmount = example_token_amounts(2)
  note tokenOrder = lockup_checks_run_in_contract_order
      [where n = exampleNursery and transactionHash = "''0xtx''"
         and erc20SwapValues = "exampleERC20Values (10 ^ 12) ''0xthem'' 1000 ''0xother''"
         and st = "exampleState [exampleSwap ''s2'' ''BTC/SOV'' InvoiceSet (Some 100)] []"
         and tokenSwap = "exampleSwap ''s2'' ''BTC/SOV'' InvoiceSet (Some 100)"
         and wallet = exampleTokenWallet and tokenAmount = 100]
  from tokenOrder token tokenAmount
  have 3: "emitted (listenERC20Swap_lockup exampleNursery ''0xtx''
                (exampleERC20Values (10 ^ 12) ''0xthem'' 1000 ''0xother'')
                (exampleState [exampleSwap ''s2'' ''BTC/SOV'' InvoiceSet (Some 100)] []))
     = [LockupFailed
          ((exampleSwap ''s2'' ''BTC/SOV'' TransactionMempool (Some 100))
             \<lparr>lockupTransactionId := Some ''0xtx'', minerFee := Some 100\<rparr>)
          (INVALID_CLAIM_ADDRESS ''0xthem'' ''0xme'')]"
    by (simp add: example_recorded claimAddressCheck_def announced_def example_constants)
  note tokenBig = example_token_match
      [where a = "2 ^ 53 * 10 ^ 10" and claimant = "''0xme''" and t = 1000
         and token = "''0xsov''" and ident = "''s2''" and expected = "Some 100"]
  note tokenBigAmount = example_token_amounts(3)
  note tokenThrown = lockup_checks_run_in_contract_order
      [where n = exampleNursery and transactionHash = "''0xtx''"
         and erc20SwapValues = "exampleERC20Values (2 ^ 53 * 10 ^ 10) ''0xme'' 1000 ''0xsov''"
         and st = "exampleState [exampleSwap ''s2'' ''BTC/SOV'' InvoiceSet (Some 100)] []"
         and tokenSwap = "exampleSwap ''s2'' ''BTC/SOV'' InvoiceSet (Some 100)"
         and wallet = exampleTokenWallet and tokenFault = Overflow]
  from tokenThrown tokenBig tokenBigAmount
  have 4: "listenERC20Swap_lockup exampleNursery ''0xtx''
       (exampleERC20Values (2 ^ 53 * 10 ^ 10) ''0xme'' 1000 ''0xsov'')
       (exampleState [exampleSwap ''s2'' ''BTC/SOV'' InvoiceSet (Some 100)] [])
     = (exampleState [exampleSwap ''s2'' ''BTC/SOV'' InvoiceSet (Some 100)] [])
         \<lparr>unhandled := [Overflow]\<rparr>"
    by (simp add: unhandledRejection_def)
  from native nativeAmount 1 nativeBig nativeBigAmount 2 token tokenAmount 3
    tokenBig tokenBigAmount 4
  show ?thesis by (intro conjI)
qed

theorem lockup_checks_claimed_order_counterexample:
  "emitted (listenERC20Swap_lockup exampleNursery ''0xtx''
              (exampleERC20Values (10 ^ 12) ''0xme'' 999 ''0xother'')
              (exampleState [exampleSwap ''s2'' ''BTC/SOV'' InvoiceSet (Some 100)] []))
     = [LockupFailed
          ((exampleSwap ''s2'' ''BTC/SOV'' TransactionMempool (Some 100))
             \<lparr>lockupTransactionId := Some ''0xtx'', minerFee := Some 100\<rparr>)
          (INVALID_TOKEN_LOCKED ''0xother'' ''0xme'')]
   \<and> firstFailing
       [claimAddressCheck exampleNursery (exampleERC20Values (10 ^ 12) ''0xme'' 999 ''0xother''),
        timelockCheck
          ((exampleSwap ''s2'' ''BTC/SOV'' TransactionMempool (Some 100))
             \<lparr>lockupTransactionId := Some ''0xtx'', minerFee := Some 100\<rparr>)
          (exampleERC20Values (10 ^ 12) ''0xme'' 999 ''0xother''),
        tokenAddressCheck exampleNursery
          exampleTokenWallet
          (exampleERC20Values (10 ^ 12) ''0xme'' 999 ''0xother''),
        amountCheck (formatTokenAmount (walletProvider exampleTokenWallet))
          (normalizeTokenAmount (walletProvider exampleTokenWallet))
          ((exampleSwap ''s2'' ''BTC/SOV'' TransactionMempool (Some 100))
             \<lparr>lockupTransactionId := Some ''0xtx'', minerFee := Some 100\<rparr>)
          (exampleERC20Values (10 ^ 12) ''0xme'' 999 ''0xother'')]
     = Reject (INVALID_TIMELOCK 999 1000)"
proof -
  note token = example_token_match
      [where a = "10 ^ 12" and claimant = "''0xme''" and t = 999 and token = "''0xother''"
         and ident = "''s2''" and expected = "Some 100"]
  have amount: "normalizeTokenAmount (walletProvider exampleTokenWallet)
       (amount (exampleERC20Values (10 ^ 12) ''0xme'' 999 ''0xother'')) = Inr 100"
    unfolding example_values by (rule example_token_amounts)
  have code: "emitted (listenERC20Swap_lockup exampleNursery ''0xtx''
              (exampleERC20Values (10 ^ 12) ''0xme'' 999 ''0xother'')
              (exampleState [exampleSwap ''s2'' ''BTC/SOV'' InvoiceSet (Some 100)] []))
     = [LockupFailed
          ((exampleSwap ''s2'' ''BTC/SOV'' TransactionMempool (Some 100))
             \<lparr>lockupTransactionId := Some ''0xtx'', minerFee := Some 100\<rparr>)
          (INVALID_TOKEN_LOCKED ''0xother'' ''0xme'')]"
    unfolding erc20_lockup_matched [OF token amount]
    by (simp add: example_recorded claimAddressCheck_def tokenAddressCheck_def
        announced_def example_constants example_token)
  have claimed: "firstFailing
       [claimAddressCheck exampleNursery (exampleERC20Values (10 ^ 12) ''0xme'' 999 ''0xother''),
        timelockCheck
          ((exampleSwap ''s2'' ''BTC/SOV'' TransactionMempool (Some 100))
             \<lparr>lockupTransactionId := Some ''0xtx'', minerFee := Some 100\<rparr>)
          (exampleERC20Values (10 ^ 12) ''0xme'' 999 ''0xother''),
        tokenAddressCheck exampleNursery exampleTokenWallet
          (exampleERC20Values (10 ^ 12) ''0xme'' 999 ''0xother''),
        amountCheck (formatTokenAmount (walletProvider exampleTokenWallet))
          (normalizeTokenAmount (walletProvider exampleTokenWallet))
          ((exampleSwap ''s2'' ''BTC/SOV'' TransactionMempool (Some 100))
             \<lparr>lockupTransactionId := Some ''0xtx'', minerFee := Some 100\<rparr>)
          (exampleERC20Values (10 ^ 12) ''0xme'' 999 ''0xother'')]
     = Reject (INVALID_TIMELOCK 999 1000)"
    by (simp add: claimAddressCheck_def timelockCheck_def example_constants exampleSwap_def)
  from code claimed show ?thesis by (intro conjI)
qed

text \<open>
  C2. At every height \<open>h\<close> the reverse swaps the expiry scan considers are exactly those
  of the table whose status is none of \<^verbatim>\<open>swap.expired\<close>, \<^verbatim>\<open>transaction.failed\<close>,
  \<^verbatim>\<open>transaction.refunded\<close>, \<^verbatim>\<open>invoice.settled\<close>, \<^verbatim>\<open>transaction.mempool\<close> and whose
  \<^verbatim>\<open>timeoutBlockHeight\<close> is at most \<open>h\<close>; every event the scan emits is a
  \<^verbatim>\<open>reverseSwap.expired\<close> for one of them, so never for a reverse swap in
  \<^verbatim>\<open>transaction.mempool\<close>; the scan writes no row.
\<close>

theorem reverse_swap_expiry_excludes_mempool:
  "set (getReverseSwapsExpirable h st) =
     {r \<in> set (reverseSwaps st).
        status r \<notin> {SwapExpired, TransactionFailed, TransactionRefunded, InvoiceSettled,
                       TransactionMempool}
        \<and> timeoutBlockHeight r \<le> h}
   \<and> (\<exists>new. emitted (checkExpiredReverseSwaps n h st) = emitted st @ new
         \<and> (\<forall>e\<in>set new. \<exists>r b. e = ReverseSwapExpired r b
               \<and> r \<in> set (getReverseSwapsExpirable h st)
               \<and> status r \<noteq> TransactionMempool))
   \<and> reverseSwaps (checkExpiredReverseSwaps n h st) = reverseSwaps st"
proof (intro conjI)
  show "set (getReverseSwapsExpirable h st) =
     {r \<in> set (reverseSwaps st).
        status r \<notin> {SwapExpired, TransactionFailed, TransactionRefunded, InvoiceSettled,
                       TransactionMempool}
        \<and> timeoutBlockHeight r \<le> h}"
  proof (rule set_eqI)
    fix r
    show "r \<in> set (getReverseSwapsExpirable h st) \<longleftrightarrow>
          r \<in> {r \<in> set (reverseSwaps st).
                 status r \<notin> {SwapExpired, TransactionFailed, TransactionRefunded,
                                InvoiceSettled, TransactionMempool}
                 \<and> timeoutBlockHeight r \<le> h}"
      by (simp add: getReverseSwapsExpirable_set)
  qed
  let ?new = "List.map_filter (expiredEvent n) (getReverseSwapsExpirable h st)"
  have emitted: "emitted (checkExpiredReverseSwaps n h st) = emitted st @ ?new"
    by (simp add: checkExpiredReverseSwaps_def expireLoop_emitted)
  have "\<exists>r b. e = ReverseSwapExpired r b
               \<and> r \<in> set (getReverseSwapsExpirable h st)
               \<and> status r \<noteq> TransactionMempool" if "e \<in> set ?new" for e
  proof -
    from that obtain r where r: "r \<in> set (getReverseSwapsExpirable h st)"
      "expiredEvent n r = Some e"
      unfolding in_set_map_filter by blast
    from r(2) obtain b where "e = ReverseSwapExpired r b"
      using expiredEvent_Some by blast
    moreover from r(1) have "status r \<noteq> TransactionMempool"
      by (simp add: getReverseSwapsExpirable_set)
    ultimately show ?thesis using r(1) by blast
  qed
  with emitted show "\<exists>new. emitted (checkExpiredReverseSwaps n h st) = emitted st @ new
         \<and> (\<forall>e\<in>set new. \<exists>r b. e = ReverseSwapExpired r b
               \<and> r \<in> set (getReverseSwapsExpirable h st)
               \<and> status r \<noteq> TransactionMempool)"
    by (intro exI [of _ ?new]) simp
  show "reverseSwaps (checkExpiredReverseSwaps n h st) = reverseSwaps st"
    by (simp add: checkExpiredReverseSwaps_def expireLoop_frame)
qed

theorem reverse_swap_expiry_excludes_mempool_witness:
  "set (getReverseSwapsExpirable 1000
          (exampleState []
             [exampleReverseSwap ''r1'' ''RBTC/BTC'' TransactionMempool (Some ''0xt1'') None,
              exampleReverseSwap ''r2'' ''RBTC/BTC'' TransactionConfirmed (Some ''0xt1'') None,
              exampleReverseSwap ''r3'' ''RBTC/BTC'' InvoiceSettled (Some ''0xt1'') None]))
     = {exampleReverseSwap ''r2'' ''RBTC/BTC'' TransactionConfirmed (Some ''0xt1'') None}
   \<and> emitted (checkExpiredReverseSwaps exampleNursery 1000
          (exampleState []
             [exampleReverseSwap ''r1'' ''RBTC/BTC'' TransactionMempool (Some ''0xt1'') None,
              exampleReverseSwap ''r2'' ''RBTC/BTC'' TransactionConfirmed (Some ''0xt1'') None,
              exampleReverseSwap ''r3'' ''RBTC/BTC'' InvoiceSettled (Some ''0xt1'') None]))
     = [ReverseSwapExpired
          (exampleReverseSwap ''r2'' ''RBTC/BTC'' TransactionConfirmed (Some ''0xt1'') None) True]"
proof -
  let ?st = "exampleState []
             [exampleReverseSwap ''r1'' ''RBTC/BTC'' TransactionMempool (Some ''0xt1'') None,
              exampleReverseSwap ''r2'' ''RBTC/BTC'' TransactionConfirmed (Some ''0xt1'') None,
              exampleReverseSwap ''r3'' ''RBTC/BTC'' InvoiceSettled (Some ''0xt1'') None]"
  have fetched: "getReverseSwapsExpirable 1000 ?st
     = [exampleReverseSwap ''r2'' ''RBTC/BTC'' TransactionConfirmed (Some ''0xt1'') None]"
    by (simp add: getReverseSwapsExpirable_def exampleState_def exampleReverseSwap_def)
  have scan: "emitted (checkExpiredReverseSwaps exampleNursery 1000 ?st)
     = [ReverseSwapExpired
          (exampleReverseSwap ''r2'' ''RBTC/BTC'' TransactionConfirmed (Some ''0xt1'') None) True]"
    unfolding checkExpiredReverseSwaps_def fetched
    by (simp add: exampleReverseSwap_def example_chain example_wallets exampleNativeWallet_def
        exampleState_def)
  from reverse_swap_expiry_excludes_mempool [of 1000 ?st exampleNursery] fetched scan
  show ?thesis by simp
qed

text \<open>
  C3 (as amended). For every lockup event that matches a swap on this chain and whose
  amount converts to a number, the lockup is recorded before the checks: the swap the
  handler goes on with, and the row of the table, have \<^verbatim>\<open>lockupTransactionId\<close> set to the
  hash of the transaction, \<^verbatim>\<open>minerFee\<close> set to the converted amount and the status
  \<^verbatim>\<open>transaction.mempool\<close>, whatever the checks then say. When a check rejects, the handler
  emits exactly one event, \<^verbatim>\<open>lockup.failed\<close> with that recorded swap and the reason, and no
  lockup event; the status stays \<^verbatim>\<open>transaction.mempool\<close>. When the conversion of the amount
  throws, nothing is recorded and nothing is emitted.
\<close>

theorem lockup_recorded_before_validation:
  "(etherLockupMatch n etherSwapValues st found
      \<and> etherAmountToNumber n (amount etherSwapValues) = Inr onchainAmount \<longrightarrow>
      fst (lockupRecorded found transactionHash onchainAmount st)
        = found\<lparr>lockupTransactionId := Some transactionHash,
                 minerFee := Some onchainAmount,
                 status := TransactionMempool\<rparr>
      \<and> swaps (listenEtherSwap_lockup n transactionHash etherSwapValues st)
        = map (\<lambda>row. if swapId row = swapId found
                      then row\<lparr>lockupTransactionId := Some transactionHash,
                               minerFee := Some onchainAmount,
                               status := TransactionMempool\<rparr>
                      else row) (swaps st)
      \<and> fst (lockupRecorded found transactionHash onchainAmount st)
          \<in> set (swaps (listenEtherSwap_lockup n transactionHash etherSwapValues st))
      \<and> (\<forall>reason.
            firstFailing
              [claimAddressCheck n etherSwapValues,
               timelockCheck (fst (lockupRecorded found transactionHash onchainAmount st))
                 etherSwapValues,
               amountCheck (etherExpectedAmount n) (etherAmountToNumber n)
                 (fst (lockupRecorded found transactionHash onchainAmount st))
                 etherSwapValues] = Reject reason
            \<longrightarrow> emitted (listenEtherSwap_lockup n transactionHash etherSwapValues st)
                  = emitted st @
                    [LockupFailed
                       (fst (lockupRecorded found transactionHash onchainAmount st)) reason]
                \<and> status (fst (lockupRecorded found transactionHash onchainAmount st))
                    = TransactionMempool))
   \<and> (etherLockupMatch n etherSwapValues st found
      \<and> etherAmountToNumber n (amount etherSwapValues) = Inl fault \<longrightarrow>
      swaps (listenEtherSwap_lockup n transactionHash etherSwapValues st) = swaps st
      \<and> emitted (listenEtherSwap_lockup n transactionHash etherSwapValues st) = emitted st)
   \<and> (erc20LockupMatch n erc20SwapValues st tokenSwap wallet
      \<and> normalizeTokenAmount (walletProvider wallet) (amount erc20SwapValues)
          = Inr tokenAmount \<longrightarrow>
      fst (lockupRecorded tokenSwap transactionHash tokenAmount st)
        = tokenSwap\<lparr>lockupTransactionId := Some transactionHash,
                     minerFee := Some tokenAmount,
                     status := TransactionMempool\<rparr>
      \<and> swaps (listenERC20Swap_lockup n transactionHash erc20SwapValues st)
        = map (\<lambda>row. if swapId row = swapId tokenSwap
                      then row\<lparr>lockupTransactionId := Some transactionHash,
                               minerFee := Some tokenAmount,
                               status := TransactionMempool\<rparr>
                      else row) (swaps st)
      \<and> fst (lockupRecorded tokenSwap transactionHash tokenAmount st)
          \<in> set (swaps (listenERC20Swap_lockup n transactionHash erc20SwapValues st))
      \<and> (\<forall>reason.
            firstFailing
              [claimAddressCheck n erc20SwapValues,
               tokenAddressCheck n wallet erc20SwapValues,
               timelockCheck (fst (lockupRecorded tokenSwap transactionHash tokenAmount st))
                 erc20SwapValues,
               amountCheck (formatTokenAmount (walletProvider wallet))
                 (normalizeTokenAmount (walletProvider wallet))
                 (fst (lockupRecorded tokenSwap transactionHash tokenAmount st))
                 erc20SwapValues] = Reject reason
            \<longrightarrow> emitted (listenERC20Swap_lockup n transactionHash erc20SwapValues st)
                  = emitted st @
                    [LockupFailed
                       (fst (lockupRecorded tokenSwap transactionHash tokenAmount st)) reason]
                \<and> status (fst (lockupRecorded tokenSwap transactionHash tokenAmount st))
                    = TransactionMempool))
   \<and> (erc20LockupMatch n erc20SwapValues st tokenSwap wallet
      \<and> normalizeTokenAmount (walletProvider wallet) (amount erc20SwapValues)
          = Inl tokenFault \<longrightarrow>
      swaps (listenERC20Swap_lockup n transactionHash erc20SwapValues st) = swaps st
      \<and> emitted (listenERC20Swap_lockup n transactionHash erc20SwapValues st) = emitted st)"
proof (intro conjI impI allI; (elim conjE)?)
  show "fst (lockupRecorded found transactionHash onchainAmount st)
        = found\<lparr>lockupTransactionId := Some transactionHash,
                 minerFee := Some onchainAmount,
                 status := TransactionMempool\<rparr>"
    by (rule recorded_swap)
next
  assume m: "etherLockupMatch n etherSwapValues st found"
    and c: "etherAmountToNumber n (amount etherSwapValues) = Inr onchainAmount"
  show "swaps (listenEtherSwap_lockup n transactionHash etherSwapValues st)
        = map (\<lambda>row. if swapId row = swapId found
                      then row\<lparr>lockupTransactionId := Some transactionHash,
                               minerFee := Some onchainAmount,
                               status := TransactionMempool\<rparr>
                      else row) (swaps st)"
    by (simp add: ether_lockup_matched [OF m c] recorded_table)
next
  assume m: "etherLockupMatch n etherSwapValues st found"
    and c: "etherAmountToNumber n (amount etherSwapValues) = Inr onchainAmount"
  from m have inTable: "found \<in> set (swaps st)"
    unfolding etherLockupMatch_def by (blast dest: getSwap_in_table)
  have "swaps (listenEtherSwap_lockup n transactionHash etherSwapValues st)
          = swaps (snd (lockupRecorded found transactionHash onchainAmount st))"
    by (simp add: ether_lockup_matched [OF m c])
  then show "fst (lockupRecorded found transactionHash onchainAmount st)
          \<in> set (swaps (listenEtherSwap_lockup n transactionHash etherSwapValues st))"
    using recorded_in_table [OF inTable] by simp
next
  fix reason
  assume m: "etherLockupMatch n etherSwapValues st found"
    and c: "etherAmountToNumber n (amount etherSwapValues) = Inr onchainAmount"
    and "firstFailing
              [claimAddressCheck n etherSwapValues,
               timelockCheck (fst (lockupRecorded found transactionHash onchainAmount st))
                 etherSwapValues,
               amountCheck (etherExpectedAmount n) (etherAmountToNumber n)
                 (fst (lockupRecorded found transactionHash onchainAmount st))
                 etherSwapValues] = Reject reason"
  then show "emitted (listenEtherSwap_lockup n transactionHash etherSwapValues st)
                  = emitted st @
                    [LockupFailed
                       (fst (lockupRecorded found transactionHash onchainAmount st)) reason]"
    by (simp add: ether_lockup_matched [OF m c] announced_def)
next
  show "status (fst (lockupRecorded found transactionHash onchainAmount st))
          = TransactionMempool"
    by (simp add: recorded_swap)
next
  assume m: "etherLockupMatch n etherSwapValues st found"
    and c: "etherAmountToNumber n (amount etherSwapValues) = Inl fault"
  show "swaps (listenEtherSwap_lockup n transactionHash etherSwapValues st) = swaps st"
    by (simp add: ether_lockup_thrown [OF m c])
next
  assume m: "etherLockupMatch n etherSwapValues st found"
    and c: "etherAmountToNumber n (amount etherSwapValues) = Inl fault"
  show "emitted (listenEtherSwap_lockup n transactionHash etherSwapValues st) = emitted st"
    by (simp add: ether_lockup_thrown [OF m c])
next
  show "fst (lockupRecorded tokenSwap transactionHash tokenAmount st)
        = tokenSwap\<lparr>lockupTransactionId := Some transactionHash,
                     minerFee := Some tokenAmount,
                     status := TransactionMempool\<rparr>"
    by (rule recorded_swap)
next
  assume m: "erc20LockupMatch n erc20SwapValues st tokenSwap wallet"
    and c: "normalizeTokenAmount (walletProvider wallet) (amount erc20SwapValues)
          = Inr tokenAmount"
  show "swaps (listenERC20Swap_lockup n transactionHash erc20SwapValues st)
        = map (\<lambda>row. if swapId row = swapId tokenSwap
                      then row\<lparr>lockupTransactionId := Some transactionHash,
                               minerFee := Some tokenAmount,
                               status := TransactionMempool\<rparr>
                      else row) (swaps st)"
    by (simp add: erc20_lockup_matched [OF m c] recorded_table)
next
  assume m: "erc20LockupMatch n erc20SwapValues st tokenSwap wallet"
    and c: "normalizeTokenAmount (walletProvider wallet) (amount erc20SwapValues)
          = Inr tokenAmount"
  from m have inTable: "tokenSwap \<in> set (swaps st)"
    unfolding erc20LockupMatch_def by (blast dest: getSwap_in_table)
  have "swaps (listenERC20Swap_lockup n transactionHash erc20SwapValues st)
          = swaps (snd (lockupRecorded tokenSwap transactionHash tokenAmount st))"
    by (simp add: erc20_lockup_matched [OF m c])
  then show "fst (lockupRecorded tokenSwap transactionHash tokenAmount st)
          \<in> set (swaps (listenERC20Swap_lockup n transactionHash erc20SwapValues st))"
    using recorded_in_table [OF inTable] by simp
next
  fix reason
  assume m: "erc20LockupMatch n erc20SwapValues st tokenSwap wallet"
    and c: "normalizeTokenAmount (walletProvider wallet) (amount erc20SwapValues)
          = Inr tokenAmount"
    and "firstFailing
              [claimAddressCheck n erc20SwapValues,
               tokenAddressCheck n wallet erc20SwapValues,
               timelockCheck (fst (lockupRecorded tokenSwap transactionHash tokenAmount st))
                 erc20SwapValues,
               amountCheck (formatTokenAmount (walletProvider wallet))
                 (normalizeTokenAmount (walletProvider wallet))
                 (fst (lockupRecorded tokenSwap transactionHash tokenAmount st))
                 erc20SwapValues] = Reject reason"
  then show "emitted (listenERC20Swap_lockup n transactionHash erc20SwapValues st)
                  = emitted st @
                    [LockupFailed
                       (fst (lockupRecorded tokenSwap transactionHash tokenAmount st)) reason]"
    by (simp add: erc20_lockup_matched [OF m c] announced_def)
next
  show "status (fst (lockupRecorded tokenSwap transactionHash tokenAmount st))
          = TransactionMempool"
    by (simp add: recorded_swap)
next
  assume m: "erc20LockupMatch n erc20SwapValues st tokenSwap wallet"
    and c: "normalizeTokenAmount (walletProvider wallet) (amount erc20SwapValues)
          = Inl tokenFault"
  show "swaps (listenERC20Swap_lockup n transactionHash erc20SwapValues st) = swaps st"
    by (simp add: erc20_lockup_thrown [OF m c])
next
  assume m: "erc20LockupMatch n erc20SwapValues st tokenSwap wallet"
    and c: "normalizeTokenAmount (walletProvider wallet) (amount erc20SwapValues)
          = Inl tokenFault"
  show "emitted (listenERC20Swap_lockup n transactionHash erc20SwapValues st) = emitted st"
    by (simp add: erc20_lockup_thrown [OF m c])
qed

theorem lockup_recorded_before_validation_witness:
  "etherLockupMatch exampleNursery (exampleEtherValues (5 * 10 ^ 17) ''0xme'' 1000)
     (exampleState [exampleSwap ''s1'' ''BTC/RBTC'' SwapCreated (Some 1)] [])
     (exampleSwap ''s1'' ''BTC/RBTC'' SwapCreated (Some 1))
   \<and> etherAmountToNumber exampleNursery (5 * 10 ^ 17) = Inr 0
   \<and> swaps (listenEtherSwap_lockup exampleNursery ''0xtx''
              (exampleEtherValues (5 * 10 ^ 17) ''0xme'' 1000)
              (exampleState [exampleSwap ''s1'' ''BTC/RBTC'' SwapCreated (Some 1)] []))
     = [(exampleSwap ''s1'' ''BTC/RBTC'' TransactionMempool (Some 1))
          \<lparr>lockupTransactionId := Some ''0xtx'', minerFee := Some 0\<rparr>]
   \<and> emitted (listenEtherSwap_lockup exampleNursery ''0xtx''
              (exampleEtherValues (5 * 10 ^ 17) ''0xme'' 1000)
              (exampleState [exampleSwap ''s1'' ''BTC/RBTC'' SwapCreated (Some 1)] []))
     = [LockupFailed
          ((exampleSwap ''s1'' ''BTC/RBTC'' TransactionMempool (Some 1))
             \<lparr>lockupTransactionId := Some ''0xtx'', minerFee := Some 0\<rparr>)
          (INSUFFICIENT_AMOUNT 0 1)]
   \<and> etherLockupMatch exampleNursery (exampleEtherValues (2 ^ 53 * 10 ^ 18) ''0xme'' 1000)
       (exampleState [exampleSwap ''s1'' ''BTC/RBTC'' SwapCreated (Some 1)] [])
       (exampleSwap ''s1'' ''BTC/RBTC'' SwapCreated (Some 1))
   \<and> etherAmountToNumber exampleNursery (2 ^ 53 * 10 ^ 18) = Inl Overflow
   \<and> swaps (listenEtherSwap_lockup exampleNursery ''0xtx''
              (exampleEtherValues (2 ^ 53 * 10 ^ 18) ''0xme'' 1000)
              (exampleState [exampleSwap ''s1'' ''BTC/RBTC'' SwapCreated (Some 1)] []))
     = [exampleSwap ''s1'' ''BTC/RBTC'' SwapCreated (Some 1)]
   \<and> emitted (listenEtherSwap_lockup exampleNursery ''0xtx''
              (exampleEtherValues (2 ^ 53 * 10 ^ 18) ''0xme'' 1000)
              (exampleState [exampleSwap ''s1'' ''BTC/RBTC'' SwapCreated (Some 1)] []))
     = []
   \<and> erc20LockupMatch exampleNursery (exampleERC20Values (10 ^ 12) ''0xthem'' 1000 ''0xsov'')
       (exampleState [exampleSwap ''s2'' ''BTC/SOV'' InvoiceSet (Some 100)] [])
       (exampleSwap ''s2'' ''BTC/SOV'' InvoiceSet (Some 100)) exampleTokenWallet
   \<and> normalizeTokenAmount (walletProvider exampleTokenWallet) (10 ^ 12) = Inr 100
   \<and> swaps (listenERC20Swap_lockup exampleNursery ''0xtx''
              (exampleERC20Values (10 ^ 12) ''0xthem'' 1000 ''0xsov'')
              (exampleState [exampleSwap ''s2'' ''BTC/SOV'' InvoiceSet (Some 100)] []))
     = [(exampleSwap ''s2'' ''BTC/SOV'' TransactionMempool (Some 100))
          \<lparr>lockupTransactionId := Some ''0xtx'', minerFee := Some 100\<rparr>]
   \<and> emitted (listenERC20Swap_lockup exampleNursery ''0xtx''
              (exampleERC20Values (10 ^ 12) ''0xthem'' 1000 ''0xsov'')
              (exampleState [exampleSwap ''s2'' ''BTC/SOV'' InvoiceSet (Some 100)] []))
     = [LockupFailed
          ((exampleSwap ''s2'' ''BTC/SOV'' TransactionMempool (Some 100))
             \<lparr>lockupTransactionId := Some ''0xtx'', minerFee := Some 100\<rparr>)
          (INVALID_CLAIM_ADDRESS ''0xthem'' ''0xme'')]
   \<and> erc20LockupMatch exampleNursery
       (exampleERC20Values (2 ^ 53 * 10 ^ 10) ''0xme'' 1000 ''0xsov'')
       (exampleState [exampleSwap ''s2'' ''BTC/SOV'' InvoiceSet (Some 100)] [])
       (exampleSwap ''s2'' ''BTC/SOV'' InvoiceSet (Some 100)) exampleTokenWallet
   \<and> normalizeTokenAmount (walletProvider exampleTokenWallet) (2 ^ 53 * 10 ^ 10)
       = Inl Overflow
   \<and> swaps (listenERC20Swap_lockup exampleNursery ''0xtx''
              (exampleERC20Values (2 ^ 53 * 10 ^ 10) ''0xme'' 1000 ''0xsov'')
              (exampleState [exampleSwap ''s2'' ''BTC/SOV'' InvoiceSet (Some 100)] []))
     = [exampleSwap ''s2'' ''BTC/SOV'' InvoiceSet (Some 100)]
   \<and> emitted (listenERC20Swap_lockup exampleNursery ''0xtx''
              (exampleERC20Values (2 ^ 53 * 10 ^ 10) ''0xme'' 1000 ''0xsov'')
              (exampleState [exampleSwap ''s2'' ''BTC/SOV'' InvoiceSet (Some 100)] []))
     = []"
proof -
  let ?table = "exampleState [exampleSwap ''s1'' ''BTC/RBTC'' SwapCreated (Some 1)] []"
  let ?row = "exampleSwap ''s1'' ''BTC/RBTC'' SwapCreated (Some 1)"
  let ?tokenSt = "exampleState [exampleSwap ''s2'' ''BTC/SOV'' InvoiceSet (Some 100)] []"
  let ?tokenFound = "exampleSwap ''s2'' ''BTC/SOV'' InvoiceSet (Some 100)"
  note native = example_native_match
      [where a = "5 * 10 ^ 17" and claimant = "''0xme''" and t = 1000 and ident = "''s1''"
         and expected = "Some 1"]
  note nativeAmount = example_amounts(3)
  have nativeConverted: "etherAmountToNumber exampleNursery
       (amount (exampleEtherValues (5 * 10 ^ 17) ''0xme'' 1000)) = Inr 0"
    unfolding example_values by (rule example_amounts)
  note a = lockup_recorded_before_validation
      [where n = exampleNursery and transactionHash = "''0xtx''"
         and etherSwapValues = "exampleEtherValues (5 * 10 ^ 17) ''0xme'' 1000"
         and st = ?table and found = ?row and onchainAmount = 0]
  from a native nativeAmount
  have 1: "swaps (listenEtherSwap_lockup exampleNursery ''0xtx''
              (exampleEtherValues (5 * 10 ^ 17) ''0xme'' 1000) ?table)
     = [(exampleSwap ''s1'' ''BTC/RBTC'' TransactionMempool (Some 1))
          \<lparr>lockupTransactionId := Some ''0xtx'', minerFee := Some 0\<rparr>]"
    by (simp add: exampleSwap_def)
  have rejected: "firstFailing
      [claimAddressCheck exampleNursery (exampleEtherValues (5 * 10 ^ 17) ''0xme'' 1000),
       timelockCheck (fst (lockupRecorded ?row ''0xtx'' 0 ?table))
         (exampleEtherValues (5 * 10 ^ 17) ''0xme'' 1000),
       amountCheck (etherExpectedAmount exampleNursery) (etherAmountToNumber exampleNursery)
         (fst (lockupRecorded ?row ''0xtx'' 0 ?table))
         (exampleEtherValues (5 * 10 ^ 17) ''0xme'' 1000)]
      = Reject (INSUFFICIENT_AMOUNT 0 1)"
    by (simp add: claimAddressCheck_def timelockCheck_def amountCheck_def
        etherExpectedAmount_def example_expected example_constants etherAmountToNumber_def
        bigNumberDiv_def toNumber_def)
  from a native nativeConverted rejected
  have 2: "emitted (listenEtherSwap_lockup exampleNursery ''0xtx''
              (exampleEtherValues (5 * 10 ^ 17) ''0xme'' 1000) ?table)
     = emitted ?table @ [LockupFailed (fst (lockupRecorded ?row ''0xtx'' 0 ?table))
          (INSUFFICIENT_AMOUNT 0 1)]"
    by blast
  note nativeBig = example_native_match
      [where a = "2 ^ 53 * 10 ^ 18" and claimant = "''0xme''" and t = 1000 and ident = "''s1''"
         and expected = "Some 1"]
  note nativeBigAmount = example_amounts(5)
  note b = lockup_recorded_before_validation
      [where n = exampleNursery and transactionHash = "''0xtx''"
         and etherSwapValues = "exampleEtherValues (2 ^ 53 * 10 ^ 18) ''0xme'' 1000"
         and st = ?table and found = ?row and fault = Overflow]
  from b nativeBig nativeBigAmount
  have 3: "swaps (listenEtherSwap_lockup exampleNursery ''0xtx''
              (exampleEtherValues (2 ^ 53 * 10 ^ 18) ''0xme'' 1000) ?table) = [?row]"
    and 4: "emitted (listenEtherSwap_lockup exampleNursery ''0xtx''
              (exampleEtherValues (2 ^ 53 * 10 ^ 18) ''0xme'' 1000) ?table) = []"
    by simp_all
  note token = example_token_match
      [where a = "10 ^ 12" and claimant = "''0xthem''" and t = 1000 and token = "''0xsov''"
         and ident = "''s2''" and expected = "Some 100"]
  note tokenAmount = example_token_amounts(2)
  have tokenConverted: "normalizeTokenAmount (walletProvider exampleTokenWallet)
       (amount (exampleERC20Values (10 ^ 12) ''0xthem'' 1000 ''0xsov'')) = Inr 100"
    unfolding example_values by (rule example_token_amounts)
  note c = lockup_recorded_before_validation
      [where n = exampleNursery and transactionHash = "''0xtx''"
         and erc20SwapValues = "exampleERC20Values (10 ^ 12) ''0xthem'' 1000 ''0xsov''"
         and st = ?tokenSt and tokenSwap = ?tokenFound and wallet = exampleTokenWallet
         and tokenAmount = 100]
  from c token tokenAmount
  have 5: "swaps (listenERC20Swap_lockup exampleNursery ''0xtx''
              (exampleERC20Values (10 ^ 12) ''0xthem'' 1000 ''0xsov'') ?tokenSt)
     = [(exampleSwap ''s2'' ''BTC/SOV'' TransactionMempool (Some 100))
          \<lparr>lockupTransactionId := Some ''0xtx'', minerFee := Some 100\<rparr>]"
    by (simp add: exampleSwap_def)
  have tokenRejected: "firstFailing
      [claimAddressCheck exampleNursery
         (exampleERC20Values (10 ^ 12) ''0xthem'' 1000 ''0xsov''),
       tokenAddressCheck exampleNursery exampleTokenWallet
         (exampleERC20Values (10 ^ 12) ''0xthem'' 1000 ''0xsov''),
       timelockCheck (fst (lockupRecorded ?tokenFound ''0xtx'' 100 ?tokenSt))
         (exampleERC20Values (10 ^ 12) ''0xthem'' 1000 ''0xsov''),
       amountCheck (formatTokenAmount (walletProvider exampleTokenWallet))
         (normalizeTokenAmount (walletProvider exampleTokenWallet))
         (fst (lockupRecorded ?tokenFound ''0xtx'' 100 ?tokenSt))
         (exampleERC20Values (10 ^ 12) ''0xthem'' 1000 ''0xsov'')]
      = Reject (INVALID_CLAIM_ADDRESS ''0xthem'' ''0xme'')"
    by (simp add: claimAddressCheck_def example_constants)
  from c token tokenConverted tokenRejected
  have 6: "emitted (listenERC20Swap_lockup exampleNursery ''0xtx''
              (exampleERC20Values (10 ^ 12) ''0xthem'' 1000 ''0xsov'') ?tokenSt)
     = emitted ?tokenSt @ [LockupFailed (fst (lockupRecorded ?tokenFound ''0xtx'' 100 ?tokenSt))
          (INVALID_CLAIM_ADDRESS ''0xthem'' ''0xme'')]"
    by blast
  note tokenBig = example_token_match
      [where a = "2 ^ 53 * 10 ^ 10" and claimant = "''0xme''" and t = 1000
         and token = "''0xsov''" and ident = "''s2''" and expected = "Some 100"]
  note tokenBigAmount = example_token_amounts(3)
  note d = lockup_recorded_before_validation
      [where n = exampleNursery and transactionHash = "''0xtx''"
         and erc20SwapValues = "exampleERC20Values (2 ^ 53 * 10 ^ 10) ''0xme'' 1000 ''0xsov''"
         and st = ?tokenSt and tokenSwap = ?tokenFound and wallet = exampleTokenWallet
         and tokenFault = Overflow]
  from d tokenBig tokenBigAmount
  have 7: "swaps (listenERC20Swap_lockup exampleNursery ''0xtx''
              (exampleERC20Values (2 ^ 53 * 10 ^ 10) ''0xme'' 1000 ''0xsov'') ?tokenSt)
     = [?tokenFound]"
    and 8: "emitted (listenERC20Swap_lockup exampleNursery ''0xtx''
              (exampleERC20Values (2 ^ 53 * 10 ^ 10) ''0xme'' 1000 ''0xsov'') ?tokenSt) = []"
    by simp_all
  from 2 have failed: "emitted (listenEtherSwap_lockup exampleNursery ''0xtx''
              (exampleEtherValues (5 * 10 ^ 17) ''0xme'' 1000) ?table)
     = [LockupFailed
          ((exampleSwap ''s1'' ''BTC/RBTC'' TransactionMempool (Some 1))
             \<lparr>lockupTransactionId := Some ''0xtx'', minerFee := Some 0\<rparr>)
          (INSUFFICIENT_AMOUNT 0 1)]"
    by (simp add: example_recorded)
  from 6 have tokenFailed: "emitted (listenERC20Swap_lockup exampleNursery ''0xtx''
              (exampleERC20Values (10 ^ 12) ''0xthem'' 1000 ''0xsov'') ?tokenSt)
     = [LockupFailed
          ((exampleSwap ''s2'' ''BTC/SOV'' TransactionMempool (Some 100))
             \<lparr>lockupTransactionId := Some ''0xtx'', minerFee := Some 100\<rparr>)
          (INVALID_CLAIM_ADDRESS ''0xthem'' ''0xme'')]"
    by (simp add: example_recorded)
  from native nativeAmount 1 failed nativeBig nativeBigAmount 3 4
    token tokenAmount 5 tokenFailed tokenBig tokenBigAmount 7 8
  show ?thesis by (intro conjI)
qed

theorem lockup_not_recorded_counterexample:
  "etherLockupMatch exampleNursery (exampleEtherValues (2 ^ 53 * 10 ^ 18) ''0xme'' 1000)
     (exampleState [exampleSwap ''s1'' ''BTC/RBTC'' SwapCreated None] [])
     (exampleSwap ''s1'' ''BTC/RBTC'' SwapCreated None)
   \<and> listenEtherSwap_lockup exampleNursery ''0xtx''
       (exampleEtherValues (2 ^ 53 * 10 ^ 18) ''0xme'' 1000)
       (exampleState [exampleSwap ''s1'' ''BTC/RBTC'' SwapCreated None] [])
     = (exampleState [exampleSwap ''s1'' ''BTC/RBTC'' SwapCreated None] [])
         \<lparr>unhandled := [Overflow]\<rparr>
   \<and> etherLockupMatch exampleNursery (exampleEtherValues (5 * 10 ^ 15) ''0xme'' 1000)
       (exampleState [exampleSwap ''s1'' ''BTC/RBTC'' SwapCreated (Some (1 / 100))] [])
       (exampleSwap ''s1'' ''BTC/RBTC'' SwapCreated (Some (1 / 100)))
   \<and> (5 * 10 ^ 15 :: rat) < 1 / 100 * 10 ^ 18
   \<and> swaps (listenEtherSwap_lockup exampleNursery ''0xtx''
              (exampleEtherValues (5 * 10 ^ 15) ''0xme'' 1000)
              (exampleState [exampleSwap ''s1'' ''BTC/RBTC'' SwapCreated (Some (1 / 100))] []))
     = [(exampleSwap ''s1'' ''BTC/RBTC'' TransactionMempool (Some (1 / 100)))
          \<lparr>lockupTransactionId := Some ''0xtx'', minerFee := Some 0\<rparr>]
   \<and> emitted (listenEtherSwap_lockup exampleNursery ''0xtx''
              (exampleEtherValues (5 * 10 ^ 15) ''0xme'' 1000)
              (exampleState [exampleSwap ''s1'' ''BTC/RBTC'' SwapCreated (Some (1 / 100))] []))
     = []
   \<and> unhandled (listenEtherSwap_lockup exampleNursery ''0xtx''
              (exampleEtherValues (5 * 10 ^ 15) ''0xme'' 1000)
              (exampleState [exampleSwap ''s1'' ''BTC/RBTC'' SwapCreated (Some (1 / 100))] []))
     = [Underflow]"
proof -
  let ?table = "exampleState [exampleSwap ''s1'' ''BTC/RBTC'' SwapCreated None] []"
  let ?row = "exampleSwap ''s1'' ''BTC/RBTC'' SwapCreated None"
  let ?table2 = "exampleState [exampleSwap ''s1'' ''BTC/RBTC'' SwapCreated (Some (1 / 100))] []"
  let ?row2 = "exampleSwap ''s1'' ''BTC/RBTC'' SwapCreated (Some (1 / 100))"
  note big = example_native_match
      [where a = "2 ^ 53 * 10 ^ 18" and claimant = "''0xme''" and t = 1000 and ident = "''s1''"
         and expected = None]
  have bigAmount: "etherAmountToNumber exampleNursery
       (amount (exampleEtherValues (2 ^ 53 * 10 ^ 18) ''0xme'' 1000)) = Inl Overflow"
    unfolding example_values by (rule example_amounts)
  have 1: "listenEtherSwap_lockup exampleNursery ''0xtx''
       (exampleEtherValues (2 ^ 53 * 10 ^ 18) ''0xme'' 1000) ?table
     = ?table\<lparr>unhandled := [Overflow]\<rparr>"
    unfolding ether_lockup_thrown [OF big bigAmount]
    by (simp add: unhandledRejection_def)
  note small = example_native_match
      [where a = "5 * 10 ^ 15" and claimant = "''0xme''" and t = 1000 and ident = "''s1''"
         and expected = "Some (1 / 100)"]
  have smallAmount: "etherAmountToNumber exampleNursery
       (amount (exampleEtherValues (5 * 10 ^ 15) ''0xme'' 1000)) = Inr 0"
    unfolding example_values by (rule example_amounts)
  have short: "(5 * 10 ^ 15 :: rat) < 1 / 100 * 10 ^ 18"
    by simp
  have verdict: "firstFailing
      [claimAddressCheck exampleNursery (exampleEtherValues (5 * 10 ^ 15) ''0xme'' 1000),
       timelockCheck (fst (lockupRecorded ?row2 ''0xtx'' 0 ?table2))
         (exampleEtherValues (5 * 10 ^ 15) ''0xme'' 1000),
       amountCheck (etherExpectedAmount exampleNursery) (etherAmountToNumber exampleNursery)
         (fst (lockupRecorded ?row2 ''0xtx'' 0 ?table2))
         (exampleEtherValues (5 * 10 ^ 15) ''0xme'' 1000)]
      = Throws Underflow"
    by (simp add: claimAddressCheck_def timelockCheck_def amountCheck_def
        etherExpectedAmount_def example_expected example_constants)
  have 2: "swaps (listenEtherSwap_lockup exampleNursery ''0xtx''
              (exampleEtherValues (5 * 10 ^ 15) ''0xme'' 1000) ?table2)
     = [(exampleSwap ''s1'' ''BTC/RBTC'' TransactionMempool (Some (1 / 100)))
          \<lparr>lockupTransactionId := Some ''0xtx'', minerFee := Some 0\<rparr>]"
    unfolding ether_lockup_matched [OF small smallAmount] verdict
    by (simp add: example_recorded_table)
  have 3: "emitted (listenEtherSwap_lockup exampleNursery ''0xtx''
              (exampleEtherValues (5 * 10 ^ 15) ''0xme'' 1000) ?table2) = []"
    unfolding ether_lockup_matched [OF small smallAmount] verdict
    by (simp add: announced_def)
  have 4: "unhandled (listenEtherSwap_lockup exampleNursery ''0xtx''
              (exampleEtherValues (5 * 10 ^ 15) ''0xme'' 1000) ?table2) = [Underflow]"
    unfolding ether_lockup_matched [OF small smallAmount] verdict
    by (simp add: concluded_def)
  from big 1 small short 2 3 4 show ?thesis by (intro conjI)
qed

text \<open>
  C4. A lockup event matches a swap only if the swap is in the table, its preimage hash
  is that of the event and its status is \<^verbatim>\<open>swap.created\<close> or \<^verbatim>\<open>invoice.set\<close>. When no
  swap of the table is such (a swap already in \<^verbatim>\<open>transaction.mempool\<close> is not: a replay),
  either handler leaves the state as it is: no row written, no event emitted.
\<close>

theorem lockup_without_match_is_noop:
  "(\<forall>found. getSwap (lockupQuery n h) st = Some found \<longrightarrow>
      found \<in> set (swaps st) \<and> SwapCommon.preimageHash found = getHexString n h
      \<and> (status found = SwapCreated \<or> status found = InvoiceSet))
   \<and> ((\<forall>s\<in>set (swaps st).
          \<not> (SwapCommon.preimageHash s
                = getHexString n (EtherSwapValues.preimageHash etherSwapValues)
             \<and> (status s = SwapCreated \<or> status s = InvoiceSet)))
        \<longrightarrow> listenEtherSwap_lockup n transactionHash etherSwapValues st = st)
   \<and> ((\<forall>s\<in>set (swaps st).
          \<not> (SwapCommon.preimageHash s
                = getHexString n (EtherSwapValues.preimageHash erc20SwapValues)
             \<and> (status s = SwapCreated \<or> status s = InvoiceSet)))
        \<longrightarrow> listenERC20Swap_lockup n transactionHash erc20SwapValues st = st)"
proof (intro conjI allI impI)
  fix found
  assume "getSwap (lockupQuery n h) st = Some found"
  then have "found \<in> set (swaps st) \<and> lockupQuery n h found"
    unfolding getSwap_def by (rule find_Some_set)
  then show "found \<in> set (swaps st)"
    and "SwapCommon.preimageHash found = getHexString n h"
    and "status found = SwapCreated \<or> status found = InvoiceSet"
    by (simp_all add: lockupQuery_def)
next
  assume "\<forall>s\<in>set (swaps st).
          \<not> (SwapCommon.preimageHash s
                = getHexString n (EtherSwapValues.preimageHash etherSwapValues)
             \<and> (status s = SwapCreated \<or> status s = InvoiceSet))"
  then have "getSwap (lockupQuery n (EtherSwapValues.preimageHash etherSwapValues)) st = None"
    by (simp add: getSwap_def find_None_iff_set lockupQuery_def)
  then show "listenEtherSwap_lockup n transactionHash etherSwapValues st = st"
    by (simp add: listenEtherSwap_lockup_def)
next
  assume "\<forall>s\<in>set (swaps st).
          \<not> (SwapCommon.preimageHash s
                = getHexString n (EtherSwapValues.preimageHash erc20SwapValues)
             \<and> (status s = SwapCreated \<or> status s = InvoiceSet))"
  then have "getSwap (lockupQuery n (EtherSwapValues.preimageHash erc20SwapValues)) st = None"
    by (simp add: getSwap_def find_None_iff_set lockupQuery_def)
  then show "listenERC20Swap_lockup n transactionHash erc20SwapValues st = st"
    by (simp add: listenERC20Swap_lockup_def)
qed

theorem lockup_without_match_is_noop_witness:
  "getSwap (lockupQuery exampleNursery [171])
     (exampleState
        [exampleSwap ''s0'' ''BTC/RBTC'' TransactionMempool (Some 1),
         exampleSwap ''s1'' ''BTC/RBTC'' InvoiceSet (Some 1)] [])
     = Some (exampleSwap ''s1'' ''BTC/RBTC'' InvoiceSet (Some 1))
   \<and> exampleSwap ''s1'' ''BTC/RBTC'' InvoiceSet (Some 1)
       \<in> set (swaps (exampleState
                       [exampleSwap ''s0'' ''BTC/RBTC'' TransactionMempool (Some 1),
                        exampleSwap ''s1'' ''BTC/RBTC'' InvoiceSet (Some 1)] []))
   \<and> listenEtherSwap_lockup exampleNursery ''0xtx'' (exampleEtherValues (10 ^ 18) ''0xme'' 1000)
       (exampleState [exampleSwap ''s0'' ''BTC/RBTC'' TransactionMempool (Some 1)] [])
     = exampleState [exampleSwap ''s0'' ''BTC/RBTC'' TransactionMempool (Some 1)] []
   \<and> listenERC20Swap_lockup exampleNursery ''0xtx''
       (exampleERC20Values (10 ^ 18) ''0xme'' 1000 ''0xsov'')
       (exampleState [exampleSwap ''s0'' ''BTC/SOV'' TransactionMempool (Some 1)] [])
     = exampleState [exampleSwap ''s0'' ''BTC/SOV'' TransactionMempool (Some 1)] []"
proof -
  have matched: "getSwap (lockupQuery exampleNursery [171])
     (exampleState
        [exampleSwap ''s0'' ''BTC/RBTC'' TransactionMempool (Some 1),
         exampleSwap ''s1'' ''BTC/RBTC'' InvoiceSet (Some 1)] [])
     = Some (exampleSwap ''s1'' ''BTC/RBTC'' InvoiceSet (Some 1))"
    by (simp add: getSwap_def lockupQuery_def example_hex exampleState_def exampleSwap_def)
  have replayed:
    "\<forall>s\<in>set (swaps (exampleState [exampleSwap ''s0'' ''BTC/RBTC'' TransactionMempool (Some 1)] [])).
       \<not> (SwapCommon.preimageHash s
             = getHexString exampleNursery
                 (EtherSwapValues.preimageHash (exampleEtherValues (10 ^ 18) ''0xme'' 1000))
          \<and> (status s = SwapCreated \<or> status s = InvoiceSet))"
    by (simp add: exampleState_def exampleSwap_def)
  have replayedToken:
    "\<forall>s\<in>set (swaps (exampleState [exampleSwap ''s0'' ''BTC/SOV'' TransactionMempool (Some 1)] [])).
       \<not> (SwapCommon.preimageHash s
             = getHexString exampleNursery
                 (EtherSwapValues.preimageHash
                    (exampleERC20Values (10 ^ 18) ''0xme'' 1000 ''0xsov''))
          \<and> (status s = SwapCreated \<or> status s = InvoiceSet))"
    by (simp add: exampleState_def exampleSwap_def)
  note a = lockup_without_match_is_noop
      [where n = exampleNursery and h = "[171]"
         and st = "exampleState
             [exampleSwap ''s0'' ''BTC/RBTC'' TransactionMempool (Some 1),
              exampleSwap ''s1'' ''BTC/RBTC'' InvoiceSet (Some 1)] []"]
  note b = lockup_without_match_is_noop
      [where n = exampleNursery
         and st = "exampleState [exampleSwap ''s0'' ''BTC/RBTC'' TransactionMempool (Some 1)] []"
         and etherSwapValues = "exampleEtherValues (10 ^ 18) ''0xme'' 1000"
         and transactionHash = "''0xtx''"]
  note c = lockup_without_match_is_noop
      [where n = exampleNursery
         and st = "exampleState [exampleSwap ''s0'' ''BTC/SOV'' TransactionMempool (Some 1)] []"
         and erc20SwapValues = "exampleERC20Values (10 ^ 18) ''0xme'' 1000 ''0xsov''"
         and transactionHash = "''0xtx''"]
  from a matched have 1: "exampleSwap ''s1'' ''BTC/RBTC'' InvoiceSet (Some 1)
       \<in> set (swaps (exampleState
                       [exampleSwap ''s0'' ''BTC/RBTC'' TransactionMempool (Some 1),
                        exampleSwap ''s1'' ''BTC/RBTC'' InvoiceSet (Some 1)] []))"
    by blast
  from b replayed have 2:
    "listenEtherSwap_lockup exampleNursery ''0xtx'' (exampleEtherValues (10 ^ 18) ''0xme'' 1000)
       (exampleState [exampleSwap ''s0'' ''BTC/RBTC'' TransactionMempool (Some 1)] [])
     = exampleState [exampleSwap ''s0'' ''BTC/RBTC'' TransactionMempool (Some 1)] []"
    by blast
  from c replayedToken have 3:
    "listenERC20Swap_lockup exampleNursery ''0xtx''
       (exampleERC20Values (10 ^ 18) ''0xme'' 1000 ''0xsov'')
       (exampleState [exampleSwap ''s0'' ''BTC/SOV'' TransactionMempool (Some 1)] [])
     = exampleState [exampleSwap ''s0'' ''BTC/SOV'' TransactionMempool (Some 1)] []"
    by blast
  from matched 1 2 3 show ?thesis by blast
qed

text \<open>
  C5 (as amended). A watcher is a pending wait, attached by
  \<^verbatim>\<open>listenContractTransaction\<close>; its wait settles once, after which it is no longer
  pending. When the confirmation succeeds, and the write is not rejected and no listener
  of \<^verbatim>\<open>lockup.confirmed\<close> throws, the instance gets the status \<^verbatim>\<open>transaction.confirmed\<close>,
  its row as well unless the instance carried that status already (then nothing is
  written), and exactly one event is emitted, \<^verbatim>\<open>lockup.confirmed\<close> with the instance and
  the hash of the transaction. When the wait fails, and the write is not rejected and no
  listener throws, the same holds with \<^verbatim>\<open>transaction.failed\<close> and \<^verbatim>\<open>lockup.failedToSend\<close>
  with the instance and the reason. When the confirmation succeeds and a listener of
  \<^verbatim>\<open>lockup.confirmed\<close> throws, both events are emitted and the row ends in
  \<^verbatim>\<open>transaction.failed\<close>; when the confirmation succeeds and the write is rejected, only
  \<^verbatim>\<open>lockup.failedToSend\<close> is emitted, with the rejection as the reason, and the row ends in
  \<^verbatim>\<open>transaction.failed\<close>. When the wait fails and the write is rejected, nothing is
  emitted and nothing is written.
\<close>

theorem confirmation_watcher_outcomes:
  "(i < length (watching st) \<longrightarrow>
      watching (transactionWaitSettled i outcome run st)
        = take i (watching st) @ drop (Suc i) (watching st))
   \<and> (length (watching st) \<le> i \<longrightarrow> transactionWaitSettled i outcome run st = st)
   \<and> length (watching st) < length (watching (listenContractTransaction r t st))
   \<and> watching (listenContractTransaction r t st) ! length (watching st) = (r, t)
   \<and> (i < length (watching st) \<and> watching st ! i = (r, t)
        \<and> confirmedSave run = None \<and> confirmedListener run = None \<longrightarrow>
      emitted (transactionWaitSettled i WaitResolved run st)
        = emitted st @ [LockupConfirmed (r\<lparr>status := TransactionConfirmed\<rparr>) (hash t)]
      \<and> reverseSwaps (transactionWaitSettled i WaitResolved run st)
        = (if status r = TransactionConfirmed then reverseSwaps st
           else map (\<lambda>row. if swapId row = swapId r
                            then row\<lparr>status := TransactionConfirmed\<rparr> else row)
                  (reverseSwaps st))
      \<and> unhandled (transactionWaitSettled i WaitResolved run st) = unhandled st)
   \<and> (i < length (watching st) \<and> watching st ! i = (r, t)
        \<and> failedSave run = None \<and> failedListener run = None \<longrightarrow>
      emitted (transactionWaitSettled i (WaitRejected reason) run st)
        = emitted st @ [LockupFailedToSend (r\<lparr>status := TransactionFailed\<rparr>) reason]
      \<and> reverseSwaps (transactionWaitSettled i (WaitRejected reason) run st)
        = (if status r = TransactionFailed then reverseSwaps st
           else map (\<lambda>row. if swapId row = swapId r
                            then row\<lparr>status := TransactionFailed\<rparr> else row)
                  (reverseSwaps st))
      \<and> unhandled (transactionWaitSettled i (WaitRejected reason) run st) = unhandled st)
   \<and> (i < length (watching st) \<and> watching st ! i = (r, t)
        \<and> confirmedSave run = None \<and> confirmedListener run = Some thrown
        \<and> failedSave run = None \<and> failedListener run = None \<longrightarrow>
      emitted (transactionWaitSettled i WaitResolved run st)
        = emitted st @
          [LockupConfirmed (r\<lparr>status := TransactionConfirmed\<rparr>) (hash t),
           LockupFailedToSend (r\<lparr>status := TransactionFailed\<rparr>) thrown]
      \<and> reverseSwaps (transactionWaitSettled i WaitResolved run st)
        = map (\<lambda>row. if swapId row = swapId r
                      then row\<lparr>status := TransactionFailed\<rparr> else row)
            (reverseSwaps st))
   \<and> (i < length (watching st) \<and> watching st ! i = (r, t)
        \<and> status r \<noteq> TransactionConfirmed \<and> confirmedSave run = Some rejected
        \<and> failedSave run = None \<and> failedListener run = None \<longrightarrow>
      emitted (transactionWaitSettled i WaitResolved run st)
        = emitted st @ [LockupFailedToSend (r\<lparr>status := TransactionFailed\<rparr>) rejected]
      \<and> reverseSwaps (transactionWaitSettled i WaitResolved run st)
        = map (\<lambda>row. if swapId row = swapId r
                      then row\<lparr>status := TransactionFailed\<rparr> else row)
            (reverseSwaps st))
   \<and> (i < length (watching st) \<and> watching st ! i = (r, t)
        \<and> status r \<noteq> TransactionFailed \<and> failedSave run = Some rejected \<longrightarrow>
      emitted (transactionWaitSettled i (WaitRejected reason) run st) = emitted st
      \<and> reverseSwaps (transactionWaitSettled i (WaitRejected reason) run st)
          = reverseSwaps st
      \<and> unhandled (transactionWaitSettled i (WaitRejected reason) run st)
          = unhandled st @ [rejected])"
proof -
  have removed: "watching (transactionWaitSettled i outcome run st)
        = take i (watching st) @ drop (Suc i) (watching st)"
    if "i < length (watching st)"
    using that by (rule transactionWaitSettled_watching)
  have absent: "transactionWaitSettled i outcome run st = st"
    if "length (watching st) \<le> i"
    using that by (simp add: transactionWaitSettled_def)
  have attached: "length (watching st) < length (watching (listenContractTransaction r t st))"
    "watching (listenContractTransaction r t st) ! length (watching st) = (r, t)"
    by simp_all
  have confirmed:
    "emitted (transactionWaitSettled i WaitResolved run st)
        = emitted st @ [LockupConfirmed (r\<lparr>status := TransactionConfirmed\<rparr>) (hash t)]
      \<and> reverseSwaps (transactionWaitSettled i WaitResolved run st)
        = (if status r = TransactionConfirmed then reverseSwaps st
           else map (\<lambda>row. if swapId row = swapId r
                            then row\<lparr>status := TransactionConfirmed\<rparr> else row)
                  (reverseSwaps st))
      \<and> unhandled (transactionWaitSettled i WaitResolved run st) = unhandled st"
    if "i < length (watching st)" "watching st ! i = (r, t)"
      "confirmedSave run = None" "confirmedListener run = None"
    using that
    by (simp add: transactionWaitSettled_resolved successCallback_saved)
  have failed:
    "emitted (transactionWaitSettled i (WaitRejected reason) run st)
        = emitted st @ [LockupFailedToSend (r\<lparr>status := TransactionFailed\<rparr>) reason]
      \<and> reverseSwaps (transactionWaitSettled i (WaitRejected reason) run st)
        = (if status r = TransactionFailed then reverseSwaps st
           else map (\<lambda>row. if swapId row = swapId r
                            then row\<lparr>status := TransactionFailed\<rparr> else row)
                  (reverseSwaps st))
      \<and> unhandled (transactionWaitSettled i (WaitRejected reason) run st) = unhandled st"
    if "i < length (watching st)" "watching st ! i = (r, t)"
      "failedSave run = None" "failedListener run = None"
    using that
    by (simp add: transactionWaitSettled_rejected failureCallback_saved)
  have both:
    "emitted (transactionWaitSettled i WaitResolved run st)
        = emitted st @
          [LockupConfirmed (r\<lparr>status := TransactionConfirmed\<rparr>) (hash t),
           LockupFailedToSend (r\<lparr>status := TransactionFailed\<rparr>) thrown]
      \<and> reverseSwaps (transactionWaitSettled i WaitResolved run st)
        = map (\<lambda>row. if swapId row = swapId r
                      then row\<lparr>status := TransactionFailed\<rparr> else row)
            (reverseSwaps st)"
    if "i < length (watching st)" "watching st ! i = (r, t)"
      "confirmedSave run = None" "confirmedListener run = Some thrown"
      "failedSave run = None" "failedListener run = None"
    using that status_overwritten
      [where r = r and a = TransactionConfirmed and b = TransactionFailed
         and rows = "reverseSwaps st"]
    by (simp add: transactionWaitSettled_resolved successCallback_saved failureCallback_saved)
  have fallback:
    "emitted (transactionWaitSettled i WaitResolved run st)
        = emitted st @ [LockupFailedToSend (r\<lparr>status := TransactionFailed\<rparr>) rejected]
      \<and> reverseSwaps (transactionWaitSettled i WaitResolved run st)
        = map (\<lambda>row. if swapId row = swapId r
                      then row\<lparr>status := TransactionFailed\<rparr> else row)
            (reverseSwaps st)"
    if "i < length (watching st)" "watching st ! i = (r, t)"
      "status r \<noteq> TransactionConfirmed" "confirmedSave run = Some rejected"
      "failedSave run = None" "failedListener run = None"
    using that
    by (simp add: transactionWaitSettled_resolved successCallback_rejected
        failureCallback_saved)
  have silent:
    "emitted (transactionWaitSettled i (WaitRejected reason) run st) = emitted st
      \<and> reverseSwaps (transactionWaitSettled i (WaitRejected reason) run st)
          = reverseSwaps st
      \<and> unhandled (transactionWaitSettled i (WaitRejected reason) run st)
          = unhandled st @ [rejected]"
    if "i < length (watching st)" "watching st ! i = (r, t)"
      "status r \<noteq> TransactionFailed" "failedSave run = Some rejected"
    using that
    by (simp add: transactionWaitSettled_rejected failureCallback_def
        setReverseSwapStatus_omitted)
  from removed absent attached confirmed failed both fallback silent
  show ?thesis by blast
qed

theorem confirmation_watcher_outcomes_witness:
  "watching (listenContractTransaction
       (exampleReverseSwap ''r1'' ''RBTC/BTC'' TransactionMempool (Some ''0xt1'') None)
       \<lparr>hash = ''0xt1''\<rparr>
       (exampleState []
          [exampleReverseSwap ''r1'' ''RBTC/BTC'' TransactionMempool (Some ''0xt1'') None]))
     = [(exampleReverseSwap ''r1'' ''RBTC/BTC'' TransactionMempool (Some ''0xt1'') None,
         \<lparr>hash = ''0xt1''\<rparr>)]
   \<and> emitted (transactionWaitSettled 0 WaitResolved exampleRun
       (listenContractTransaction
          (exampleReverseSwap ''r1'' ''RBTC/BTC'' TransactionMempool (Some ''0xt1'') None)
          \<lparr>hash = ''0xt1''\<rparr>
          (exampleState []
             [exampleReverseSwap ''r1'' ''RBTC/BTC'' TransactionMempool (Some ''0xt1'') None])))
     = [LockupConfirmed
          (exampleReverseSwap ''r1'' ''RBTC/BTC'' TransactionConfirmed (Some ''0xt1'') None)
          ''0xt1'']
   \<and> reverseSwaps (transactionWaitSettled 0 WaitResolved exampleRun
       (listenContractTransaction
          (exampleReverseSwap ''r1'' ''RBTC/BTC'' TransactionMempool (Some ''0xt1'') None)
          \<lparr>hash = ''0xt1''\<rparr>
          (exampleState []
             [exampleReverseSwap ''r1'' ''RBTC/BTC'' TransactionMempool (Some ''0xt1'') None])))
     = [exampleReverseSwap ''r1'' ''RBTC/BTC'' TransactionConfirmed (Some ''0xt1'') None]
   \<and> watching (transactionWaitSettled 0 WaitResolved exampleRun
       (listenContractTransaction
          (exampleReverseSwap ''r1'' ''RBTC/BTC'' TransactionMempool (Some ''0xt1'') None)
          \<lparr>hash = ''0xt1''\<rparr>
          (exampleState []
             [exampleReverseSwap ''r1'' ''RBTC/BTC'' TransactionMempool (Some ''0xt1'') None])))
     = []
   \<and> transactionWaitSettled 0 WaitResolved exampleRun
       (exampleState []
          [exampleReverseSwap ''r1'' ''RBTC/BTC'' TransactionMempool (Some ''0xt1'') None])
     = exampleState []
          [exampleReverseSwap ''r1'' ''RBTC/BTC'' TransactionMempool (Some ''0xt1'') None]
   \<and> emitted (transactionWaitSettled 0 (WaitRejected (Thrown ''replaced'')) exampleRun
       (listenContractTransaction
          (exampleReverseSwap ''r1'' ''RBTC/BTC'' TransactionMempool (Some ''0xt1'') None)
          \<lparr>hash = ''0xt1''\<rparr>
          (exampleState []
             [exampleReverseSwap ''r1'' ''RBTC/BTC'' TransactionMempool (Some ''0xt1'') None])))
     = [LockupFailedToSend
          (exampleReverseSwap ''r1'' ''RBTC/BTC'' TransactionFailed (Some ''0xt1'') None)
          (Thrown ''replaced'')]
   \<and> reverseSwaps (transactionWaitSettled 0 (WaitRejected (Thrown ''replaced'')) exampleRun
       (listenContractTransaction
          (exampleReverseSwap ''r1'' ''RBTC/BTC'' TransactionMempool (Some ''0xt1'') None)
          \<lparr>hash = ''0xt1''\<rparr>
          (exampleState []
             [exampleReverseSwap ''r1'' ''RBTC/BTC'' TransactionMempool (Some ''0xt1'') None])))
     = [exampleReverseSwap ''r1'' ''RBTC/BTC'' TransactionFailed (Some ''0xt1'') None]
   \<and> emitted (transactionWaitSettled 0 WaitResolved
       (exampleRun\<lparr>confirmedListener := Some (Thrown ''listener'')\<rparr>)
       (listenContractTransaction
          (exampleReverseSwap ''r1'' ''RBTC/BTC'' TransactionMempool (Some ''0xt1'') None)
          \<lparr>hash = ''0xt1''\<rparr>
          (exampleState []
             [exampleReverseSwap ''r1'' ''RBTC/BTC'' TransactionMempool (Some ''0xt1'') None])))
     = [LockupConfirmed
          (exampleReverseSwap ''r1'' ''RBTC/BTC'' TransactionConfirmed (Some ''0xt1'') None)
          ''0xt1'',
        LockupFailedToSend
          (exampleReverseSwap ''r1'' ''RBTC/BTC'' TransactionFailed (Some ''0xt1'') None)
          (Thrown ''listener'')]
   \<and> emitted (transactionWaitSettled 0 WaitResolved
       (exampleRun\<lparr>confirmedSave := Some (Thrown ''database'')\<rparr>)
       (listenContractTransaction
          (exampleReverseSwap ''r1'' ''RBTC/BTC'' TransactionMempool (Some ''0xt1'') None)
          \<lparr>hash = ''0xt1''\<rparr>
          (exampleState []
             [exampleReverseSwap ''r1'' ''RBTC/BTC'' TransactionMempool (Some ''0xt1'') None])))
     = [LockupFailedToSend
          (exampleReverseSwap ''r1'' ''RBTC/BTC'' TransactionFailed (Some ''0xt1'') None)
          (Thrown ''database'')]
   \<and> emitted (transactionWaitSettled 0 (WaitRejected (Thrown ''replaced''))
       (exampleRun\<lparr>failedSave := Some (Thrown ''database'')\<rparr>)
       (listenContractTransaction
          (exampleReverseSwap ''r1'' ''RBTC/BTC'' TransactionMempool (Some ''0xt1'') None)
          \<lparr>hash = ''0xt1''\<rparr>
          (exampleState []
             [exampleReverseSwap ''r1'' ''RBTC/BTC'' TransactionMempool (Some ''0xt1'') None])))
     = []
   \<and> unhandled (transactionWaitSettled 0 (WaitRejected (Thrown ''replaced''))
       (exampleRun\<lparr>failedSave := Some (Thrown ''database'')\<rparr>)
       (listenContractTransaction
          (exampleReverseSwap ''r1'' ''RBTC/BTC'' TransactionMempool (Some ''0xt1'') None)
          \<lparr>hash = ''0xt1''\<rparr>
          (exampleState []
             [exampleReverseSwap ''r1'' ''RBTC/BTC'' TransactionMempool (Some ''0xt1'') None])))
     = [Thrown ''database'']"
proof -
  let ?swap = "exampleReverseSwap ''r1'' ''RBTC/BTC'' TransactionMempool (Some ''0xt1'') None"
  let ?tx = "\<lparr>hash = ''0xt1''\<rparr>"
  let ?idle = "exampleState [] [?swap]"
  let ?pending = "listenContractTransaction ?swap ?tx ?idle"
  have pending: "watching ?pending = [(?swap, ?tx)]"
    by simp
  have confirmedRecord: "?swap\<lparr>status := TransactionConfirmed\<rparr>
      = exampleReverseSwap ''r1'' ''RBTC/BTC'' TransactionConfirmed (Some ''0xt1'') None"
    and failedRecord: "?swap\<lparr>status := TransactionFailed\<rparr>
      = exampleReverseSwap ''r1'' ''RBTC/BTC'' TransactionFailed (Some ''0xt1'') None"
    and current: "status ?swap = TransactionMempool"
    by (simp_all add: exampleReverseSwap_def)
  have rows: "map (\<lambda>row. if swapId row = swapId ?swap then row\<lparr>status := s\<rparr> else row) [?swap]
      = [?swap\<lparr>status := s\<rparr>]" for s
    by simp
  note quiet = confirmation_watcher_outcomes
      [where i = 0 and st = ?pending and r = ?swap and t = ?tx and run = exampleRun
         and outcome = WaitResolved and reason = "Thrown ''replaced''"
         and thrown = "Thrown ''listener''" and rejected = "Thrown ''database''"]
  from quiet
  have 1: "emitted (transactionWaitSettled 0 WaitResolved exampleRun ?pending)
       = [LockupConfirmed
            (exampleReverseSwap ''r1'' ''RBTC/BTC'' TransactionConfirmed (Some ''0xt1'') None)
            ''0xt1'']"
    and 2: "reverseSwaps (transactionWaitSettled 0 WaitResolved exampleRun ?pending)
       = [exampleReverseSwap ''r1'' ''RBTC/BTC'' TransactionConfirmed (Some ''0xt1'') None]"
    and 3: "watching (transactionWaitSettled 0 WaitResolved exampleRun ?pending) = []"
    and 5: "emitted (transactionWaitSettled 0 (WaitRejected (Thrown ''replaced'')) exampleRun ?pending)
       = [LockupFailedToSend
            (exampleReverseSwap ''r1'' ''RBTC/BTC'' TransactionFailed (Some ''0xt1'') None)
            (Thrown ''replaced'')]"
    and 6: "reverseSwaps (transactionWaitSettled 0 (WaitRejected (Thrown ''replaced''))
              exampleRun ?pending)
       = [exampleReverseSwap ''r1'' ''RBTC/BTC'' TransactionFailed (Some ''0xt1'') None]"
    unfolding confirmedRecord failedRecord current
    by (simp_all add: exampleRun_def rows confirmedRecord failedRecord)
  note none = confirmation_watcher_outcomes
      [where i = 0 and st = ?idle and r = ?swap and t = ?tx and run = exampleRun
         and outcome = WaitResolved and reason = "Thrown ''replaced''"
         and thrown = "Thrown ''listener''" and rejected = "Thrown ''database''"]
  from none have 4: "transactionWaitSettled 0 WaitResolved exampleRun ?idle = ?idle"
    by simp
  note listener = confirmation_watcher_outcomes
      [where i = 0 and st = ?pending and r = ?swap and t = ?tx
         and run = "exampleRun\<lparr>confirmedListener := Some (Thrown ''listener'')\<rparr>"
         and outcome = WaitResolved and reason = "Thrown ''replaced''"
         and thrown = "Thrown ''listener''" and rejected = "Thrown ''database''"]
  from listener
  have 7: "emitted (transactionWaitSettled 0 WaitResolved
              (exampleRun\<lparr>confirmedListener := Some (Thrown ''listener'')\<rparr>) ?pending)
       = [LockupConfirmed
            (exampleReverseSwap ''r1'' ''RBTC/BTC'' TransactionConfirmed (Some ''0xt1'') None)
            ''0xt1'',
          LockupFailedToSend
            (exampleReverseSwap ''r1'' ''RBTC/BTC'' TransactionFailed (Some ''0xt1'') None)
            (Thrown ''listener'')]"
    unfolding confirmedRecord failedRecord current
    by (simp add: exampleRun_def)
  note database = confirmation_watcher_outcomes
      [where i = 0 and st = ?pending and r = ?swap and t = ?tx
         and run = "exampleRun\<lparr>confirmedSave := Some (Thrown ''database'')\<rparr>"
         and outcome = WaitResolved and reason = "Thrown ''replaced''"
         and thrown = "Thrown ''listener''" and rejected = "Thrown ''database''"]
  from database
  have 8: "emitted (transactionWaitSettled 0 WaitResolved
              (exampleRun\<lparr>confirmedSave := Some (Thrown ''database'')\<rparr>) ?pending)
       = [LockupFailedToSend
            (exampleReverseSwap ''r1'' ''RBTC/BTC'' TransactionFailed (Some ''0xt1'') None)
            (Thrown ''database'')]"
    unfolding confirmedRecord failedRecord current
    by (simp add: exampleRun_def)
  note refused = confirmation_watcher_outcomes
      [where i = 0 and st = ?pending and r = ?swap and t = ?tx
         and run = "exampleRun\<lparr>failedSave := Some (Thrown ''database'')\<rparr>"
         and outcome = WaitResolved and reason = "Thrown ''replaced''"
         and thrown = "Thrown ''listener''" and rejected = "Thrown ''database''"]
  from refused
  have 9: "emitted (transactionWaitSettled 0 (WaitRejected (Thrown ''replaced''))
              (exampleRun\<lparr>failedSave := Some (Thrown ''database'')\<rparr>) ?pending) = []"
    and 10: "unhandled (transactionWaitSettled 0 (WaitRejected (Thrown ''replaced''))
              (exampleRun\<lparr>failedSave := Some (Thrown ''database'')\<rparr>) ?pending)
       = [Thrown ''database'']"
    unfolding current
    by (simp_all add: exampleRun_def)
  from pending 1 2 3 4 5 6 7 8 9 10 show ?thesis by (intro conjI)
qed

theorem confirmation_watcher_both_events_counterexample:
  "emitted (transactionWaitSettled 0 WaitResolved
       (exampleRun\<lparr>confirmedListener := Some (Thrown ''listener'')\<rparr>)
       (listenContractTransaction
          (exampleReverseSwap ''r5'' ''RBTC/BTC'' TransactionMempool (Some ''0xt1'') None)
          \<lparr>hash = ''0xt1''\<rparr>
          (exampleState []
             [exampleReverseSwap ''r5'' ''RBTC/BTC'' TransactionMempool (Some ''0xt1'') None])))
     = [LockupConfirmed
          (exampleReverseSwap ''r5'' ''RBTC/BTC'' TransactionConfirmed (Some ''0xt1'') None)
          ''0xt1'',
        LockupFailedToSend
          (exampleReverseSwap ''r5'' ''RBTC/BTC'' TransactionFailed (Some ''0xt1'') None)
          (Thrown ''listener'')]
   \<and> reverseSwaps (transactionWaitSettled 0 WaitResolved
       (exampleRun\<lparr>confirmedListener := Some (Thrown ''listener'')\<rparr>)
       (listenContractTransaction
          (exampleReverseSwap ''r5'' ''RBTC/BTC'' TransactionMempool (Some ''0xt1'') None)
          \<lparr>hash = ''0xt1''\<rparr>
          (exampleState []
             [exampleReverseSwap ''r5'' ''RBTC/BTC'' TransactionMempool (Some ''0xt1'') None])))
     = [exampleReverseSwap ''r5'' ''RBTC/BTC'' TransactionFailed (Some ''0xt1'') None]
   \<and> emitted (transactionWaitSettled 0 WaitResolved exampleRun
       (listenContractTransaction
          (exampleReverseSwap ''r5'' ''RBTC/BTC'' TransactionConfirmed (Some ''0xt1'') None)
          \<lparr>hash = ''0xt1''\<rparr>
          (exampleState []
             [exampleReverseSwap ''r5'' ''RBTC/BTC'' TransactionMempool (Some ''0xt1'') None])))
     = [LockupConfirmed
          (exampleReverseSwap ''r5'' ''RBTC/BTC'' TransactionConfirmed (Some ''0xt1'') None)
          ''0xt1'']
   \<and> reverseSwaps (transactionWaitSettled 0 WaitResolved exampleRun
       (listenContractTransaction
          (exampleReverseSwap ''r5'' ''RBTC/BTC'' TransactionConfirmed (Some ''0xt1'') None)
          \<lparr>hash = ''0xt1''\<rparr>
          (exampleState []
             [exampleReverseSwap ''r5'' ''RBTC/BTC'' TransactionMempool (Some ''0xt1'') None])))
     = [exampleReverseSwap ''r5'' ''RBTC/BTC'' TransactionMempool (Some ''0xt1'') None]"
  by (simp add: transactionWaitSettled_def successCallback_def failureCallback_def
      setReverseSwapStatus_omitted exampleRun_def exampleReverseSwap_def)

text \<open>
  C6. A claim event matches a reverse swap only if the reverse swap is in the table, its
  preimage hash is that of the event and its status is not \<^verbatim>\<open>invoice.settled\<close>. When no
  reverse swap of the table is such, either handler leaves the state as it is (no event,
  no error). When one is, the handler emits exactly one \<^verbatim>\<open>claim\<close> event, with a matching
  reverse swap and the preimage revealed, and writes nothing else: the tables stay as
  they are.
\<close>

theorem claim_event_correlation:
  "(\<forall>found. getReverseSwap (claimQuery n h) st = Some found \<longrightarrow>
      found \<in> set (reverseSwaps st) \<and> SwapCommon.preimageHash found = getHexString n h
      \<and> status found \<noteq> InvoiceSettled
      \<and> listenEtherSwap_claim n transactionHash h revealed st
          = st\<lparr>emitted := emitted st @ [Claim found revealed]\<rparr>
      \<and> listenERC20Swap_claim n transactionHash h revealed st
          = st\<lparr>emitted := emitted st @ [Claim found revealed]\<rparr>)
   \<and> ((\<forall>r\<in>set (reverseSwaps st).
          \<not> (SwapCommon.preimageHash r = getHexString n h \<and> status r \<noteq> InvoiceSettled))
        \<longrightarrow> listenEtherSwap_claim n transactionHash h revealed st = st
            \<and> listenERC20Swap_claim n transactionHash h revealed st = st)
   \<and> ((\<exists>r\<in>set (reverseSwaps st).
          SwapCommon.preimageHash r = getHexString n h \<and> status r \<noteq> InvoiceSettled)
        \<longrightarrow> (\<exists>found. getReverseSwap (claimQuery n h) st = Some found))"
proof (intro conjI allI impI)
  fix found
  assume found: "getReverseSwap (claimQuery n h) st = Some found"
  then have "found \<in> set (reverseSwaps st) \<and> claimQuery n h found"
    unfolding getReverseSwap_def by (rule find_Some_set)
  then show "found \<in> set (reverseSwaps st)"
    and "SwapCommon.preimageHash found = getHexString n h"
    and "status found \<noteq> InvoiceSettled"
    by (simp_all add: claimQuery_def)
  from found show "listenEtherSwap_claim n transactionHash h revealed st
          = st\<lparr>emitted := emitted st @ [Claim found revealed]\<rparr>"
    by (simp add: listenEtherSwap_claim_def emit_def)
  from found show "listenERC20Swap_claim n transactionHash h revealed st
          = st\<lparr>emitted := emitted st @ [Claim found revealed]\<rparr>"
    by (simp add: listenERC20Swap_claim_def emit_def)
next
  assume "\<forall>r\<in>set (reverseSwaps st).
          \<not> (SwapCommon.preimageHash r = getHexString n h \<and> status r \<noteq> InvoiceSettled)"
  then have none: "getReverseSwap (claimQuery n h) st = None"
    by (simp add: getReverseSwap_def find_None_iff_set claimQuery_def)
  then show "listenEtherSwap_claim n transactionHash h revealed st = st"
    by (simp add: listenEtherSwap_claim_def)
  from none show "listenERC20Swap_claim n transactionHash h revealed st = st"
    by (simp add: listenERC20Swap_claim_def)
next
  assume "\<exists>r\<in>set (reverseSwaps st).
          SwapCommon.preimageHash r = getHexString n h \<and> status r \<noteq> InvoiceSettled"
  then have "getReverseSwap (claimQuery n h) st \<noteq> None"
    by (simp add: getReverseSwap_def find_None_iff_set claimQuery_def)
  then show "\<exists>found. getReverseSwap (claimQuery n h) st = Some found"
    by blast
qed

theorem claim_event_correlation_witness:
  "getReverseSwap (claimQuery exampleNursery [171])
     (exampleState []
        [exampleReverseSwap ''r0'' ''RBTC/BTC'' InvoiceSettled (Some ''0xt1'') None,
         exampleReverseSwap ''r1'' ''RBTC/BTC'' TransactionConfirmed (Some ''0xt1'') None])
     = Some (exampleReverseSwap ''r1'' ''RBTC/BTC'' TransactionConfirmed (Some ''0xt1'') None)
   \<and> listenEtherSwap_claim exampleNursery ''0xclaim'' [171] [1, 2, 3]
       (exampleState []
          [exampleReverseSwap ''r0'' ''RBTC/BTC'' InvoiceSettled (Some ''0xt1'') None,
           exampleReverseSwap ''r1'' ''RBTC/BTC'' TransactionConfirmed (Some ''0xt1'') None])
     = \<lparr>swaps = [],
        reverseSwaps =
          [exampleReverseSwap ''r0'' ''RBTC/BTC'' InvoiceSettled (Some ''0xt1'') None,
           exampleReverseSwap ''r1'' ''RBTC/BTC'' TransactionConfirmed (Some ''0xt1'') None],
        emitted =
          [Claim (exampleReverseSwap ''r1'' ''RBTC/BTC'' TransactionConfirmed (Some ''0xt1'') None)
             [1, 2, 3]],
        watching = [], unhandled = []\<rparr>
   \<and> listenERC20Swap_claim exampleNursery ''0xclaim'' [172] [1, 2, 3]
       (exampleState []
          [exampleReverseSwap ''r0'' ''RBTC/BTC'' InvoiceSettled (Some ''0xt1'') None,
           exampleReverseSwap ''r1'' ''RBTC/BTC'' TransactionConfirmed (Some ''0xt1'') None])
     = exampleState []
          [exampleReverseSwap ''r0'' ''RBTC/BTC'' InvoiceSettled (Some ''0xt1'') None,
           exampleReverseSwap ''r1'' ''RBTC/BTC'' TransactionConfirmed (Some ''0xt1'') None]"
proof -
  let ?st = "exampleState []
          [exampleReverseSwap ''r0'' ''RBTC/BTC'' InvoiceSettled (Some ''0xt1'') None,
           exampleReverseSwap ''r1'' ''RBTC/BTC'' TransactionConfirmed (Some ''0xt1'') None]"
  have matched: "getReverseSwap (claimQuery exampleNursery [171]) ?st
     = Some (exampleReverseSwap ''r1'' ''RBTC/BTC'' TransactionConfirmed (Some ''0xt1'') None)"
    by (simp add: getReverseSwap_def claimQuery_def example_hex exampleState_def
        exampleReverseSwap_def)
  have other: "getHexString exampleNursery [172] = ''ac''"
    by (simp add: exampleNursery_def hexDigit_def)
  have unmatched: "\<forall>r\<in>set (reverseSwaps ?st).
          \<not> (SwapCommon.preimageHash r = getHexString exampleNursery [172]
             \<and> status r \<noteq> InvoiceSettled)"
    by (simp add: other exampleState_def exampleReverseSwap_def)
  note a = claim_event_correlation
      [where n = exampleNursery and h = "[171]" and st = ?st
         and transactionHash = "''0xclaim''" and revealed = "[1, 2, 3]"]
  note b = claim_event_correlation
      [where n = exampleNursery and h = "[172]" and st = ?st
         and transactionHash = "''0xclaim''" and revealed = "[1, 2, 3]"]
  from a matched have 1: "listenEtherSwap_claim exampleNursery ''0xclaim'' [171] [1, 2, 3] ?st
     = ?st\<lparr>emitted := emitted ?st
          @ [Claim (exampleReverseSwap ''r1'' ''RBTC/BTC'' TransactionConfirmed (Some ''0xt1'') None)
               [1, 2, 3]]\<rparr>"
    by blast
  from b unmatched have 2: "listenERC20Swap_claim exampleNursery ''0xclaim'' [172] [1, 2, 3] ?st = ?st"
    by blast
  from matched 1 2 show ?thesis
    by (simp add: exampleState_def)
qed

text \<open>
  C7 (as amended). For every lockup event that matches a swap, whose amount converts to a
  number, that passes the checks before, and whose swap has an \<^verbatim>\<open>expectedAmount\<close> that is
  set, not zero and converts to the unit of the chain (for the native asset it is a whole
  number within the safe integers, taken times \<^verbatim>\<open>etherDecimals\<close>; for a token
  \<^verbatim>\<open>formatTokenAmount\<close> answers): the event is accepted, that is the lockup event is
  emitted, exactly when the amount observed is at least the expected amount in the unit
  of the chain, in exact integer arithmetic. On a shortfall the handler emits
  \<^verbatim>\<open>lockup.failed\<close> with \<^verbatim>\<open>INSUFFICIENT_AMOUNT\<close> and the swap, in the event and in the
  table, is in \<^verbatim>\<open>transaction.mempool\<close>. When the expected amount does not convert (it has
  a fraction, or is out of range), the handler emits nothing and ends on the throw.
\<close>

theorem sufficiency_check_accepts_iff_amount_covers_expected:
  "(etherLockupMatch n etherSwapValues st found
      \<and> etherAmountToNumber n (amount etherSwapValues) = Inr onchainAmount
      \<and> claimAddress etherSwapValues = address n
      \<and> timelock etherSwapValues = timeoutBlockHeight found
      \<and> expectedAmount found = Some expected \<and> expected \<noteq> 0
      \<and> bigNumberFrom expected = Inr whole \<longrightarrow>
      expected = of_int whole
      \<and> ((emitted (listenEtherSwap_lockup n transactionHash etherSwapValues st)
            = emitted st @
              [EthLockup (fst (lockupRecorded found transactionHash onchainAmount st))
                 transactionHash etherSwapValues])
          \<longleftrightarrow> whole * etherDecimals n \<le> amount etherSwapValues)
      \<and> (amount etherSwapValues < whole * etherDecimals n \<longrightarrow>
            emitted (listenEtherSwap_lockup n transactionHash etherSwapValues st)
              = emitted st @
                [LockupFailed (fst (lockupRecorded found transactionHash onchainAmount st))
                   (INSUFFICIENT_AMOUNT onchainAmount expected)]
            \<and> status (fst (lockupRecorded found transactionHash onchainAmount st))
                = TransactionMempool
            \<and> fst (lockupRecorded found transactionHash onchainAmount st)
                \<in> set (swaps (listenEtherSwap_lockup n transactionHash etherSwapValues st))))
   \<and> (etherLockupMatch n etherSwapValues st found
      \<and> etherAmountToNumber n (amount etherSwapValues) = Inr onchainAmount
      \<and> claimAddress etherSwapValues = address n
      \<and> timelock etherSwapValues = timeoutBlockHeight found
      \<and> expectedAmount found = Some expected \<and> expected \<noteq> 0
      \<and> bigNumberFrom expected = Inl fault \<longrightarrow>
      emitted (listenEtherSwap_lockup n transactionHash etherSwapValues st) = emitted st
      \<and> unhandled (listenEtherSwap_lockup n transactionHash etherSwapValues st)
          = unhandled st @ [fault])
   \<and> (erc20LockupMatch n erc20SwapValues st tokenSwap wallet
      \<and> normalizeTokenAmount (walletProvider wallet) (amount erc20SwapValues)
          = Inr tokenAmount
      \<and> claimAddress erc20SwapValues = address n
      \<and> tokenAddress erc20SwapValues = getTokenAddress (walletProvider wallet)
      \<and> timelock erc20SwapValues = timeoutBlockHeight tokenSwap
      \<and> expectedAmount tokenSwap = Some tokenExpected \<and> tokenExpected \<noteq> 0
      \<and> formatTokenAmount (walletProvider wallet) tokenExpected = Inr required \<longrightarrow>
      ((emitted (listenERC20Swap_lockup n transactionHash erc20SwapValues st)
          = emitted st @
            [Erc20Lockup (fst (lockupRecorded tokenSwap transactionHash tokenAmount st))
               transactionHash erc20SwapValues])
        \<longleftrightarrow> required \<le> amount erc20SwapValues)
      \<and> (amount erc20SwapValues < required \<longrightarrow>
            emitted (listenERC20Swap_lockup n transactionHash erc20SwapValues st)
              = emitted st @
                [LockupFailed (fst (lockupRecorded tokenSwap transactionHash tokenAmount st))
                   (INSUFFICIENT_AMOUNT tokenAmount tokenExpected)]
            \<and> status (fst (lockupRecorded tokenSwap transactionHash tokenAmount st))
                = TransactionMempool
            \<and> fst (lockupRecorded tokenSwap transactionHash tokenAmount st)
                \<in> set (swaps (listenERC20Swap_lockup n transactionHash erc20SwapValues st))))
   \<and> (erc20LockupMatch n erc20SwapValues st tokenSwap wallet
      \<and> normalizeTokenAmount (walletProvider wallet) (amount erc20SwapValues)
          = Inr tokenAmount
      \<and> claimAddress erc20SwapValues = address n
      \<and> tokenAddress erc20SwapValues = getTokenAddress (walletProvider wallet)
      \<and> timelock erc20SwapValues = timeoutBlockHeight tokenSwap
      \<and> expectedAmount tokenSwap = Some tokenExpected \<and> tokenExpected \<noteq> 0
      \<and> formatTokenAmount (walletProvider wallet) tokenExpected = Inl tokenFault \<longrightarrow>
      emitted (listenERC20Swap_lockup n transactionHash erc20SwapValues st) = emitted st
      \<and> unhandled (listenERC20Swap_lockup n transactionHash erc20SwapValues st)
          = unhandled st @ [tokenFault])"
proof (intro conjI impI; (elim conjE)?)
  assume "bigNumberFrom expected = Inr whole"
  then show "expected = of_int whole"
    by (simp add: bigNumberFrom_Inr)
next
  assume m: "etherLockupMatch n etherSwapValues st found"
    and c: "etherAmountToNumber n (amount etherSwapValues) = Inr onchainAmount"
    and passed: "claimAddress etherSwapValues = address n"
      "timelock etherSwapValues = timeoutBlockHeight found"
    and expected: "expectedAmount found = Some expected" "expected \<noteq> 0"
      "bigNumberFrom expected = Inr whole"
  show "(emitted (listenEtherSwap_lockup n transactionHash etherSwapValues st)
            = emitted st @
              [EthLockup (fst (lockupRecorded found transactionHash onchainAmount st))
                 transactionHash etherSwapValues])
          \<longleftrightarrow> whole * etherDecimals n \<le> amount etherSwapValues"
    using passed expected c
    by (simp add: ether_lockup_matched [OF m c] claimAddressCheck_def timelockCheck_def
        amountCheck_def etherExpectedAmount_def announced_def not_less)
next
  assume m: "etherLockupMatch n etherSwapValues st found"
    and c: "etherAmountToNumber n (amount etherSwapValues) = Inr onchainAmount"
    and passed: "claimAddress etherSwapValues = address n"
      "timelock etherSwapValues = timeoutBlockHeight found"
    and expected: "expectedAmount found = Some expected" "expected \<noteq> 0"
      "bigNumberFrom expected = Inr whole"
    and short: "amount etherSwapValues < whole * etherDecimals n"
  show "emitted (listenEtherSwap_lockup n transactionHash etherSwapValues st)
              = emitted st @
                [LockupFailed (fst (lockupRecorded found transactionHash onchainAmount st))
                   (INSUFFICIENT_AMOUNT onchainAmount expected)]"
    using passed expected c short
    by (simp add: ether_lockup_matched [OF m c] claimAddressCheck_def timelockCheck_def
        amountCheck_def etherExpectedAmount_def announced_def)
next
  show "status (fst (lockupRecorded found transactionHash onchainAmount st))
                = TransactionMempool"
    by (simp add: recorded_swap)
next
  assume m: "etherLockupMatch n etherSwapValues st found"
    and c: "etherAmountToNumber n (amount etherSwapValues) = Inr onchainAmount"
  from m have inTable: "found \<in> set (swaps st)"
    unfolding etherLockupMatch_def by (blast dest: getSwap_in_table)
  have "swaps (listenEtherSwap_lockup n transactionHash etherSwapValues st)
          = swaps (snd (lockupRecorded found transactionHash onchainAmount st))"
    by (simp add: ether_lockup_matched [OF m c])
  then show "fst (lockupRecorded found transactionHash onchainAmount st)
                \<in> set (swaps (listenEtherSwap_lockup n transactionHash etherSwapValues st))"
    using recorded_in_table [OF inTable] by simp
next
  assume m: "etherLockupMatch n etherSwapValues st found"
    and c: "etherAmountToNumber n (amount etherSwapValues) = Inr onchainAmount"
    and passed: "claimAddress etherSwapValues = address n"
      "timelock etherSwapValues = timeoutBlockHeight found"
    and expected: "expectedAmount found = Some expected" "expected \<noteq> 0"
      "bigNumberFrom expected = Inl fault"
  show "emitted (listenEtherSwap_lockup n transactionHash etherSwapValues st) = emitted st"
    using passed expected
    by (simp add: ether_lockup_matched [OF m c] claimAddressCheck_def timelockCheck_def
        amountCheck_def etherExpectedAmount_def announced_def)
next
  assume m: "etherLockupMatch n etherSwapValues st found"
    and c: "etherAmountToNumber n (amount etherSwapValues) = Inr onchainAmount"
    and passed: "claimAddress etherSwapValues = address n"
      "timelock etherSwapValues = timeoutBlockHeight found"
    and expected: "expectedAmount found = Some expected" "expected \<noteq> 0"
      "bigNumberFrom expected = Inl fault"
  show "unhandled (listenEtherSwap_lockup n transactionHash etherSwapValues st)
          = unhandled st @ [fault]"
    using passed expected
    by (simp add: ether_lockup_matched [OF m c] claimAddressCheck_def timelockCheck_def
        amountCheck_def etherExpectedAmount_def concluded_def)
next
  assume m: "erc20LockupMatch n erc20SwapValues st tokenSwap wallet"
    and c: "normalizeTokenAmount (walletProvider wallet) (amount erc20SwapValues)
          = Inr tokenAmount"
    and passed: "claimAddress erc20SwapValues = address n"
      "tokenAddress erc20SwapValues = getTokenAddress (walletProvider wallet)"
      "timelock erc20SwapValues = timeoutBlockHeight tokenSwap"
    and expected: "expectedAmount tokenSwap = Some tokenExpected" "tokenExpected \<noteq> 0"
      "formatTokenAmount (walletProvider wallet) tokenExpected = Inr required"
  show "(emitted (listenERC20Swap_lockup n transactionHash erc20SwapValues st)
          = emitted st @
            [Erc20Lockup (fst (lockupRecorded tokenSwap transactionHash tokenAmount st))
               transactionHash erc20SwapValues])
        \<longleftrightarrow> required \<le> amount erc20SwapValues"
    using passed expected c
    by (simp add: erc20_lockup_matched [OF m c] claimAddressCheck_def timelockCheck_def
        tokenAddressCheck_def amountCheck_def announced_def not_less)
next
  assume m: "erc20LockupMatch n erc20SwapValues st tokenSwap wallet"
    and c: "normalizeTokenAmount (walletProvider wallet) (amount erc20SwapValues)
          = Inr tokenAmount"
    and passed: "claimAddress erc20SwapValues = address n"
      "tokenAddress erc20SwapValues = getTokenAddress (walletProvider wallet)"
      "timelock erc20SwapValues = timeoutBlockHeight tokenSwap"
    and expected: "expectedAmount tokenSwap = Some tokenExpected" "tokenExpected \<noteq> 0"
      "formatTokenAmount (walletProvider wallet) tokenExpected = Inr required"
    and short: "amount erc20SwapValues < required"
  show "emitted (listenERC20Swap_lockup n transactionHash erc20SwapValues st)
              = emitted st @
                [LockupFailed (fst (lockupRecorded tokenSwap transactionHash tokenAmount st))
                   (INSUFFICIENT_AMOUNT tokenAmount tokenExpected)]"
    using passed expected c short
    by (simp add: erc20_lockup_matched [OF m c] claimAddressCheck_def timelockCheck_def
        tokenAddressCheck_def amountCheck_def announced_def)
next
  show "status (fst (lockupRecorded tokenSwap transactionHash tokenAmount st))
                = TransactionMempool"
    by (simp add: recorded_swap)
next
  assume m: "erc20LockupMatch n erc20SwapValues st tokenSwap wallet"
    and c: "normalizeTokenAmount (walletProvider wallet) (amount erc20SwapValues)
          = Inr tokenAmount"
  from m have inTable: "tokenSwap \<in> set (swaps st)"
    unfolding erc20LockupMatch_def by (blast dest: getSwap_in_table)
  have "swaps (listenERC20Swap_lockup n transactionHash erc20SwapValues st)
          = swaps (snd (lockupRecorded tokenSwap transactionHash tokenAmount st))"
    by (simp add: erc20_lockup_matched [OF m c])
  then show "fst (lockupRecorded tokenSwap transactionHash tokenAmount st)
                \<in> set (swaps (listenERC20Swap_lockup n transactionHash erc20SwapValues st))"
    using recorded_in_table [OF inTable] by simp
next
  assume m: "erc20LockupMatch n erc20SwapValues st tokenSwap wallet"
    and c: "normalizeTokenAmount (walletProvider wallet) (amount erc20SwapValues)
          = Inr tokenAmount"
    and passed: "claimAddress erc20SwapValues = address n"
      "tokenAddress erc20SwapValues = getTokenAddress (walletProvider wallet)"
      "timelock erc20SwapValues = timeoutBlockHeight tokenSwap"
    and expected: "expectedAmount tokenSwap = Some tokenExpected" "tokenExpected \<noteq> 0"
      "formatTokenAmount (walletProvider wallet) tokenExpected = Inl tokenFault"
  show "emitted (listenERC20Swap_lockup n transactionHash erc20SwapValues st) = emitted st"
    using passed expected
    by (simp add: erc20_lockup_matched [OF m c] claimAddressCheck_def timelockCheck_def
        tokenAddressCheck_def amountCheck_def announced_def)
next
  assume m: "erc20LockupMatch n erc20SwapValues st tokenSwap wallet"
    and c: "normalizeTokenAmount (walletProvider wallet) (amount erc20SwapValues)
          = Inr tokenAmount"
    and passed: "claimAddress erc20SwapValues = address n"
      "tokenAddress erc20SwapValues = getTokenAddress (walletProvider wallet)"
      "timelock erc20SwapValues = timeoutBlockHeight tokenSwap"
    and expected: "expectedAmount tokenSwap = Some tokenExpected" "tokenExpected \<noteq> 0"
      "formatTokenAmount (walletProvider wallet) tokenExpected = Inl tokenFault"
  show "unhandled (listenERC20Swap_lockup n transactionHash erc20SwapValues st)
          = unhandled st @ [tokenFault]"
    using passed expected
    by (simp add: erc20_lockup_matched [OF m c] claimAddressCheck_def timelockCheck_def
        tokenAddressCheck_def amountCheck_def concluded_def)
qed

theorem sufficiency_check_accepts_iff_amount_covers_expected_witness:
  "etherLockupMatch exampleNursery (exampleEtherValues (5 * 10 ^ 17) ''0xme'' 1000)
     (exampleState [exampleSwap ''s1'' ''BTC/RBTC'' SwapCreated (Some 1)] [])
     (exampleSwap ''s1'' ''BTC/RBTC'' SwapCreated (Some 1))
   \<and> etherAmountToNumber exampleNursery (5 * 10 ^ 17) = Inr 0
   \<and> bigNumberFrom 1 = Inr 1
   \<and> emitted (listenEtherSwap_lockup exampleNursery ''0xtx''
              (exampleEtherValues (5 * 10 ^ 17) ''0xme'' 1000)
              (exampleState [exampleSwap ''s1'' ''BTC/RBTC'' SwapCreated (Some 1)] []))
     = [LockupFailed
          ((exampleSwap ''s1'' ''BTC/RBTC'' TransactionMempool (Some 1))
             \<lparr>lockupTransactionId := Some ''0xtx'', minerFee := Some 0\<rparr>)
          (INSUFFICIENT_AMOUNT 0 1)]
   \<and> etherLockupMatch exampleNursery (exampleEtherValues (2 * 10 ^ 18) ''0xme'' 1000)
       (exampleState [exampleSwap ''s1'' ''BTC/RBTC'' SwapCreated (Some 1)] [])
       (exampleSwap ''s1'' ''BTC/RBTC'' SwapCreated (Some 1))
   \<and> etherAmountToNumber exampleNursery (2 * 10 ^ 18) = Inr 2
   \<and> emitted (listenEtherSwap_lockup exampleNursery ''0xtx''
              (exampleEtherValues (2 * 10 ^ 18) ''0xme'' 1000)
              (exampleState [exampleSwap ''s1'' ''BTC/RBTC'' SwapCreated (Some 1)] []))
     = [EthLockup
          ((exampleSwap ''s1'' ''BTC/RBTC'' TransactionMempool (Some 1))
             \<lparr>lockupTransactionId := Some ''0xtx'', minerFee := Some 2\<rparr>)
          ''0xtx'' (exampleEtherValues (2 * 10 ^ 18) ''0xme'' 1000)]
   \<and> etherLockupMatch exampleNursery (exampleEtherValues (5 * 10 ^ 15) ''0xme'' 1000)
       (exampleState [exampleSwap ''s1'' ''BTC/RBTC'' SwapCreated (Some (1 / 100))] [])
       (exampleSwap ''s1'' ''BTC/RBTC'' SwapCreated (Some (1 / 100)))
   \<and> etherAmountToNumber exampleNursery (5 * 10 ^ 15) = Inr 0
   \<and> bigNumberFrom (1 / 100) = Inl Underflow
   \<and> emitted (listenEtherSwap_lockup exampleNursery ''0xtx''
              (exampleEtherValues (5 * 10 ^ 15) ''0xme'' 1000)
              (exampleState [exampleSwap ''s1'' ''BTC/RBTC'' SwapCreated (Some (1 / 100))] []))
     = []
   \<and> unhandled (listenEtherSwap_lockup exampleNursery ''0xtx''
              (exampleEtherValues (5 * 10 ^ 15) ''0xme'' 1000)
              (exampleState [exampleSwap ''s1'' ''BTC/RBTC'' SwapCreated (Some (1 / 100))] []))
     = [Underflow]
   \<and> erc20LockupMatch exampleNursery (exampleERC20Values 5 ''0xme'' 1000 ''0xsov'')
       (exampleState [exampleSwap ''s2'' ''BTC/SOV'' InvoiceSet (Some 100)] [])
       (exampleSwap ''s2'' ''BTC/SOV'' InvoiceSet (Some 100)) exampleTokenWallet
   \<and> normalizeTokenAmount (walletProvider exampleTokenWallet) 5 = Inr 0
   \<and> formatTokenAmount (walletProvider exampleTokenWallet) 100 = Inr (10 ^ 12)
   \<and> emitted (listenERC20Swap_lockup exampleNursery ''0xtx''
              (exampleERC20Values 5 ''0xme'' 1000 ''0xsov'')
              (exampleState [exampleSwap ''s2'' ''BTC/SOV'' InvoiceSet (Some 100)] []))
     = [LockupFailed
          ((exampleSwap ''s2'' ''BTC/SOV'' TransactionMempool (Some 100))
             \<lparr>lockupTransactionId := Some ''0xtx'', minerFee := Some 0\<rparr>)
          (INSUFFICIENT_AMOUNT 0 100)]
   \<and> erc20LockupMatch exampleNursery (exampleERC20Values 5 ''0xme'' 1000 ''0xsov'')
       (exampleState [exampleSwap ''s2'' ''BTC/SOV'' InvoiceSet (Some (1 / 100))] [])
       (exampleSwap ''s2'' ''BTC/SOV'' InvoiceSet (Some (1 / 100))) exampleTokenWallet
   \<and> formatTokenAmount (walletProvider exampleTokenWallet) (1 / 100) = Inl Underflow
   \<and> emitted (listenERC20Swap_lockup exampleNursery ''0xtx''
              (exampleERC20Values 5 ''0xme'' 1000 ''0xsov'')
              (exampleState [exampleSwap ''s2'' ''BTC/SOV'' InvoiceSet (Some (1 / 100))] []))
     = []
   \<and> unhandled (listenERC20Swap_lockup exampleNursery ''0xtx''
              (exampleERC20Values 5 ''0xme'' 1000 ''0xsov'')
              (exampleState [exampleSwap ''s2'' ''BTC/SOV'' InvoiceSet (Some (1 / 100))] []))
     = [Underflow]"
proof -
  let ?table = "exampleState [exampleSwap ''s1'' ''BTC/RBTC'' SwapCreated (Some 1)] []"
  let ?row = "exampleSwap ''s1'' ''BTC/RBTC'' SwapCreated (Some 1)"
  let ?table2 = "exampleState [exampleSwap ''s1'' ''BTC/RBTC'' SwapCreated (Some (1 / 100))] []"
  let ?row2 = "exampleSwap ''s1'' ''BTC/RBTC'' SwapCreated (Some (1 / 100))"
  let ?tokenSt = "exampleState [exampleSwap ''s2'' ''BTC/SOV'' InvoiceSet (Some 100)] []"
  let ?tokenFound = "exampleSwap ''s2'' ''BTC/SOV'' InvoiceSet (Some 100)"
  let ?tokenSt2 = "exampleState [exampleSwap ''s2'' ''BTC/SOV'' InvoiceSet (Some (1 / 100))] []"
  let ?tokenFound2 = "exampleSwap ''s2'' ''BTC/SOV'' InvoiceSet (Some (1 / 100))"
  note whole = example_expected(1)
  note fraction = example_expected(2)
  note short = example_native_match
      [where a = "5 * 10 ^ 17" and claimant = "''0xme''" and t = 1000 and ident = "''s1''"
         and expected = "Some 1"]
  note shortAmount = example_amounts(3)
  have shortConverted: "etherAmountToNumber exampleNursery
       (amount (exampleEtherValues (5 * 10 ^ 17) ''0xme'' 1000)) = Inr 0"
    unfolding example_values by (rule example_amounts)
  note a = sufficiency_check_accepts_iff_amount_covers_expected
      [where n = exampleNursery and transactionHash = "''0xtx''"
         and etherSwapValues = "exampleEtherValues (5 * 10 ^ 17) ''0xme'' 1000"
         and st = ?table and found = ?row and onchainAmount = 0 and expected = 1
         and whole = 1]
  from a short shortConverted whole
  have 1: "emitted (listenEtherSwap_lockup exampleNursery ''0xtx''
              (exampleEtherValues (5 * 10 ^ 17) ''0xme'' 1000) ?table)
     = [LockupFailed
          ((exampleSwap ''s1'' ''BTC/RBTC'' TransactionMempool (Some 1))
             \<lparr>lockupTransactionId := Some ''0xtx'', minerFee := Some 0\<rparr>)
          (INSUFFICIENT_AMOUNT 0 1)]"
    by (simp add: example_constants example_recorded)
  note enough = example_native_match
      [where a = "2 * 10 ^ 18" and claimant = "''0xme''" and t = 1000 and ident = "''s1''"
         and expected = "Some 1"]
  note enoughAmount = example_amounts(4)
  have enoughConverted: "etherAmountToNumber exampleNursery
       (amount (exampleEtherValues (2 * 10 ^ 18) ''0xme'' 1000)) = Inr 2"
    unfolding example_values by (rule example_amounts)
  note b = sufficiency_check_accepts_iff_amount_covers_expected
      [where n = exampleNursery and transactionHash = "''0xtx''"
         and etherSwapValues = "exampleEtherValues (2 * 10 ^ 18) ''0xme'' 1000"
         and st = ?table and found = ?row and onchainAmount = 2 and expected = 1
         and whole = 1]
  from b enough enoughConverted whole
  have 2: "emitted (listenEtherSwap_lockup exampleNursery ''0xtx''
              (exampleEtherValues (2 * 10 ^ 18) ''0xme'' 1000) ?table)
     = [EthLockup
          ((exampleSwap ''s1'' ''BTC/RBTC'' TransactionMempool (Some 1))
             \<lparr>lockupTransactionId := Some ''0xtx'', minerFee := Some 2\<rparr>)
          ''0xtx'' (exampleEtherValues (2 * 10 ^ 18) ''0xme'' 1000)]"
    by (simp add: example_constants example_recorded)
  note broken = example_native_match
      [where a = "5 * 10 ^ 15" and claimant = "''0xme''" and t = 1000 and ident = "''s1''"
         and expected = "Some (1 / 100)"]
  note brokenAmount = example_amounts(2)
  have brokenConverted: "etherAmountToNumber exampleNursery
       (amount (exampleEtherValues (5 * 10 ^ 15) ''0xme'' 1000)) = Inr 0"
    unfolding example_values by (rule example_amounts)
  note c = sufficiency_check_accepts_iff_amount_covers_expected
      [where n = exampleNursery and transactionHash = "''0xtx''"
         and etherSwapValues = "exampleEtherValues (5 * 10 ^ 15) ''0xme'' 1000"
         and st = ?table2 and found = ?row2 and onchainAmount = 0 and expected = "1 / 100"
         and fault = Underflow]
  from c broken brokenConverted fraction
  have 3: "emitted (listenEtherSwap_lockup exampleNursery ''0xtx''
              (exampleEtherValues (5 * 10 ^ 15) ''0xme'' 1000) ?table2) = []"
    and 4: "unhandled (listenEtherSwap_lockup exampleNursery ''0xtx''
              (exampleEtherValues (5 * 10 ^ 15) ''0xme'' 1000) ?table2) = [Underflow]"
    by (simp_all add: example_constants)
  note token = example_token_match
      [where a = 5 and claimant = "''0xme''" and t = 1000 and token = "''0xsov''"
         and ident = "''s2''" and expected = "Some 100"]
  note tokenAmount = example_token_amounts(1)
  have tokenConverted: "normalizeTokenAmount (walletProvider exampleTokenWallet)
       (amount (exampleERC20Values 5 ''0xme'' 1000 ''0xsov'')) = Inr 0"
    unfolding example_values by (rule example_token_amounts)
  note d = sufficiency_check_accepts_iff_amount_covers_expected
      [where n = exampleNursery and transactionHash = "''0xtx''"
         and erc20SwapValues = "exampleERC20Values 5 ''0xme'' 1000 ''0xsov''"
         and st = ?tokenSt and tokenSwap = ?tokenFound and wallet = exampleTokenWallet
         and tokenAmount = 0 and tokenExpected = 100 and required = "10 ^ 12"]
  from d token tokenConverted example_token_format
  have 5: "emitted (listenERC20Swap_lockup exampleNursery ''0xtx''
              (exampleERC20Values 5 ''0xme'' 1000 ''0xsov'') ?tokenSt)
     = [LockupFailed
          ((exampleSwap ''s2'' ''BTC/SOV'' TransactionMempool (Some 100))
             \<lparr>lockupTransactionId := Some ''0xtx'', minerFee := Some 0\<rparr>)
          (INSUFFICIENT_AMOUNT 0 100)]"
    by (simp add: example_constants example_recorded example_token(1,2))
  note tokenBroken = example_token_match
      [where a = 5 and claimant = "''0xme''" and t = 1000 and token = "''0xsov''"
         and ident = "''s2''" and expected = "Some (1 / 100)"]
  note e = sufficiency_check_accepts_iff_amount_covers_expected
      [where n = exampleNursery and transactionHash = "''0xtx''"
         and erc20SwapValues = "exampleERC20Values 5 ''0xme'' 1000 ''0xsov''"
         and st = ?tokenSt2 and tokenSwap = ?tokenFound2 and wallet = exampleTokenWallet
         and tokenAmount = 0 and tokenExpected = "1 / 100" and tokenFault = Underflow]
  from e tokenBroken tokenConverted example_token_fraction
  have 6: "emitted (listenERC20Swap_lockup exampleNursery ''0xtx''
              (exampleERC20Values 5 ''0xme'' 1000 ''0xsov'') ?tokenSt2) = []"
    and 7: "unhandled (listenERC20Swap_lockup exampleNursery ''0xtx''
              (exampleERC20Values 5 ''0xme'' 1000 ''0xsov'') ?tokenSt2) = [Underflow]"
    by (simp_all add: example_constants example_token(1,2))
  from short shortAmount whole 1 enough enoughAmount 2 broken brokenAmount fraction 3 4
    token tokenAmount example_token_format 5 tokenBroken example_token_fraction 6 7
  show ?thesis by (intro conjI)
qed

theorem sufficiency_check_fractional_expected_counterexample:
  "etherLockupMatch exampleNursery (exampleEtherValues (5 * 10 ^ 15) ''0xme'' 1000)
     (exampleState [exampleSwap ''s7'' ''BTC/RBTC'' InvoiceSet (Some (1 / 100))] [])
     (exampleSwap ''s7'' ''BTC/RBTC'' InvoiceSet (Some (1 / 100)))
   \<and> (5 * 10 ^ 15 :: rat) < 1 / 100 * 10 ^ 18
   \<and> emitted (listenEtherSwap_lockup exampleNursery ''0xlock''
              (exampleEtherValues (5 * 10 ^ 15) ''0xme'' 1000)
              (exampleState [exampleSwap ''s7'' ''BTC/RBTC'' InvoiceSet (Some (1 / 100))] []))
     = []
   \<and> unhandled (listenEtherSwap_lockup exampleNursery ''0xlock''
              (exampleEtherValues (5 * 10 ^ 15) ''0xme'' 1000)
              (exampleState [exampleSwap ''s7'' ''BTC/RBTC'' InvoiceSet (Some (1 / 100))] []))
     = [Underflow]"
proof -
  let ?table = "exampleState [exampleSwap ''s7'' ''BTC/RBTC'' InvoiceSet (Some (1 / 100))] []"
  let ?row = "exampleSwap ''s7'' ''BTC/RBTC'' InvoiceSet (Some (1 / 100))"
  have matched: "etherLockupMatch exampleNursery
      (exampleEtherValues (5 * 10 ^ 15) ''0xme'' 1000) ?table ?row"
    by (simp add: etherLockupMatch_def getSwap_def lockupQuery_def exampleEtherValues_def
        example_hex exampleState_def exampleSwap_def example_chain)
  have converted: "etherAmountToNumber exampleNursery
       (amount (exampleEtherValues (5 * 10 ^ 15) ''0xme'' 1000)) = Inr 0"
    unfolding example_values by (rule example_amounts)
  have short: "(5 * 10 ^ 15 :: rat) < 1 / 100 * 10 ^ 18"
    by simp
  have verdict: "firstFailing
      [claimAddressCheck exampleNursery (exampleEtherValues (5 * 10 ^ 15) ''0xme'' 1000),
       timelockCheck (fst (lockupRecorded ?row ''0xlock'' 0 ?table))
         (exampleEtherValues (5 * 10 ^ 15) ''0xme'' 1000),
       amountCheck (etherExpectedAmount exampleNursery) (etherAmountToNumber exampleNursery)
         (fst (lockupRecorded ?row ''0xlock'' 0 ?table))
         (exampleEtherValues (5 * 10 ^ 15) ''0xme'' 1000)]
      = Throws Underflow"
    by (simp add: claimAddressCheck_def timelockCheck_def amountCheck_def
        etherExpectedAmount_def example_expected example_constants)
  have 1: "emitted (listenEtherSwap_lockup exampleNursery ''0xlock''
              (exampleEtherValues (5 * 10 ^ 15) ''0xme'' 1000) ?table) = []"
    unfolding ether_lockup_matched [OF matched converted] verdict
    by (simp add: announced_def)
  have 2: "unhandled (listenEtherSwap_lockup exampleNursery ''0xlock''
              (exampleEtherValues (5 * 10 ^ 15) ''0xme'' 1000) ?table) = [Underflow]"
    unfolding ether_lockup_matched [OF matched converted] verdict
    by (simp add: concluded_def)
  from matched short 1 2 show ?thesis by (intro conjI)
qed

text \<open>
  C8. Startup recovery attaches watchers, and only to reverse swaps of the table whose
  status is \<^verbatim>\<open>transaction.mempool\<close>: one is attached to such a reverse swap exactly when
  the currency of its settlement chain has a wallet of type \<^verbatim>\<open>Rbtc\<close> or \<^verbatim>\<open>ERC20\<close> and the
  lookup of its lockup transaction answers a transaction, with which it is attached. A
  reverse swap whose lookup throws gets no watcher. Recovery writes no row and emits
  no event.
\<close>

theorem init_recovers_pending_lockups:
  "swaps (init n st) = swaps st
   \<and> reverseSwaps (init n st) = reverseSwaps st
   \<and> emitted (init n st) = emitted st
   \<and> (\<exists>new. watching (init n st) = watching st @ new
         \<and> (\<forall>r t. (r, t) \<in> set new \<longleftrightarrow>
               r \<in> set (reverseSwaps st) \<and> status r = TransactionMempool
               \<and> (\<exists>wallet.
                     wallets n (chainCurrencyOf n (pair r) (orderSide r) True) = Some wallet
                     \<and> (currencyType wallet = Rbtc \<or> currencyType wallet = ERC20))
               \<and> getTransaction n (transactionId r) = Inr (Some t))
         \<and> (\<forall>r thrown. getTransaction n (transactionId r) = Inl thrown
               \<longrightarrow> (\<forall>t. (r, t) \<notin> set new)))"
proof (intro conjI)
  show "swaps (init n st) = swaps st"
    and "reverseSwaps (init n st) = reverseSwaps st"
    and "emitted (init n st) = emitted st"
    by (simp_all add: init_def initLoop_frame)
  let ?pending = "getReverseSwaps (\<lambda>r. status r = TransactionMempool) st"
  let ?new = "List.map_filter (recoveredWatcher n) ?pending"
  have attached: "watching (init n st) = watching st @ ?new"
    by (simp add: init_def initLoop_watching)
  have exact: "(r, t) \<in> set ?new \<longleftrightarrow>
               r \<in> set (reverseSwaps st) \<and> status r = TransactionMempool
               \<and> (\<exists>wallet.
                     wallets n (chainCurrencyOf n (pair r) (orderSide r) True) = Some wallet
                     \<and> (currencyType wallet = Rbtc \<or> currencyType wallet = ERC20))
               \<and> getTransaction n (transactionId r) = Inr (Some t)" for r t
  proof -
    have "(r, t) \<in> set ?new \<longleftrightarrow>
            (\<exists>r'\<in>set ?pending. recoveredWatcher n r' = Some (r, t))"
      by (rule in_set_map_filter)
    also have "\<dots> \<longleftrightarrow> r \<in> set ?pending
        \<and> getEthereumWallet n (chainCurrencyOf n (pair r) (orderSide r) True) \<noteq> None
        \<and> getTransaction n (transactionId r) = Inr (Some t)"
      unfolding recoveredWatcher_Some by blast
    finally show ?thesis
      unfolding getEthereumWallet_Some by (simp add: getReverseSwaps_def)
  qed
  then have "\<forall>t. (r, t) \<notin> set ?new"
    if "getTransaction n (transactionId r) = Inl thrown" for r thrown
    using that by simp
  with attached exact
  show "\<exists>new. watching (init n st) = watching st @ new
         \<and> (\<forall>r t. (r, t) \<in> set new \<longleftrightarrow>
               r \<in> set (reverseSwaps st) \<and> status r = TransactionMempool
               \<and> (\<exists>wallet.
                     wallets n (chainCurrencyOf n (pair r) (orderSide r) True) = Some wallet
                     \<and> (currencyType wallet = Rbtc \<or> currencyType wallet = ERC20))
               \<and> getTransaction n (transactionId r) = Inr (Some t))
         \<and> (\<forall>r thrown. getTransaction n (transactionId r) = Inl thrown
               \<longrightarrow> (\<forall>t. (r, t) \<notin> set new))"
    by (intro exI [of _ ?new]) blast
qed

theorem init_recovers_pending_lockups_witness:
  "init exampleNursery
     (exampleState []
        [exampleReverseSwap ''r1'' ''RBTC/BTC'' TransactionMempool (Some ''0xt1'') None,
         exampleReverseSwap ''r2'' ''RBTC/BTC'' TransactionMempool (Some ''0xlost'') None,
         exampleReverseSwap ''r3'' ''BTC/RBTC'' TransactionMempool (Some ''0xt1'') None,
         exampleReverseSwap ''r4'' ''RBTC/BTC'' TransactionConfirmed (Some ''0xt1'') None,
         exampleReverseSwap ''r5'' ''RBTC/BTC'' TransactionMempool (Some ''0xt2'') None])
     = \<lparr>swaps = [],
        reverseSwaps =
          [exampleReverseSwap ''r1'' ''RBTC/BTC'' TransactionMempool (Some ''0xt1'') None,
           exampleReverseSwap ''r2'' ''RBTC/BTC'' TransactionMempool (Some ''0xlost'') None,
           exampleReverseSwap ''r3'' ''BTC/RBTC'' TransactionMempool (Some ''0xt1'') None,
           exampleReverseSwap ''r4'' ''RBTC/BTC'' TransactionConfirmed (Some ''0xt1'') None,
           exampleReverseSwap ''r5'' ''RBTC/BTC'' TransactionMempool (Some ''0xt2'') None],
        emitted = [],
        watching =
          [(exampleReverseSwap ''r1'' ''RBTC/BTC'' TransactionMempool (Some ''0xt1'') None,
            \<lparr>hash = ''0xt1''\<rparr>)],
        unhandled = []\<rparr>"
proof -
  let ?st = "exampleState []
        [exampleReverseSwap ''r1'' ''RBTC/BTC'' TransactionMempool (Some ''0xt1'') None,
         exampleReverseSwap ''r2'' ''RBTC/BTC'' TransactionMempool (Some ''0xlost'') None,
         exampleReverseSwap ''r3'' ''BTC/RBTC'' TransactionMempool (Some ''0xt1'') None,
         exampleReverseSwap ''r4'' ''RBTC/BTC'' TransactionConfirmed (Some ''0xt1'') None,
         exampleReverseSwap ''r5'' ''RBTC/BTC'' TransactionMempool (Some ''0xt2'') None]"
  have pending: "getReverseSwaps (\<lambda>r. status r = TransactionMempool) ?st
     = [exampleReverseSwap ''r1'' ''RBTC/BTC'' TransactionMempool (Some ''0xt1'') None,
        exampleReverseSwap ''r2'' ''RBTC/BTC'' TransactionMempool (Some ''0xlost'') None,
        exampleReverseSwap ''r3'' ''BTC/RBTC'' TransactionMempool (Some ''0xt1'') None,
        exampleReverseSwap ''r5'' ''RBTC/BTC'' TransactionMempool (Some ''0xt2'') None]"
    by (simp add: getReverseSwaps_def exampleState_def exampleReverseSwap_def)
  have lookup:
    "getTransaction exampleNursery (Some ''0xt1'') = Inr (Some \<lparr>hash = ''0xt1''\<rparr>)"
    "getTransaction exampleNursery (Some ''0xt2'') = Inr None"
    "getTransaction exampleNursery (Some ''0xlost'') = Inl ''timeout''"
    by (simp_all add: exampleNursery_def)
  have watchers: "watching (init exampleNursery ?st)
     = [(exampleReverseSwap ''r1'' ''RBTC/BTC'' TransactionMempool (Some ''0xt1'') None,
         \<lparr>hash = ''0xt1''\<rparr>)]"
    unfolding init_def pending
    by (simp add: exampleReverseSwap_def example_chain example_wallets lookup exampleState_def)
  have quiet: "unhandled (init exampleNursery ?st) = unhandled ?st"
    by (simp add: init_def initLoop_unhandled)
  from init_recovers_pending_lockups [of exampleNursery ?st] watchers quiet
  have "swaps (init exampleNursery ?st) = swaps ?st
      \<and> reverseSwaps (init exampleNursery ?st) = reverseSwaps ?st
      \<and> emitted (init exampleNursery ?st) = emitted ?st
      \<and> watching (init exampleNursery ?st)
         = [(exampleReverseSwap ''r1'' ''RBTC/BTC'' TransactionMempool (Some ''0xt1'') None,
             \<lparr>hash = ''0xt1''\<rparr>)]
      \<and> unhandled (init exampleNursery ?st) = unhandled ?st"
    by blast
  then show ?thesis
    by (cases "init exampleNursery ?st") (simp add: exampleState_def)
qed

text \<open>
  C9 (as amended). For every lockup event that matches a swap whose \<^verbatim>\<open>expectedAmount\<close> is
  absent or zero and whose amount converts to a number, the amount check is skipped:
  whatever the amount observed, zero included, it rejects nothing and converts nothing,
  and when the checks before it pass the handler emits the lockup event of the contract.
  (An amount that does not convert ends the handler before any check, with no event.)
\<close>

theorem falsy_expected_amount_skips_sufficiency_check:
  "(etherLockupMatch n etherSwapValues st found
      \<and> etherAmountToNumber n (amount etherSwapValues) = Inr onchainAmount
      \<and> (expectedAmount found = None \<or> expectedAmount found = Some 0) \<longrightarrow>
      amountCheck (etherExpectedAmount n) (etherAmountToNumber n)
        (fst (lockupRecorded found transactionHash onchainAmount st)) etherSwapValues = Pass
      \<and> (claimAddress etherSwapValues = address n
           \<and> timelock etherSwapValues = timeoutBlockHeight found \<longrightarrow>
           emitted (listenEtherSwap_lockup n transactionHash etherSwapValues st)
             = emitted st @
               [EthLockup (fst (lockupRecorded found transactionHash onchainAmount st))
                  transactionHash etherSwapValues]))
   \<and> (erc20LockupMatch n erc20SwapValues st tokenSwap wallet
      \<and> normalizeTokenAmount (walletProvider wallet) (amount erc20SwapValues)
          = Inr tokenAmount
      \<and> (expectedAmount tokenSwap = None \<or> expectedAmount tokenSwap = Some 0) \<longrightarrow>
      amountCheck (formatTokenAmount (walletProvider wallet))
        (normalizeTokenAmount (walletProvider wallet))
        (fst (lockupRecorded tokenSwap transactionHash tokenAmount st))
        erc20SwapValues = Pass
      \<and> (claimAddress erc20SwapValues = address n
           \<and> tokenAddress erc20SwapValues = getTokenAddress (walletProvider wallet)
           \<and> timelock erc20SwapValues = timeoutBlockHeight tokenSwap \<longrightarrow>
           emitted (listenERC20Swap_lockup n transactionHash erc20SwapValues st)
             = emitted st @
               [Erc20Lockup (fst (lockupRecorded tokenSwap transactionHash tokenAmount st))
                  transactionHash erc20SwapValues]))"
proof (intro conjI impI; (elim conjE)?)
  assume "expectedAmount found = None \<or> expectedAmount found = Some 0"
  then show "amountCheck (etherExpectedAmount n) (etherAmountToNumber n)
        (fst (lockupRecorded found transactionHash onchainAmount st)) etherSwapValues = Pass"
    by (auto simp: amountCheck_def)
next
  assume m: "etherLockupMatch n etherSwapValues st found"
    and c: "etherAmountToNumber n (amount etherSwapValues) = Inr onchainAmount"
    and falsy: "expectedAmount found = None \<or> expectedAmount found = Some 0"
    and passed: "claimAddress etherSwapValues = address n"
      "timelock etherSwapValues = timeoutBlockHeight found"
  from falsy passed
  show "emitted (listenEtherSwap_lockup n transactionHash etherSwapValues st)
             = emitted st @
               [EthLockup (fst (lockupRecorded found transactionHash onchainAmount st))
                  transactionHash etherSwapValues]"
    by (auto simp: ether_lockup_matched [OF m c] claimAddressCheck_def
        timelockCheck_def amountCheck_def announced_def)
next
  assume "expectedAmount tokenSwap = None \<or> expectedAmount tokenSwap = Some 0"
  then show "amountCheck (formatTokenAmount (walletProvider wallet))
        (normalizeTokenAmount (walletProvider wallet))
        (fst (lockupRecorded tokenSwap transactionHash tokenAmount st))
        erc20SwapValues = Pass"
    by (auto simp: amountCheck_def)
next
  assume m: "erc20LockupMatch n erc20SwapValues st tokenSwap wallet"
    and c: "normalizeTokenAmount (walletProvider wallet) (amount erc20SwapValues)
          = Inr tokenAmount"
    and falsy: "expectedAmount tokenSwap = None \<or> expectedAmount tokenSwap = Some 0"
    and passed: "claimAddress erc20SwapValues = address n"
      "tokenAddress erc20SwapValues = getTokenAddress (walletProvider wallet)"
      "timelock erc20SwapValues = timeoutBlockHeight tokenSwap"
  from falsy passed
  show "emitted (listenERC20Swap_lockup n transactionHash erc20SwapValues st)
             = emitted st @
               [Erc20Lockup (fst (lockupRecorded tokenSwap transactionHash tokenAmount st))
                  transactionHash erc20SwapValues]"
    by (auto simp: erc20_lockup_matched [OF m c] claimAddressCheck_def
        tokenAddressCheck_def timelockCheck_def amountCheck_def announced_def)
qed

theorem falsy_expected_amount_skips_sufficiency_check_witness:
  "etherLockupMatch exampleNursery (exampleEtherValues 0 ''0xme'' 1000)
     (exampleState [exampleSwap ''s1'' ''BTC/RBTC'' SwapCreated (Some 0)] [])
     (exampleSwap ''s1'' ''BTC/RBTC'' SwapCreated (Some 0))
   \<and> etherAmountToNumber exampleNursery 0 = Inr 0
   \<and> emitted (listenEtherSwap_lockup exampleNursery ''0xtx''
                (exampleEtherValues 0 ''0xme'' 1000)
                (exampleState [exampleSwap ''s1'' ''BTC/RBTC'' SwapCreated (Some 0)] []))
     = [EthLockup
          ((exampleSwap ''s1'' ''BTC/RBTC'' TransactionMempool (Some 0))
             \<lparr>lockupTransactionId := Some ''0xtx'', minerFee := Some 0\<rparr>)
          ''0xtx'' (exampleEtherValues 0 ''0xme'' 1000)]
   \<and> erc20LockupMatch exampleNursery (exampleERC20Values 5 ''0xme'' 1000 ''0xsov'')
       (exampleState [exampleSwap ''s2'' ''BTC/SOV'' InvoiceSet None] [])
       (exampleSwap ''s2'' ''BTC/SOV'' InvoiceSet None) exampleTokenWallet
   \<and> normalizeTokenAmount (walletProvider exampleTokenWallet) 5 = Inr 0
   \<and> emitted (listenERC20Swap_lockup exampleNursery ''0xtx''
                (exampleERC20Values 5 ''0xme'' 1000 ''0xsov'')
                (exampleState [exampleSwap ''s2'' ''BTC/SOV'' InvoiceSet None] []))
     = [Erc20Lockup
          ((exampleSwap ''s2'' ''BTC/SOV'' TransactionMempool None)
             \<lparr>lockupTransactionId := Some ''0xtx'', minerFee := Some 0\<rparr>)
          ''0xtx'' (exampleERC20Values 5 ''0xme'' 1000 ''0xsov'')]"
proof -
  let ?lockup = "exampleEtherValues 0 ''0xme'' 1000"
  let ?table = "exampleState [exampleSwap ''s1'' ''BTC/RBTC'' SwapCreated (Some 0)] []"
  let ?row = "exampleSwap ''s1'' ''BTC/RBTC'' SwapCreated (Some 0)"
  let ?tokenValues = "exampleERC20Values 5 ''0xme'' 1000 ''0xsov''"
  let ?tokenSt = "exampleState [exampleSwap ''s2'' ''BTC/SOV'' InvoiceSet None] []"
  let ?tokenFound = "exampleSwap ''s2'' ''BTC/SOV'' InvoiceSet None"
  note native = example_native_match
      [where a = 0 and claimant = "''0xme''" and t = 1000 and ident = "''s1''"
         and expected = "Some 0"]
  note nativeAmount = example_amounts(1)
  have nativeConverted: "etherAmountToNumber exampleNursery (amount ?lockup) = Inr 0"
    unfolding example_values by (rule example_amounts)
  note token = example_token_match
      [where a = 5 and claimant = "''0xme''" and t = 1000 and token = "''0xsov''"
         and ident = "''s2''" and expected = None]
  note tokenAmount = example_token_amounts(1)
  have tokenConverted: "normalizeTokenAmount (walletProvider exampleTokenWallet)
       (amount ?tokenValues) = Inr 0"
    unfolding example_values by (rule example_token_amounts)
  have passed: "expectedAmount ?row = Some 0"
    "claimAddress ?lockup = address exampleNursery"
    "timelock ?lockup = timeoutBlockHeight ?row"
    by (simp_all add: example_constants)
  have tokenPassed: "expectedAmount ?tokenFound = None"
    "claimAddress ?tokenValues = address exampleNursery"
    "tokenAddress ?tokenValues = getTokenAddress (walletProvider exampleTokenWallet)"
    "timelock ?tokenValues = timeoutBlockHeight ?tokenFound"
    by (simp_all add: example_constants example_token)
  note a = falsy_expected_amount_skips_sufficiency_check
      [where n = exampleNursery and transactionHash = "''0xtx''" and etherSwapValues = ?lockup
         and st = ?table and found = ?row and onchainAmount = 0]
  note b = falsy_expected_amount_skips_sufficiency_check
      [where n = exampleNursery and transactionHash = "''0xtx''"
         and erc20SwapValues = ?tokenValues and st = ?tokenSt and tokenSwap = ?tokenFound
         and wallet = exampleTokenWallet and tokenAmount = 0]
  from a native nativeConverted passed
  have "emitted (listenEtherSwap_lockup exampleNursery ''0xtx'' ?lockup ?table)
          = emitted ?table @
            [EthLockup (fst (lockupRecorded ?row ''0xtx'' 0 ?table)) ''0xtx'' ?lockup]"
    by blast
  then have 1: "emitted (listenEtherSwap_lockup exampleNursery ''0xtx'' ?lockup ?table)
     = [EthLockup
          ((exampleSwap ''s1'' ''BTC/RBTC'' TransactionMempool (Some 0))
             \<lparr>lockupTransactionId := Some ''0xtx'', minerFee := Some 0\<rparr>)
          ''0xtx'' ?lockup]"
    by (simp add: example_recorded)
  from b token tokenConverted tokenPassed
  have "emitted (listenERC20Swap_lockup exampleNursery ''0xtx'' ?tokenValues ?tokenSt)
          = emitted ?tokenSt @
            [Erc20Lockup (fst (lockupRecorded ?tokenFound ''0xtx'' 0 ?tokenSt))
               ''0xtx'' ?tokenValues]"
    by blast
  then have 2: "emitted (listenERC20Swap_lockup exampleNursery ''0xtx'' ?tokenValues ?tokenSt)
     = [Erc20Lockup
          ((exampleSwap ''s2'' ''BTC/SOV'' TransactionMempool None)
             \<lparr>lockupTransactionId := Some ''0xtx'', minerFee := Some 0\<rparr>)
          ''0xtx'' ?tokenValues]"
    by (simp add: example_recorded)
  from native nativeAmount 1 token tokenAmount 2 show ?thesis by (intro conjI)
qed

theorem falsy_expected_amount_large_amount_counterexample:
  "etherLockupMatch exampleNursery (exampleEtherValues (2 ^ 53 * 10 ^ 18) ''0xme'' 1000)
     (exampleState [exampleSwap ''s9'' ''BTC/RBTC'' SwapCreated (Some 0)] [])
     (exampleSwap ''s9'' ''BTC/RBTC'' SwapCreated (Some 0))
   \<and> claimAddress (exampleEtherValues (2 ^ 53 * 10 ^ 18) ''0xme'' 1000)
       = address exampleNursery
   \<and> timelock (exampleEtherValues (2 ^ 53 * 10 ^ 18) ''0xme'' 1000)
       = timeoutBlockHeight (exampleSwap ''s9'' ''BTC/RBTC'' SwapCreated (Some 0))
   \<and> emitted (listenEtherSwap_lockup exampleNursery ''0xbig''
                (exampleEtherValues (2 ^ 53 * 10 ^ 18) ''0xme'' 1000)
                (exampleState [exampleSwap ''s9'' ''BTC/RBTC'' SwapCreated (Some 0)] []))
     = []
   \<and> erc20LockupMatch exampleNursery
       (exampleERC20Values (2 ^ 53 * 10 ^ 10) ''0xme'' 1000 ''0xsov'')
       (exampleState [exampleSwap ''s9'' ''BTC/SOV'' InvoiceSet None] [])
       (exampleSwap ''s9'' ''BTC/SOV'' InvoiceSet None) exampleTokenWallet
   \<and> claimAddress (exampleERC20Values (2 ^ 53 * 10 ^ 10) ''0xme'' 1000 ''0xsov'')
       = address exampleNursery
   \<and> tokenAddress (exampleERC20Values (2 ^ 53 * 10 ^ 10) ''0xme'' 1000 ''0xsov'')
       = getTokenAddress (walletProvider exampleTokenWallet)
   \<and> timelock (exampleERC20Values (2 ^ 53 * 10 ^ 10) ''0xme'' 1000 ''0xsov'')
       = timeoutBlockHeight (exampleSwap ''s9'' ''BTC/SOV'' InvoiceSet None)
   \<and> emitted (listenERC20Swap_lockup exampleNursery ''0xbig''
                (exampleERC20Values (2 ^ 53 * 10 ^ 10) ''0xme'' 1000 ''0xsov'')
                (exampleState [exampleSwap ''s9'' ''BTC/SOV'' InvoiceSet None] []))
     = []"
proof -
  let ?table = "exampleState [exampleSwap ''s9'' ''BTC/RBTC'' SwapCreated (Some 0)] []"
  let ?tokenSt = "exampleState [exampleSwap ''s9'' ''BTC/SOV'' InvoiceSet None] []"
  note native = example_native_match
      [where a = "2 ^ 53 * 10 ^ 18" and claimant = "''0xme''" and t = 1000 and ident = "''s9''"
         and expected = "Some 0"]
  have nativeThrown: "etherAmountToNumber exampleNursery
       (amount (exampleEtherValues (2 ^ 53 * 10 ^ 18) ''0xme'' 1000)) = Inl Overflow"
    unfolding example_values by (rule example_amounts)
  have passed: "claimAddress (exampleEtherValues (2 ^ 53 * 10 ^ 18) ''0xme'' 1000)
       = address exampleNursery"
    "timelock (exampleEtherValues (2 ^ 53 * 10 ^ 18) ''0xme'' 1000)
       = timeoutBlockHeight (exampleSwap ''s9'' ''BTC/RBTC'' SwapCreated (Some 0))"
    by (simp_all add: example_constants)
  have 1: "emitted (listenEtherSwap_lockup exampleNursery ''0xbig''
                (exampleEtherValues (2 ^ 53 * 10 ^ 18) ''0xme'' 1000) ?table) = []"
    unfolding ether_lockup_thrown [OF native nativeThrown] by simp
  note token = example_token_match
      [where a = "2 ^ 53 * 10 ^ 10" and claimant = "''0xme''" and t = 1000
         and token = "''0xsov''" and ident = "''s9''" and expected = None]
  have tokenThrown: "normalizeTokenAmount (walletProvider exampleTokenWallet)
       (amount (exampleERC20Values (2 ^ 53 * 10 ^ 10) ''0xme'' 1000 ''0xsov'')) = Inl Overflow"
    unfolding example_values by (rule example_token_amounts)
  have tokenPassed:
    "claimAddress (exampleERC20Values (2 ^ 53 * 10 ^ 10) ''0xme'' 1000 ''0xsov'')
       = address exampleNursery"
    "tokenAddress (exampleERC20Values (2 ^ 53 * 10 ^ 10) ''0xme'' 1000 ''0xsov'')
       = getTokenAddress (walletProvider exampleTokenWallet)"
    "timelock (exampleERC20Values (2 ^ 53 * 10 ^ 10) ''0xme'' 1000 ''0xsov'')
       = timeoutBlockHeight (exampleSwap ''s9'' ''BTC/SOV'' InvoiceSet None)"
    by (simp_all add: example_constants example_token)
  have 2: "emitted (listenERC20Swap_lockup exampleNursery ''0xbig''
                (exampleERC20Values (2 ^ 53 * 10 ^ 10) ''0xme'' 1000 ''0xsov'') ?tokenSt) = []"
    unfolding erc20_lockup_thrown [OF token tokenThrown] by simp
  from native passed 1 token tokenPassed 2 show ?thesis by (intro conjI)
qed

text \<open>
  C10 (as amended). A call of \<^verbatim>\<open>setReverseSwapStatus\<close> sets the status on the instance,
  and \<^verbatim>\<open>failureReason\<close> when the argument is given; when the argument is omitted, as on the
  path that sets \<^verbatim>\<open>transaction.confirmed\<close>, the stored \<^verbatim>\<open>failureReason\<close> is left as it
  is. When this changes nothing on the instance, nothing is written and the row stays as
  it is. Otherwise the given columns are written to the row of the instance, unless the
  database rejects the write, and then the call is rejected and no row changes. Every
  other column (identity, pair, preimage hash, timeout, miner fee, transaction id and
  vout, preimage, raw transaction) keeps its value, in the instance and in the row; the
  other rows, the swaps, the events and the watchers are untouched.
\<close>

theorem setReverseSwapStatus_writes_status_and_given_reason:
  "fst (snd (setReverseSwapStatus r s reason answer st)) =
     r\<lparr>status := s,
        failureReason := (case reason of None \<Rightarrow> failureReason r | Some given \<Rightarrow> Some given)\<rparr>
   \<and> (status r = s \<and> (reason = None \<or> reason = failureReason r) \<longrightarrow>
        setReverseSwapStatus r s reason answer st = (None, r, st))
   \<and> (\<not> (status r = s \<and> (reason = None \<or> reason = failureReason r))
        \<and> answer = None \<longrightarrow>
        fst (setReverseSwapStatus r s reason answer st) = None
        \<and> reverseSwaps (snd (snd (setReverseSwapStatus r s reason answer st))) =
            map (\<lambda>row. if swapId row = swapId r
                        then row\<lparr>status := s,
                                 failureReason :=
                                   (case reason of None \<Rightarrow> failureReason row
                                    | Some given \<Rightarrow> Some given)\<rparr>
                        else row) (reverseSwaps st))
   \<and> (\<not> (status r = s \<and> (reason = None \<or> reason = failureReason r))
        \<and> answer = Some fault \<longrightarrow>
        fst (setReverseSwapStatus r s reason answer st) = Some fault
        \<and> snd (snd (setReverseSwapStatus r s reason answer st)) = st)
   \<and> swaps (snd (snd (setReverseSwapStatus r s reason answer st))) = swaps st
   \<and> emitted (snd (snd (setReverseSwapStatus r s reason answer st))) = emitted st
   \<and> watching (snd (snd (setReverseSwapStatus r s reason answer st))) = watching st
   \<and> unhandled (snd (snd (setReverseSwapStatus r s reason answer st))) = unhandled st"
proof (cases reason)
  case None
  have same: "r\<lparr>status := s, failureReason := failureReason r\<rparr> = r\<lparr>status := s\<rparr>"
    by simp
  have unchanged: "status r = s \<Longrightarrow> r\<lparr>status := s\<rparr> = r"
    by (simp add: status_update_same)
  show ?thesis
    unfolding None setReverseSwapStatus_omitted
    by (cases answer) (simp_all add: same unchanged setReverseSwapStatus_frame)
next
  case (Some given)
  have swap: "row\<lparr>failureReason := Some given, status := s\<rparr>
      = row\<lparr>status := s, failureReason := Some given\<rparr>" for row :: ReverseSwap
    by simp
  have unchanged: "status r = s \<Longrightarrow> failureReason r = Some given
      \<Longrightarrow> r\<lparr>status := s, failureReason := Some given\<rparr> = r"
    using reason_update_same [where r = r and given = given and s = s] by (simp add: swap)
  show ?thesis
    unfolding Some setReverseSwapStatus_given
    by (cases answer) (auto simp: swap unchanged)
qed

theorem setReverseSwapStatus_writes_status_and_given_reason_witness:
  "setReverseSwapStatus
     (exampleReverseSwap ''r1'' ''RBTC/BTC'' TransactionMempool (Some ''0xt1'')
        (Some ''refund failed''))
     TransactionFailed (Some ''dropped'') None
     (exampleState []
        [exampleReverseSwap ''r1'' ''RBTC/BTC'' TransactionMempool (Some ''0xt1'')
           (Some ''refund failed'')])
     = (None,
        exampleReverseSwap ''r1'' ''RBTC/BTC'' TransactionFailed (Some ''0xt1'') (Some ''dropped''),
        exampleState []
          [exampleReverseSwap ''r1'' ''RBTC/BTC'' TransactionFailed (Some ''0xt1'')
             (Some ''dropped'')])
   \<and> setReverseSwapStatus
       (exampleReverseSwap ''r1'' ''RBTC/BTC'' TransactionMempool (Some ''0xt1'')
          (Some ''refund failed''))
       TransactionConfirmed None None
       (exampleState []
          [exampleReverseSwap ''r1'' ''RBTC/BTC'' TransactionMempool (Some ''0xt1'')
             (Some ''refund failed'')])
     = (None,
        exampleReverseSwap ''r1'' ''RBTC/BTC'' TransactionConfirmed (Some ''0xt1'')
          (Some ''refund failed''),
        exampleState []
          [exampleReverseSwap ''r1'' ''RBTC/BTC'' TransactionConfirmed (Some ''0xt1'')
             (Some ''refund failed'')])
   \<and> setReverseSwapStatus
       (exampleReverseSwap ''r1'' ''RBTC/BTC'' TransactionMempool (Some ''0xt1'') None)
       TransactionMempool None (Some (Thrown ''database''))
       (exampleState []
          [exampleReverseSwap ''r1'' ''RBTC/BTC'' TransactionMempool (Some ''0xt1'') None])
     = (None,
        exampleReverseSwap ''r1'' ''RBTC/BTC'' TransactionMempool (Some ''0xt1'') None,
        exampleState []
          [exampleReverseSwap ''r1'' ''RBTC/BTC'' TransactionMempool (Some ''0xt1'') None])
   \<and> setReverseSwapStatus
       (exampleReverseSwap ''r1'' ''RBTC/BTC'' TransactionMempool (Some ''0xt1'') None)
       TransactionConfirmed None (Some (Thrown ''database''))
       (exampleState []
          [exampleReverseSwap ''r1'' ''RBTC/BTC'' TransactionMempool (Some ''0xt1'') None])
     = (Some (Thrown ''database''),
        exampleReverseSwap ''r1'' ''RBTC/BTC'' TransactionConfirmed (Some ''0xt1'') None,
        exampleState []
          [exampleReverseSwap ''r1'' ''RBTC/BTC'' TransactionMempool (Some ''0xt1'') None])"
proof -
  let ?before = "exampleReverseSwap ''r1'' ''RBTC/BTC'' TransactionMempool (Some ''0xt1'')
        (Some ''refund failed'')"
  let ?plain = "exampleReverseSwap ''r1'' ''RBTC/BTC'' TransactionMempool (Some ''0xt1'') None"
  note given = setReverseSwapStatus_writes_status_and_given_reason
      [where r = ?before and s = TransactionFailed and reason = "Some ''dropped''"
         and answer = None and st = "exampleState [] [?before]"
         and fault = "Thrown ''database''"]
  have 1: "setReverseSwapStatus ?before TransactionFailed (Some ''dropped'') None
       (exampleState [] [?before])
     = (None,
        exampleReverseSwap ''r1'' ''RBTC/BTC'' TransactionFailed (Some ''0xt1'') (Some ''dropped''),
        exampleState []
          [exampleReverseSwap ''r1'' ''RBTC/BTC'' TransactionFailed (Some ''0xt1'')
             (Some ''dropped'')])"
    using given
    by (cases "setReverseSwapStatus ?before TransactionFailed (Some ''dropped'') None
                 (exampleState [] [?before])";
        cases "snd (snd (setReverseSwapStatus ?before TransactionFailed (Some ''dropped'') None
                 (exampleState [] [?before])))")
       (simp add: exampleReverseSwap_def exampleState_def)
  note omitted = setReverseSwapStatus_writes_status_and_given_reason
      [where r = ?before and s = TransactionConfirmed and reason = None
         and answer = None and st = "exampleState [] [?before]"
         and fault = "Thrown ''database''"]
  have 2: "setReverseSwapStatus ?before TransactionConfirmed None None
       (exampleState [] [?before])
     = (None,
        exampleReverseSwap ''r1'' ''RBTC/BTC'' TransactionConfirmed (Some ''0xt1'')
          (Some ''refund failed''),
        exampleState []
          [exampleReverseSwap ''r1'' ''RBTC/BTC'' TransactionConfirmed (Some ''0xt1'')
             (Some ''refund failed'')])"
    using omitted
    by (cases "setReverseSwapStatus ?before TransactionConfirmed None None
                 (exampleState [] [?before])";
        cases "snd (snd (setReverseSwapStatus ?before TransactionConfirmed None None
                 (exampleState [] [?before])))")
       (simp add: exampleReverseSwap_def exampleState_def)
  note idle = setReverseSwapStatus_writes_status_and_given_reason
      [where r = ?plain and s = TransactionMempool and reason = None
         and answer = "Some (Thrown ''database'')" and st = "exampleState [] [?plain]"
         and fault = "Thrown ''database''"]
  have 3: "setReverseSwapStatus ?plain TransactionMempool None (Some (Thrown ''database''))
       (exampleState [] [?plain])
     = (None, ?plain, exampleState [] [?plain])"
    using idle by (simp add: exampleReverseSwap_def)
  note refused = setReverseSwapStatus_writes_status_and_given_reason
      [where r = ?plain and s = TransactionConfirmed and reason = None
         and answer = "Some (Thrown ''database'')" and st = "exampleState [] [?plain]"
         and fault = "Thrown ''database''"]
  have 4: "setReverseSwapStatus ?plain TransactionConfirmed None (Some (Thrown ''database''))
       (exampleState [] [?plain])
     = (Some (Thrown ''database''),
        exampleReverseSwap ''r1'' ''RBTC/BTC'' TransactionConfirmed (Some ''0xt1'') None,
        exampleState [] [?plain])"
    using refused
    by (cases "setReverseSwapStatus ?plain TransactionConfirmed None
                 (Some (Thrown ''database'')) (exampleState [] [?plain])")
       (simp add: exampleReverseSwap_def)
  from 1 2 3 4 show ?thesis by (intro conjI)
qed

theorem setReverseSwapStatus_omitted_reason_counterexample:
  "failureReason
     (fst (snd (setReverseSwapStatus
             (exampleReverseSwap ''r1'' ''RBTC/BTC'' TransactionMempool (Some ''0xt1'')
                (Some ''refund failed''))
             TransactionConfirmed None None
             (exampleState []
                [exampleReverseSwap ''r1'' ''RBTC/BTC'' TransactionMempool (Some ''0xt1'')
                   (Some ''refund failed'')]))))
     = Some ''refund failed''
   \<and> map failureReason
       (reverseSwaps
          (snd (snd (setReverseSwapStatus
                  (exampleReverseSwap ''r1'' ''RBTC/BTC'' TransactionMempool (Some ''0xt1'')
                     (Some ''refund failed''))
                  TransactionConfirmed None None
                  (exampleState []
                     [exampleReverseSwap ''r1'' ''RBTC/BTC'' TransactionMempool (Some ''0xt1'')
                        (Some ''refund failed'')])))))
     = [Some ''refund failed'']
   \<and> map status
       (reverseSwaps
          (snd (snd (setReverseSwapStatus
                  (exampleReverseSwap ''r1'' ''RBTC/BTC'' TransactionConfirmed (Some ''0xt1'')
                     None)
                  TransactionConfirmed None None
                  (exampleState []
                     [exampleReverseSwap ''r1'' ''RBTC/BTC'' InvoiceSettled (Some ''0xt1'')
                        None])))))
     = [InvoiceSettled]"
  by (simp add: setReverseSwapStatus_omitted exampleReverseSwap_def)

end
